theory Spec2Isabelle
  imports Complex_Main "HOL-Library.Log_Nat"
begin

section \<open>Python text primitives\<close>

text \<open>
  A text is a list of 8-bit characters, read as the code points U+0000 to U+00FF of a
  Python \<open>unicode\<close> string: the editor's parameter values, mix names and percentage or
  spacing cells. \<open>unicode.strip\<close>, \<open>unicode.isdigit\<close> and \<open>unicode.lower\<close> are modelled on
  that range. The white space of that range is U+0009 to U+000D, U+001C to U+001F, the
  space, U+0085 (next line) and U+00A0 (no-break space).
\<close>

definition is_space :: "char \<Rightarrow> bool" where
  "is_space c = (c \<in> set [CHR 0x09, CHR 0x0A, CHR 0x0B, CHR 0x0C, CHR 0x0D,
                            CHR 0x1C, CHR 0x1D, CHR 0x1E, CHR 0x1F, CHR '' '',
                            CHR 0x85, CHR 0xA0])"

text \<open>The decimal digits that \<open>int\<close> and \<open>float\<close> read.\<close>

definition is_digit :: "char \<Rightarrow> bool" where
  "is_digit c = (c \<in> set ''0123456789'')"

text \<open>
  \<open>ch.isdigit()\<close>: on that range the decimal digits and the superscripts U+00B2, U+00B3
  and U+00B9, which carry a digit value without being decimal digits.
\<close>

definition isdigit :: "char \<Rightarrow> bool" where
  "isdigit c = (is_digit c \<or> c \<in> set [CHR 0xB2, CHR 0xB3, CHR 0xB9])"

definition lstrip :: "string \<Rightarrow> string" where
  "lstrip s = dropWhile is_space s"

definition rstrip :: "string \<Rightarrow> string" where
  "rstrip s = rev (dropWhile is_space (rev s))"

definition strip :: "string \<Rightarrow> string" where
  "strip s = rstrip (lstrip s)"

text \<open>\<open>s.rstrip(c)\<close> for a one-character argument.\<close>

definition rstrip_char :: "char \<Rightarrow> string \<Rightarrow> string" where
  "rstrip_char c s = rev (dropWhile (\<lambda>x. x = c) (rev s))"

text \<open>
  The capitals of that range and their small letters: \<open>A\<close> to \<open>Z\<close>, and U+00C0 to
  U+00DE without the multiplication sign U+00D7. Every other character of the range is its
  own lower case.
\<close>

definition capitals :: string where
  "capitals = ''ABCDEFGHIJKLMNOPQRSTUVWXYZ''
     @ [CHR 0xC0, CHR 0xC1, CHR 0xC2, CHR 0xC3, CHR 0xC4, CHR 0xC5, CHR 0xC6, CHR 0xC7,
        CHR 0xC8, CHR 0xC9, CHR 0xCA, CHR 0xCB, CHR 0xCC, CHR 0xCD, CHR 0xCE, CHR 0xCF,
        CHR 0xD0, CHR 0xD1, CHR 0xD2, CHR 0xD3, CHR 0xD4, CHR 0xD5, CHR 0xD6,
        CHR 0xD8, CHR 0xD9, CHR 0xDA, CHR 0xDB, CHR 0xDC, CHR 0xDD, CHR 0xDE]"

definition small_letters :: string where
  "small_letters = ''abcdefghijklmnopqrstuvwxyz''
     @ [CHR 0xE0, CHR 0xE1, CHR 0xE2, CHR 0xE3, CHR 0xE4, CHR 0xE5, CHR 0xE6, CHR 0xE7,
        CHR 0xE8, CHR 0xE9, CHR 0xEA, CHR 0xEB, CHR 0xEC, CHR 0xED, CHR 0xEE, CHR 0xEF,
        CHR 0xF0, CHR 0xF1, CHR 0xF2, CHR 0xF3, CHR 0xF4, CHR 0xF5, CHR 0xF6,
        CHR 0xF8, CHR 0xF9, CHR 0xFA, CHR 0xFB, CHR 0xFC, CHR 0xFD, CHR 0xFE]"

definition to_lower :: "char \<Rightarrow> char" where
  "to_lower c = (case map_of (zip capitals small_letters) c of Some l \<Rightarrow> l | None \<Rightarrow> c)"

definition lower :: "string \<Rightarrow> string" where
  "lower s = map to_lower s"

text \<open>
  \<open>s.replace(old, new)\<close> for a non-empty \<open>old\<close>: the occurrences are replaced from the
  left and do not overlap.
\<close>

fun replace :: "string \<Rightarrow> string \<Rightarrow> string \<Rightarrow> string" where
  "replace old new [] = []"
| "replace old new (c # cs) =
     (if old \<noteq> [] \<and> take (length old) (c # cs) = old
      then new @ replace old new (drop (length old - 1) cs)
      else c # replace old new cs)"

subsection \<open>Decimal numerals\<close>

definition digit_char :: "nat \<Rightarrow> char" where
  "digit_char d = ''0123456789'' ! d"

definition digit_val :: "char \<Rightarrow> nat" where
  "digit_val c = of_char c - 48"

fun str_nat :: "nat \<Rightarrow> string" where
  "str_nat n = (if n < 10 then [digit_char n] else str_nat (n div 10) @ [digit_char (n mod 10)])"

declare str_nat.simps [simp del]

text \<open>\<open>unicode(i)\<close> for an integer (a Python 2 long prints without suffix).\<close>

definition str_int :: "int \<Rightarrow> string" where
  "str_int i = (if i < 0 then CHR ''-'' # str_nat (nat (- i)) else str_nat (nat i))"

definition nat_of_digits :: "string \<Rightarrow> nat" where
  "nat_of_digits s = foldl (\<lambda>a c. 10 * a + digit_val c) 0 s"

text \<open>The digits of \<open>n\<close> padded with zeros on the left to the width \<open>w\<close>.\<close>

definition pad_digits :: "nat \<Rightarrow> nat \<Rightarrow> string" where
  "pad_digits w n = replicate (w - length (str_nat n)) CHR ''0'' @ str_nat n"

section \<open>Python floats\<close>

text \<open>
  A Python float is an IEEE 754 binary64 value: a sign and a magnitude that is a rational
  with a 53 bit significand, an infinity, or a NaN. Every arithmetic operation computes
  the exact rational result and rounds it to the nearest representable value, ties to
  even (\<open>rnd\<close>), as the hardware does; a result of magnitude \<open>2 ^ 1024\<close> or more is an
  infinity.
\<close>

datatype pyfloat = Finite bool rat | Inf bool | NaN

definition pow2 :: "int \<Rightarrow> rat" where
  "pow2 q = (if 0 \<le> q then 2 ^ nat q else 1 / 2 ^ nat (- q))"

definition floor_log2 :: "rat \<Rightarrow> int" where
  "floor_log2 x = (if 1 \<le> x then bitlen \<lfloor>x\<rfloor> - 1 else - bitlen (\<lceil>1 / x\<rceil> - 1))"

definition round_half_even :: "rat \<Rightarrow> int" where
  "round_half_even x =
     (let f = \<lfloor>x\<rfloor>; d = x - of_int f
      in if d < 1 / 2 then f else if 1 / 2 < d then f + 1 else if even f then f else f + 1)"

text \<open>
  Rounding of a non-negative rational to binary64: \<open>None\<close> is the overflow to infinity.
  Below \<open>2 ^ - 1022\<close> the spacing stays \<open>2 ^ - 1074\<close> (subnormal numbers).
\<close>

definition rnd :: "rat \<Rightarrow> rat option" where
  "rnd x =
     (if x = 0 then Some 0
      else let e = floor_log2 x; q = max (e - 52) (- 1074);
               r = of_int (round_half_even (x / pow2 q)) * pow2 q
           in if e < 1023 then Some r else if pow2 1024 \<le> r then None else Some r)"

definition mk_float :: "bool \<Rightarrow> rat \<Rightarrow> pyfloat" where
  "mk_float neg x = (case rnd x of None \<Rightarrow> Inf neg | Some r \<Rightarrow> Finite neg r)"

text \<open>The signed value of a finite float, and the float nearest to a signed rational.\<close>

definition fval :: "bool \<Rightarrow> rat \<Rightarrow> rat" where
  "fval neg x = (if neg then - x else x)"

definition float_of_rat :: "rat \<Rightarrow> pyfloat" where
  "float_of_rat v = mk_float (v < 0) \<bar>v\<bar>"

definition float_of_int :: "int \<Rightarrow> pyfloat" where
  "float_of_int i = float_of_rat (of_int i)"

fun fmul :: "pyfloat \<Rightarrow> pyfloat \<Rightarrow> pyfloat" where
  "fmul (Finite s x) (Finite t y) = mk_float (s \<noteq> t) (x * y)"
| "fmul (Finite s x) (Inf t) = (if x = 0 then NaN else Inf (s \<noteq> t))"
| "fmul (Inf s) (Finite t y) = (if y = 0 then NaN else Inf (s \<noteq> t))"
| "fmul (Inf s) (Inf t) = Inf (s \<noteq> t)"
| "fmul _ _ = NaN"

text \<open>Division; every divisor in the program is a non-zero finite constant.\<close>

fun fdiv :: "pyfloat \<Rightarrow> pyfloat \<Rightarrow> pyfloat" where
  "fdiv (Finite s x) (Finite t y) = (if y = 0 then NaN else mk_float (s \<noteq> t) (x / y))"
| "fdiv (Inf s) (Finite t y) = Inf (s \<noteq> t)"
| "fdiv (Finite s x) (Inf t) = Finite (s \<noteq> t) 0"
| "fdiv _ _ = NaN"

fun fsub :: "pyfloat \<Rightarrow> pyfloat \<Rightarrow> pyfloat" where
  "fsub (Finite s x) (Finite t y) =
     (if fval s x = fval t y then Finite (s \<and> \<not> t) 0 else float_of_rat (fval s x - fval t y))"
| "fsub (Finite s x) (Inf t) = Inf (\<not> t)"
| "fsub (Inf s) (Finite t y) = Inf s"
| "fsub (Inf s) (Inf t) = (if s = t then NaN else Inf s)"
| "fsub _ _ = NaN"

fun fadd :: "pyfloat \<Rightarrow> pyfloat \<Rightarrow> pyfloat" where
  "fadd (Finite s x) (Finite t y) =
     (if fval s x + fval t y = 0 then Finite (s \<and> t) 0 else float_of_rat (fval s x + fval t y))"
| "fadd (Finite s x) (Inf t) = Inf t"
| "fadd (Inf s) (Finite t y) = Inf s"
| "fadd (Inf s) (Inf t) = (if s = t then Inf s else NaN)"
| "fadd _ _ = NaN"

fun fabs :: "pyfloat \<Rightarrow> pyfloat" where
  "fabs (Finite s x) = Finite False x"
| "fabs (Inf s) = Inf False"
| "fabs NaN = NaN"

text \<open>Comparisons: a NaN compares false with everything.\<close>

fun flt :: "pyfloat \<Rightarrow> pyfloat \<Rightarrow> bool" where
  "flt (Finite s x) (Finite t y) = (fval s x < fval t y)"
| "flt (Finite s x) (Inf t) = (\<not> t)"
| "flt (Inf s) (Finite t y) = s"
| "flt (Inf s) (Inf t) = (s \<and> \<not> t)"
| "flt _ _ = False"

fun fle :: "pyfloat \<Rightarrow> pyfloat \<Rightarrow> bool" where
  "fle (Finite s x) (Finite t y) = (fval s x \<le> fval t y)"
| "fle (Finite s x) (Inf t) = (\<not> t)"
| "fle (Inf s) (Finite t y) = s"
| "fle (Inf s) (Inf t) = (s \<or> \<not> t)"
| "fle _ _ = False"

text \<open>
  \<open>round(x)\<close> of Python 2: to the nearest integer, halves away from zero, as a float
  of the same sign.
\<close>

fun py_round :: "pyfloat \<Rightarrow> pyfloat" where
  "py_round (Finite s x) = Finite s (of_int \<lfloor>x + 1 / 2\<rfloor>)"
| "py_round f = f"

datatype py_error = ValueError | OverflowError | TypeError | HostError

text \<open>\<open>int(x)\<close> of a float truncates; it raises on an infinity and on a NaN.\<close>

fun py_int_of_float :: "pyfloat \<Rightarrow> py_error + int" where
  "py_int_of_float (Finite s x) = Inr (if s then - \<lfloor>x\<rfloor> else \<lfloor>x\<rfloor>)"
| "py_int_of_float (Inf s) = Inl OverflowError"
| "py_int_of_float NaN = Inl ValueError"

text \<open>
  \<open>float(s)\<close> on a text: white space around it, an optional sign, then \<open>inf\<close>,
  \<open>infinity\<close> or \<open>nan\<close> in any case, or decimal digits with at most one dot, at least
  one digit, and an optional exponent. \<open>None\<close> is the \<open>ValueError\<close>. The value is the
  decimal, correctly rounded.
\<close>

definition pow10 :: "int \<Rightarrow> rat" where
  "pow10 k = (if 0 \<le> k then 10 ^ nat k else 1 / 10 ^ nat (- k))"

definition parse_exponent :: "string \<Rightarrow> int option" where
  "parse_exponent s =
     (let neg = (s \<noteq> [] \<and> hd s = CHR ''-'');
          body = (if s \<noteq> [] \<and> (hd s = CHR ''-'' \<or> hd s = CHR ''+'') then tl s else s)
      in if body \<noteq> [] \<and> list_all is_digit body
         then Some (if neg then - int (nat_of_digits body) else int (nat_of_digits body))
         else None)"

definition parse_decimal :: "string \<Rightarrow> rat option" where
  "parse_decimal s =
     (let ip = takeWhile is_digit s;
          r1 = dropWhile is_digit s;
          has_dot = (r1 \<noteq> [] \<and> hd r1 = CHR ''.'');
          fp = (if has_dot then takeWhile is_digit (tl r1) else []);
          r2 = (if has_dot then dropWhile is_digit (tl r1) else r1);
          m = of_nat (nat_of_digits (ip @ fp)) / 10 ^ length fp
      in if ip = [] \<and> fp = [] then None
         else if r2 = [] then Some m
         else if hd r2 = CHR ''e'' \<or> hd r2 = CHR ''E''
              then map_option (\<lambda>k. m * pow10 k) (parse_exponent (tl r2))
              else None)"

definition py_float :: "string \<Rightarrow> pyfloat option" where
  "py_float s =
     (let t = strip s;
          neg = (t \<noteq> [] \<and> hd t = CHR ''-'');
          body = (if t \<noteq> [] \<and> (hd t = CHR ''-'' \<or> hd t = CHR ''+'') then tl t else t)
      in if lower body = ''inf'' \<or> lower body = ''infinity'' then Some (Inf neg)
         else if lower body = ''nan'' then Some NaN
         else map_option (mk_float neg) (parse_decimal body))"

text \<open>
  \<open>'%.pf' % x\<close> for \<open>p > 0\<close>: the exact value rounded to \<open>p\<close> decimals, ties to even.
\<close>

fun format_fixed :: "nat \<Rightarrow> pyfloat \<Rightarrow> string" where
  "format_fixed p (Finite s x) =
     (let n = nat (round_half_even (x * 10 ^ p))
      in (if s then ''-'' else []) @ str_nat (n div 10 ^ p) @ ''.'' @ pad_digits p (n mod 10 ^ p))"
| "format_fixed p (Inf s) = (if s then ''-inf'' else ''inf'')"
| "format_fixed p NaN = ''nan''"

text \<open>The float literals of the program.\<close>

definition f_1 :: pyfloat where "f_1 = Finite False 1"
definition f_100 :: pyfloat where "f_100 = Finite False 100"
definition f_1000 :: pyfloat where "f_1000 = Finite False 1000"
definition f_1e_9 :: pyfloat where "f_1e_9 = float_of_rat (1 / 10 ^ 9)"
definition f_1e_6 :: pyfloat where "f_1e_6 = float_of_rat (1 / 10 ^ 6)"

section \<open>Percentage and spacing conversions\<close>

text \<open>\<open>_to_unicode\<close> on the values the conversions receive: \<open>None\<close> or a text.\<close>

definition to_unicode :: "string option \<Rightarrow> string" where
  "to_unicode v = (case v of None \<Rightarrow> [] | Some s \<Rightarrow> s)"

definition pct_raw_to_display :: "string option \<Rightarrow> py_error + string" where
  "pct_raw_to_display raw =
     (let s = strip (to_unicode raw)
      in if s = [] then Inr []
         else let s1 = replace '','' ''.'' (replace ''%'' [] s);
                  s_num = strip (filter (\<lambda>ch. isdigit ch \<or> ch \<in> set ''.-'') s1)
              in if s_num = [] then Inr []
                 else case py_float s_num of
                        None \<Rightarrow> Inr []
                      | Some val \<Rightarrow>
                          let perc = (if fle val (fadd f_1 f_1e_9) then fmul val f_100 else val)
                          in case py_int_of_float (py_round perc) of
                               Inl e \<Rightarrow> Inl e
                             | Inr int_perc \<Rightarrow>
                                 let num_str =
                                       (if flt (fabs (fsub perc (float_of_int int_perc))) f_1e_6
                                        then str_int int_perc
                                        else rstrip_char CHR ''.''
                                               (rstrip_char CHR ''0'' (format_fixed 2 perc)))
                                 in Inr (num_str @ ''%''))"

definition pct_display_to_raw :: "string option \<Rightarrow> string" where
  "pct_display_to_raw display =
     (let s = strip (to_unicode display)
      in if s = [] then []
         else let s1 = replace '','' ''.'' (replace ''%'' [] s);
                  s_num = strip (filter (\<lambda>ch. isdigit ch \<or> ch \<in> set ''.-'') s1)
              in if s_num = [] then []
                 else case py_float s_num of
                        None \<Rightarrow> []
                      | Some val \<Rightarrow>
                          let raw = (if flt (fadd f_1 f_1e_9) val then fdiv val f_100 else val);
                              raw_str = rstrip_char CHR ''.''
                                          (rstrip_char CHR ''0'' (format_fixed 4 raw))
                          in if raw_str = [] then ''0'' else raw_str)"

definition space_raw_to_display :: "string option \<Rightarrow> py_error + string" where
  "space_raw_to_display raw =
     (let s = strip (to_unicode raw)
      in if s = [] then Inr []
         else let s_num = strip (replace '','' ''.''
                                   (filter (\<lambda>ch. isdigit ch \<or> ch \<in> set ''.,-'') s))
              in if s_num = [] then Inr []
                 else case py_float s_num of
                        None \<Rightarrow> Inr []
                      | Some mm \<Rightarrow>
                          let m_val = fdiv mm f_1000
                          in case py_int_of_float (py_round m_val) of
                               Inl e \<Rightarrow> Inl e
                             | Inr int_m \<Rightarrow>
                                 let num_str =
                                       (if flt (fabs (fsub m_val (float_of_int int_m))) f_1e_6
                                        then str_int int_m
                                        else rstrip_char CHR ''.''
                                               (rstrip_char CHR ''0'' (format_fixed 3 m_val)))
                                 in Inr (num_str @ ''m''))"

definition space_display_to_raw :: "string option \<Rightarrow> py_error + string" where
  "space_display_to_raw display =
     (let s = lower (strip (to_unicode display))
      in if s = [] then Inr []
         else let s1 = replace ''m'' [] (replace ''mm'' [] s);
                  s_num = strip (replace '','' ''.''
                                   (filter (\<lambda>ch. isdigit ch \<or> ch \<in> set ''.,-'') s1))
              in if s_num = [] then Inr []
                 else case py_float s_num of
                        None \<Rightarrow> Inr []
                      | Some m_val \<Rightarrow>
                          (case py_int_of_float (py_round (fmul m_val f_1000)) of
                             Inl e \<Rightarrow> Inl e
                           | Inr mm_int \<Rightarrow> Inr (str_int mm_int)))"

section \<open>Elements and their parameters\<close>

datatype storage_type = StNone | StInteger | StDouble | StString | StElementId

text \<open>
  A parameter of the host document, as the scripts read it: its storage type, whether it
  holds a value, and what each accessor returns. \<open>AsValueString\<close> may raise in the host;
  \<open>AsDoubleText\<close> is \<open>str(p.AsDouble())\<close>.
\<close>

record param =
  StorageType :: storage_type
  HasValue :: bool
  AsString :: "string option"
  AsInteger :: int
  AsValueString :: "py_error + string option"
  AsDoubleText :: string

text \<open>
  An element is its \<open>LookupParameter\<close>: for a name, the host raises, finds nothing, or
  returns the parameter.
\<close>

type_synonym element = "string \<Rightarrow> py_error + param option"

definition get_param :: "element \<Rightarrow> string \<Rightarrow> string option" where
  "get_param el name =
     (case (case el name of Inl ex \<Rightarrow> None | Inr p \<Rightarrow> p) of
        None \<Rightarrow> None
      | Some p \<Rightarrow>
          if \<not> HasValue p then None
          else (case StorageType p of
                  StString \<Rightarrow> AsString p
                | StInteger \<Rightarrow> Some (str_int (AsInteger p))
                | StDouble \<Rightarrow>
                    (case AsValueString p of Inr v \<Rightarrow> v | Inl ex \<Rightarrow> Some (AsDoubleText p))
                | _ \<Rightarrow> (case AsValueString p of Inr v \<Rightarrow> v | Inl ex \<Rightarrow> None)))"

section \<open>The mix model\<close>

definition MAX_SPECIES :: int where
  "MAX_SPECIES = 15"

definition PARAM_MIX_NAME :: string where
  "PARAM_MIX_NAME = ''Mix Name''"

definition PARAM_NUM_SPECIES :: string where
  "PARAM_NUM_SPECIES = ''Num_Species''"

text \<open>The name templates \<open>'S{0}_Code'.format(i)\<close> and its five siblings.\<close>

definition species_param :: "string \<Rightarrow> int \<Rightarrow> string" where
  "species_param suffix i = ''S'' @ str_int i @ ''_'' @ suffix"

text \<open>
  \<open>int(s)\<close> on a text: white space around it, an optional sign, decimal digits.
\<close>

definition py_int :: "string \<Rightarrow> py_error + int" where
  "py_int s =
     (let t = strip s;
          neg = (t \<noteq> [] \<and> hd t = CHR ''-'');
          body = (if t \<noteq> [] \<and> (hd t = CHR ''-'' \<or> hd t = CHR ''+'') then tl t else t)
      in if body \<noteq> [] \<and> list_all is_digit body
         then Inr (if neg then - int (nat_of_digits body) else int (nat_of_digits body))
         else Inl ValueError)"

record SpeciesRow =
  row_index :: int
  row_code :: string
  row_pct :: string
  row_spacing :: string
  row_bot :: string
  row_com :: string
  row_grade :: string

text \<open>\<open>x or u''\<close> on a text or \<open>None\<close>.\<close>

definition or_empty :: "string option \<Rightarrow> string" where
  "or_empty v = (case v of None \<Rightarrow> [] | Some s \<Rightarrow> s)"

definition SpeciesRow_init ::
  "int \<Rightarrow> string option \<Rightarrow> string option \<Rightarrow> string option \<Rightarrow> string option \<Rightarrow>
   string option \<Rightarrow> string option \<Rightarrow> SpeciesRow" where
  "SpeciesRow_init i c p sp b cm g =
     \<lparr>row_index = i, row_code = or_empty c, row_pct = or_empty p, row_spacing = or_empty sp,
      row_bot = or_empty b, row_com = or_empty cm, row_grade = or_empty g\<rparr>"

text \<open>
  The fields of a \<open>MixModel\<close> that carry data; the references to user-interface
  widgets are left out. \<open>'e\<close> is the colour-scheme entry, \<open>'c\<close> the host colour.
\<close>

record ('e, 'c) MixModel =
  element :: element
  mix_name :: string
  num_species :: int
  rows :: "SpeciesRow list"
  is_expanded :: bool
  dirty :: bool
  area_color_entry :: "'e option"
  area_color_dbcolor :: "'c option"
  area_color_new_dbcolor :: "'c option"

text \<open>One pass of the loop of \<open>_load_rows\<close>; a conversion that raises ends the load.\<close>

definition load_row :: "element \<Rightarrow> int \<Rightarrow> py_error + SpeciesRow" where
  "load_row el i =
     (let code_raw = get_param el (species_param ''Code'' i);
          pct_raw = get_param el (species_param ''Pct'' i);
          space_raw = get_param el (species_param ''Space'' i);
          b = get_param el (species_param ''Bot'' i);
          cm = get_param el (species_param ''Com'' i);
          g = get_param el (species_param ''Grade'' i)
      in case pct_raw_to_display pct_raw of
           Inl ex \<Rightarrow> Inl ex
         | Inr pct_display \<Rightarrow>
             (case space_raw_to_display space_raw of
                Inl ex \<Rightarrow> Inl ex
              | Inr space_display \<Rightarrow>
                  Inr (SpeciesRow_init i code_raw (Some pct_display) (Some space_display) b cm g)))"

fun load_rows_from :: "element \<Rightarrow> int list \<Rightarrow> py_error + SpeciesRow list" where
  "load_rows_from el [] = Inr []"
| "load_rows_from el (i # is) =
     (case load_row el i of
        Inl ex \<Rightarrow> Inl ex
      | Inr r \<Rightarrow> (case load_rows_from el is of Inl ex \<Rightarrow> Inl ex | Inr rs \<Rightarrow> Inr (r # rs)))"

text \<open>\<open>_load_rows\<close>: \<open>for i in range(1, self.num_species + 1)\<close>.\<close>

definition load_rows :: "element \<Rightarrow> int \<Rightarrow> py_error + SpeciesRow list" where
  "load_rows el n = load_rows_from el [1..n]"

definition MixModel_init :: "element \<Rightarrow> py_error + ('e, 'c) MixModel" where
  "MixModel_init el =
     (let name = (case get_param el PARAM_MIX_NAME of
                    None \<Rightarrow> ''(unnamed mix)''
                  | Some s \<Rightarrow> if s = [] then ''(unnamed mix)'' else s);
          ns = get_param el PARAM_NUM_SPECIES;
          n0 = (case ns of
                  None \<Rightarrow> 0
                | Some s \<Rightarrow> if s = [] then 0 else (case py_int s of Inr i \<Rightarrow> i | Inl ex \<Rightarrow> 0));
          n1 = (if n0 < 0 then 0 else n0);
          n2 = (if n1 > MAX_SPECIES then MAX_SPECIES else n1)
      in case load_rows el n2 of
           Inl ex \<Rightarrow> Inl ex
         | Inr rs \<Rightarrow>
             Inr \<lparr>element = el, mix_name = name, num_species = n2, rows = rs,
                  is_expanded = False, dirty = False, area_color_entry = None,
                  area_color_dbcolor = None, area_color_new_dbcolor = None\<rparr>)"

text \<open>\<open>for idx, row in enumerate(self.rows): row.index = idx + 1\<close>.\<close>

definition renumber :: "SpeciesRow list \<Rightarrow> SpeciesRow list" where
  "renumber rs = map (\<lambda>(idx, row). row\<lparr>row_index := int idx + 1\<rparr>) (enumerate 0 rs)"

definition remove_row_at :: "('e, 'c) MixModel \<Rightarrow> int \<Rightarrow> ('e, 'c) MixModel" where
  "remove_row_at m i =
     (if i < 0 \<or> i \<ge> int (length (rows m)) then m
      else let rs = renumber (take (nat i) (rows m) @ drop (Suc (nat i)) (rows m))
           in m\<lparr>rows := rs, num_species := int (length rs), dirty := True\<rparr>)"

definition add_row :: "('e, 'c) MixModel \<Rightarrow> ('e, 'c) MixModel" where
  "add_row m =
     (if int (length (rows m)) \<ge> MAX_SPECIES then m
      else let new_index = int (length (rows m)) + 1;
               rs = rows m @ [SpeciesRow_init new_index (Some []) (Some []) (Some [])
                                (Some []) (Some []) (Some [])]
           in m\<lparr>rows := rs, num_species := int (length rs), dirty := True\<rparr>)"

text \<open>
  \<open>on_add_row\<close> of the window: the alert when the mix is full, else \<open>add_row\<close>. The
  result is the mix and whether the alert was shown.
\<close>

definition on_add_row :: "('e, 'c) MixModel \<Rightarrow> ('e, 'c) MixModel \<times> bool" where
  "on_add_row m =
     (if int (length (rows m)) \<ge> MAX_SPECIES then (m, True) else (add_row m, False))"

text \<open>The invariant of a mix, and the numbering of its rows.\<close>

definition mix_inv :: "('e, 'c) MixModel \<Rightarrow> bool" where
  "mix_inv m =
     (0 \<le> num_species m \<and> num_species m \<le> MAX_SPECIES \<and> num_species m = int (length (rows m)))"

definition numbered :: "SpeciesRow list \<Rightarrow> bool" where
  "numbered rs = (map row_index rs = map int [1..<Suc (length rs)])"

subsection \<open>Sample mixes\<close>

text \<open>
  An annotation with \<open>Num_Species = 2\<close> stored as an integer and the code of the first
  species, the mix read from it, and a mix that already has fifteen rows.
\<close>

definition sample_element :: element where
  "sample_element = (\<lambda>name.
     if name = ''Num_Species''
     then Inr (Some \<lparr>StorageType = StInteger, HasValue = True, AsString = None, AsInteger = 2,
                      AsValueString = Inr (Some ''2''), AsDoubleText = ''2.0''\<rparr>)
     else if name = ''S1_Code''
     then Inr (Some \<lparr>StorageType = StString, HasValue = True, AsString = Some ''LOM'',
                      AsInteger = 0, AsValueString = Inr None, AsDoubleText = []\<rparr>)
     else Inr None)"

definition sample_row :: "int \<Rightarrow> string \<Rightarrow> SpeciesRow" where
  "sample_row i c = \<lparr>row_index = i, row_code = c, row_pct = [], row_spacing = [],
                      row_bot = [], row_com = [], row_grade = []\<rparr>"

definition sample_mix :: "(unit, unit) MixModel" where
  "sample_mix = \<lparr>element = sample_element, mix_name = ''(unnamed mix)'', num_species = 2,
                  rows = [sample_row 1 ''LOM'', sample_row 2 []], is_expanded = False,
                  dirty = False, area_color_entry = None, area_color_dbcolor = None,
                  area_color_new_dbcolor = None\<rparr>"

definition full_mix :: "(unit, unit) MixModel" where
  "full_mix = sample_mix\<lparr>num_species := 15, rows := map (\<lambda>i. sample_row (int i) []) [1..<16]\<rparr>"

text \<open>
  An annotation whose only parameter is \<open>Num_Species\<close> (or that has no parameter at
  all), the parameter stored as an integer or as a text, and the mix of \<open>k\<close> blank rows
  that the constructor reads from such an annotation.
\<close>

definition count_element :: "param option \<Rightarrow> element" where
  "count_element p = (\<lambda>name. if name = ''Num_Species'' then Inr p else Inr None)"

definition integer_param :: "int \<Rightarrow> param" where
  "integer_param n = \<lparr>StorageType = StInteger, HasValue = True, AsString = None, AsInteger = n,
                       AsValueString = Inr None, AsDoubleText = []\<rparr>"

definition text_param :: "string \<Rightarrow> param" where
  "text_param s = \<lparr>StorageType = StString, HasValue = True, AsString = Some s, AsInteger = 0,
                    AsValueString = Inr None, AsDoubleText = []\<rparr>"

definition blank_mix :: "element \<Rightarrow> nat \<Rightarrow> (unit, unit) MixModel" where
  "blank_mix el k = \<lparr>element = el, mix_name = ''(unnamed mix)'', num_species = int k,
                     rows = map (\<lambda>i. sample_row (int i) []) [1..<Suc k], is_expanded = False,
                     dirty = False, area_color_entry = None, area_color_dbcolor = None,
                     area_color_new_dbcolor = None\<rparr>"

section \<open>Colour-scheme entries and the link from a mix\<close>

text \<open>
  A host \<open>ElementId\<close>: its \<open>IntegerValue\<close> and \<open>Value\<close> properties and \<open>int(eid)\<close>,
  each of which may raise depending on the host version.
\<close>

record element_id =
  IntegerValue :: "py_error + int"
  IdValue :: "py_error + int"
  id_as_int :: "py_error + int"

definition get_element_id_int :: "element_id option \<Rightarrow> int option" where
  "get_element_id_int eid =
     (case eid of
        None \<Rightarrow> None
      | Some d \<Rightarrow>
          (case IntegerValue d of
             Inr i \<Rightarrow> Some i
           | Inl ex \<Rightarrow>
               (case IdValue d of
                  Inr i \<Rightarrow> Some i
                | Inl ex \<Rightarrow> (case id_as_int d of Inr i \<Rightarrow> Some i | Inl ex \<Rightarrow> None))))"

text \<open>
  An entry of a colour-fill scheme, as the editor reads it. Each accessor may raise in the
  host. \<open>GetDoubleText\<close> is \<open>str(entry.GetDoubleValue())\<close>. A colour attribute is
  \<open>None\<close> when the entry lacks it, when reading it raises, or when it holds \<open>None\<close>:
  the reader treats the three alike.
\<close>

record 'c ColorFillSchemeEntry =
  EntryStorageType :: "py_error + storage_type"
  GetStringValue :: "py_error + string option"
  GetIntegerValue :: "py_error + int"
  GetDoubleText :: "py_error + string"
  GetElementIdValue :: "py_error + element_id option"
  Caption :: "py_error + string option"
  BackgroundColor :: "'c option"
  Color :: "'c option"
  ForegroundColor :: "'c option"

definition get_entry_color :: "'c ColorFillSchemeEntry \<Rightarrow> 'c option" where
  "get_entry_color entry =
     (case BackgroundColor entry of
        Some c \<Rightarrow> Some c
      | None \<Rightarrow> (case Color entry of Some c \<Rightarrow> Some c | None \<Rightarrow> ForegroundColor entry))"

definition get_color_entry_keys :: "'c ColorFillSchemeEntry \<Rightarrow> string \<times> string" where
  "get_color_entry_keys entry =
     (let st = (case EntryStorageType entry of Inr t \<Rightarrow> Some t | Inl ex \<Rightarrow> None);
          val_key =
            (if st = Some StString
             then (case GetStringValue entry of Inr v \<Rightarrow> to_unicode v | Inl ex \<Rightarrow> [])
             else if st = Some StInteger
             then (case GetIntegerValue entry of Inr i \<Rightarrow> str_int i | Inl ex \<Rightarrow> [])
             else if st = Some StDouble
             then (case GetDoubleText entry of Inr t \<Rightarrow> t | Inl ex \<Rightarrow> [])
             else (case GetElementIdValue entry of
                     Inr eid \<Rightarrow>
                       (case get_element_id_int eid of
                          None \<Rightarrow> []
                        | Some i \<Rightarrow> if i = - 1 then [] else str_int i)
                   | Inl ex \<Rightarrow> []));
          cap_key = (case Caption entry of Inr c \<Rightarrow> strip (to_unicode c) | Inl ex \<Rightarrow> [])
      in (strip val_key, cap_key))"

text \<open>
  The dictionary \<open>_color_entries_by_key\<close> is the list of its items in iteration order:
  \<open>get\<close> is \<open>map_of\<close>, and a key is stored once.
\<close>

type_synonym 'c entry_dict = "(string \<times> 'c ColorFillSchemeEntry) list"

text \<open>\<open>if key and key not in lookup: lookup[key] = entry\<close>.\<close>

definition add_key :: "'c entry_dict \<Rightarrow> string \<Rightarrow> 'c ColorFillSchemeEntry \<Rightarrow> 'c entry_dict" where
  "add_key lookup key entry =
     (if key \<noteq> [] \<and> map_of lookup key = None then lookup @ [(key, entry)] else lookup)"

text \<open>The loop over the entries at the end of \<open>_load_color_scheme\<close>.\<close>

definition build_lookup :: "'c ColorFillSchemeEntry list \<Rightarrow> 'c entry_dict" where
  "build_lookup entries =
     foldl (\<lambda>lookup entry.
              add_key (add_key lookup (fst (get_color_entry_keys entry)) entry)
                (snd (get_color_entry_keys entry)) entry)
       [] entries"

text \<open>The part of the window controller that the link uses; \<open>'s\<close> is the host scheme.\<close>

record ('s, 'c) controller =
  color_scheme :: "'s option"
  color_entries_by_key :: "'c entry_dict"

definition attach_color_to_mix ::
  "('s, 'c) controller \<Rightarrow> ('c ColorFillSchemeEntry, 'c) MixModel \<Rightarrow>
   ('c ColorFillSchemeEntry, 'c) MixModel" where
  "attach_color_to_mix ctl mix =
     (let mapping = color_entries_by_key ctl
      in if color_scheme ctl = None \<or> mapping = [] then mix
         else let key = strip (mix_name mix)
              in if key = [] then mix
                 else let entry =
                            (case map_of mapping key of
                               Some e \<Rightarrow> Some e
                             | None \<Rightarrow>
                                 map_option snd
                                   (find (\<lambda>(k, v). lower (strip k) = lower key) mapping))
                      in mix\<lparr>area_color_entry := entry,
                              area_color_new_dbcolor := None,
                              area_color_dbcolor :=
                                (case entry of Some e \<Rightarrow> get_entry_color e | None \<Rightarrow> None)\<rparr>)"

text \<open>
  The swatch of a mix reacts to a click (hand cursor, full opacity, click handler) exactly
  under this condition; else it is dimmed and has no handler.
\<close>

definition swatch_editable ::
  "('s, 'c) controller \<Rightarrow> ('c ColorFillSchemeEntry, 'c) MixModel \<Rightarrow> bool" where
  "swatch_editable ctl mix = (area_color_entry mix \<noteq> None \<and> color_scheme ctl \<noteq> None)"

text \<open>The keys of an entry, and whether an entry answers to a name.\<close>

definition entry_keys :: "'c ColorFillSchemeEntry \<Rightarrow> string list" where
  "entry_keys entry = [fst (get_color_entry_keys entry), snd (get_color_entry_keys entry)]"

definition exact_match :: "string \<Rightarrow> 'c ColorFillSchemeEntry \<Rightarrow> bool" where
  "exact_match key entry = (key \<in> set (entry_keys entry))"

definition loose_match :: "string \<Rightarrow> 'c ColorFillSchemeEntry \<Rightarrow> bool" where
  "loose_match key entry =
     list_ex (\<lambda>k. k \<noteq> [] \<and> lower (strip k) = lower key) (entry_keys entry)"

subsection \<open>A sample colour scheme\<close>

text \<open>
  Two entries, one keyed by a text and one by an integer with a caption, and a fresh mix of
  a given name. A colour is its three components.
\<close>

definition sample_entry_text :: "(nat \<times> nat \<times> nat) ColorFillSchemeEntry" where
  "sample_entry_text =
     \<lparr>EntryStorageType = Inr StString, GetStringValue = Inr (Some ''Mix A''),
      GetIntegerValue = Inl HostError, GetDoubleText = Inl HostError,
      GetElementIdValue = Inl HostError, Caption = Inr (Some ''Mix A''),
      BackgroundColor = None, Color = Some (10, 200, 30), ForegroundColor = None\<rparr>"

definition sample_entry_int :: "(nat \<times> nat \<times> nat) ColorFillSchemeEntry" where
  "sample_entry_int =
     \<lparr>EntryStorageType = Inr StInteger, GetStringValue = Inl HostError,
      GetIntegerValue = Inr 7, GetDoubleText = Inl HostError,
      GetElementIdValue = Inl HostError, Caption = Inr (Some '' Grass Mix''),
      BackgroundColor = Some (1, 2, 3), Color = None, ForegroundColor = None\<rparr>"

definition named_mix ::
  "string \<Rightarrow> ((nat \<times> nat \<times> nat) ColorFillSchemeEntry, nat \<times> nat \<times> nat) MixModel" where
  "named_mix name = \<lparr>element = (\<lambda>n. Inr None), mix_name = name, num_species = 0, rows = [],
                     is_expanded = False, dirty = False, area_color_entry = None,
                     area_color_dbcolor = None, area_color_new_dbcolor = None\<rparr>"

text \<open>
  Three more entries: one keyed by a double whose caption has a capital outside ASCII
  (U+00C9), and two keyed by an element id, read through \<open>IntegerValue\<close> and, where that
  property is gone, through \<open>Value\<close>. The controller \<open>scheme_ctl\<close> holds the dictionary
  of all five entries.
\<close>

definition sample_entry_double :: "(nat \<times> nat \<times> nat) ColorFillSchemeEntry" where
  "sample_entry_double =
     \<lparr>EntryStorageType = Inr StDouble, GetStringValue = Inl HostError,
      GetIntegerValue = Inl HostError, GetDoubleText = Inr ''2.5'',
      GetElementIdValue = Inl HostError, Caption = Inr (Some (''CAF'' @ [CHR 0xC9])),
      BackgroundColor = None, Color = None, ForegroundColor = Some (4, 5, 6)\<rparr>"

definition sample_entry_id :: "(nat \<times> nat \<times> nat) ColorFillSchemeEntry" where
  "sample_entry_id =
     \<lparr>EntryStorageType = Inr StElementId, GetStringValue = Inl HostError,
      GetIntegerValue = Inl HostError, GetDoubleText = Inl HostError,
      GetElementIdValue =
        Inr (Some \<lparr>IntegerValue = Inr 42, IdValue = Inl HostError, id_as_int = Inl HostError\<rparr>),
      Caption = Inr None,
      BackgroundColor = Some (7, 8, 9), Color = None, ForegroundColor = None\<rparr>"

definition sample_entry_id_value :: "(nat \<times> nat \<times> nat) ColorFillSchemeEntry" where
  "sample_entry_id_value =
     \<lparr>EntryStorageType = Inr StNone, GetStringValue = Inl HostError,
      GetIntegerValue = Inl HostError, GetDoubleText = Inl HostError,
      GetElementIdValue =
        Inr (Some \<lparr>IntegerValue = Inl HostError, IdValue = Inr 77, id_as_int = Inl HostError\<rparr>),
      Caption = Inl HostError,
      BackgroundColor = None, Color = None, ForegroundColor = None\<rparr>"

definition sample_entries :: "(nat \<times> nat \<times> nat) ColorFillSchemeEntry list" where
  "sample_entries = [sample_entry_text, sample_entry_int, sample_entry_double, sample_entry_id,
                     sample_entry_id_value]"

definition scheme_ctl :: "(unit, nat \<times> nat \<times> nat) controller" where
  "scheme_ctl = \<lparr>color_scheme = Some (), color_entries_by_key = build_lookup sample_entries\<rparr>"

text \<open>
  Two names outside ASCII: \<open>Mix A\<close> followed by a no-break space, and the caption of the
  double entry in small letters (U+00E9 for U+00C9).
\<close>

definition name_nbsp :: string where
  "name_nbsp = ''Mix A'' @ [CHR 0xA0]"

definition name_small :: string where
  "name_small = ''caf'' @ [CHR 0xE9]"

text \<open>Element ids that answer to \<open>int\<close> only, and an entry without an element id.\<close>

definition sample_entry_id_int :: "(nat \<times> nat \<times> nat) ColorFillSchemeEntry" where
  "sample_entry_id_int =
     sample_entry_id\<lparr>GetElementIdValue :=
       Inr (Some \<lparr>IntegerValue = Inl HostError, IdValue = Inl HostError, id_as_int = Inr 5\<rparr>)\<rparr>"

definition sample_entry_invalid :: "(nat \<times> nat \<times> nat) ColorFillSchemeEntry" where
  "sample_entry_invalid =
     sample_entry_id\<lparr>GetElementIdValue :=
       Inr (Some \<lparr>IntegerValue = Inr (- 1), IdValue = Inl HostError, id_as_int = Inl HostError\<rparr>)\<rparr>"

definition sample_entry_no_id :: "(nat \<times> nat \<times> nat) ColorFillSchemeEntry" where
  "sample_entry_no_id = sample_entry_id\<lparr>GetElementIdValue := Inr None\<rparr>"

section \<open>Writing a parameter\<close>

text \<open>
  The values that the editor passes to \<open>set_param\<close>: \<open>None\<close>, a text or an integer.
\<close>

datatype pyval = PNone | PStr string | PInt int

text \<open>The builtins \<open>int\<close>, \<open>float\<close> and \<open>str\<close> on such a value.\<close>

fun py_int_of :: "pyval \<Rightarrow> py_error + int" where
  "py_int_of PNone = Inl TypeError"
| "py_int_of (PStr s) = py_int s"
| "py_int_of (PInt i) = Inr i"

fun py_str :: "pyval \<Rightarrow> string" where
  "py_str PNone = ''None''"
| "py_str (PStr s) = s"
| "py_str (PInt i) = str_int i"

fun py_float_of :: "pyval \<Rightarrow> py_error + pyfloat" where
  "py_float_of PNone = Inl TypeError"
| "py_float_of (PStr s) = (case py_float s of None \<Rightarrow> Inl ValueError | Some f \<Rightarrow> Inr f)"
| "py_float_of (PInt i) =
     (case float_of_int i of Inf s \<Rightarrow> Inl OverflowError | f \<Rightarrow> Inr f)"

text \<open>
  What \<open>p.Set\<close> is called with, and the host side of a write: \<open>Set\<close> and
  \<open>SetValueString\<close> return the parameter as the host leaves it, or raise; a host version
  may lack \<open>SetValueString\<close>.
\<close>

datatype set_arg = SetStr string | SetInt int | SetDouble pyfloat

record host_api =
  host_Set :: "param \<Rightarrow> set_arg \<Rightarrow> py_error + param"
  host_SetValueString :: "param \<Rightarrow> string \<Rightarrow> py_error + param"
  has_SetValueString :: "param \<Rightarrow> bool"

text \<open>The body of the second \<open>try\<close> of \<open>set_param\<close>: the parameter after the write.\<close>

definition set_param_body :: "host_api \<Rightarrow> param \<Rightarrow> pyval \<Rightarrow> py_error + param" where
  "set_param_body h p v =
     (if StorageType p = StString
      then host_Set h p (case v of PNone \<Rightarrow> SetStr [] | PStr s \<Rightarrow> SetStr s | PInt i \<Rightarrow> SetInt i)
      else if StorageType p = StInteger
      then let ival = (if v = PNone \<or> v = PStr [] then 0
                       else (case py_int_of v of Inr i \<Rightarrow> i | Inl ex \<Rightarrow> 0))
           in host_Set h p (SetInt ival)
      else if StorageType p = StDouble
      then let dval =
                 (if v = PNone \<or> v = PStr [] then Finite False 0
                  else (case py_float_of v of
                          Inr f \<Rightarrow> f
                        | Inl ex \<Rightarrow>
                            (case py_float (replace '','' ''.'' (py_str v)) of
                               Some f \<Rightarrow> f
                             | None \<Rightarrow> Finite False 0)))
           in host_Set h p (SetDouble dval)
      else if has_SetValueString h p
      then (case host_SetValueString h p (py_str v) of Inr p' \<Rightarrow> Inr p' | Inl ex \<Rightarrow> Inr p)
      else Inr p)"

text \<open>
  \<open>set_param\<close>: the element after the call, or the exception that leaves the function.
\<close>

definition set_param :: "host_api \<Rightarrow> element \<Rightarrow> string \<Rightarrow> pyval \<Rightarrow> py_error + element" where
  "set_param h el name v =
     (case (case el name of Inl ex \<Rightarrow> None | Inr p \<Rightarrow> p) of
        None \<Rightarrow> Inr el
      | Some p \<Rightarrow>
          (case set_param_body h p v of
             Inl ex \<Rightarrow> Inr el
           | Inr p' \<Rightarrow> Inr (el(name := Inr (Some p')))))"

text \<open>
  The element after a write that returned \<open>r\<close>: an exception of the host is swallowed
  and leaves the element as it was.
\<close>

definition written :: "element \<Rightarrow> string \<Rightarrow> py_error + param \<Rightarrow> py_error + element" where
  "written el name r =
     (case r of Inl ex \<Rightarrow> Inr el | Inr p' \<Rightarrow> Inr (el(name := Inr (Some p'))))"

subsection \<open>A sample host\<close>

text \<open>
  A host whose \<open>Set\<close> stores a value of the parameter's own storage type and raises on any
  other, and whose \<open>SetValueString\<close> always raises; and an element with a text, an integer,
  a double and an element-id parameter.
\<close>

definition sample_host :: host_api where
  "sample_host =
     \<lparr>host_Set = (\<lambda>p a. case a of
          SetStr s \<Rightarrow> if StorageType p = StString
                      then Inr (p\<lparr>HasValue := True, AsString := Some s\<rparr>) else Inl HostError
        | SetInt i \<Rightarrow> if StorageType p = StInteger
                      then Inr (p\<lparr>HasValue := True, AsInteger := i\<rparr>) else Inl HostError
        | SetDouble f \<Rightarrow> if StorageType p = StDouble
                      then Inr (p\<lparr>HasValue := True, AsDoubleText := format_fixed 1 f\<rparr>)
                      else Inl HostError),
      host_SetValueString = (\<lambda>p s. Inl HostError),
      has_SetValueString = (\<lambda>p. True)\<rparr>"

definition blank_param :: "storage_type \<Rightarrow> param" where
  "blank_param st = \<lparr>StorageType = st, HasValue = False, AsString = None, AsInteger = 0,
                      AsValueString = Inr None, AsDoubleText = []\<rparr>"

definition typed_element :: element where
  "typed_element = (\<lambda>name.
     if name = ''Mix Name'' then Inr (Some (blank_param StString))
     else if name = ''Num_Species'' then Inr (Some (blank_param StInteger))
     else if name = ''S1_Space'' then Inr (Some (blank_param StDouble))
     else if name = ''Level'' then Inr (Some (blank_param StElementId))
     else if name = ''Broken'' then Inl HostError
     else Inr None)"

section \<open>The boundary script: geometry of the host\<close>

text \<open>
  A point of the host is its three coordinates. Coordinates and lengths are real numbers:
  the rounding of the host's doubles is left out of the geometry.
\<close>

type_synonym XYZ = "real \<times> real \<times> real"

definition X :: "XYZ \<Rightarrow> real" where "X p = fst p"
definition Y :: "XYZ \<Rightarrow> real" where "Y p = fst (snd p)"
definition Z :: "XYZ \<Rightarrow> real" where "Z p = snd (snd p)"

text \<open>\<open>(p - q).GetLength()\<close>.\<close>

definition distance :: "XYZ \<Rightarrow> XYZ \<Rightarrow> real" where
  "distance p q = sqrt ((X p - X q)\<^sup>2 + (Y p - Y q)\<^sup>2 + (Z p - Z q)\<^sup>2)"

text \<open>
  The curve services of the host, for curves of type \<open>'c\<close>; a curve loop is the list of
  its curves. \<open>Evaluate\<close> at a normalised parameter and \<open>CreateViaOffset\<close> may raise.
\<close>

record 'c curve_api =
  Evaluate :: "'c \<Rightarrow> real \<Rightarrow> py_error + XYZ"
  GetEndPoint :: "'c \<Rightarrow> nat \<Rightarrow> XYZ"
  CreateViaOffset :: "'c list \<Rightarrow> real \<Rightarrow> XYZ \<Rightarrow> py_error + 'c list"

text \<open>
  The inner loop of \<open>_sample_points_on_curveloop\<close> over the remaining indices: a failed
  evaluation appends the two end points and leaves the loop.
\<close>

fun sample_curve :: "'c curve_api \<Rightarrow> 'c \<Rightarrow> nat \<Rightarrow> nat list \<Rightarrow> XYZ list" where
  "sample_curve h crv n [] = []"
| "sample_curve h crv n (i # is) =
     (case Evaluate h crv (real i / real n) of
        Inr pt \<Rightarrow> pt # sample_curve h crv n is
      | Inl ex \<Rightarrow> [GetEndPoint h crv 0, GetEndPoint h crv 1])"

definition sample_points_on_curveloop :: "'c curve_api \<Rightarrow> 'c list \<Rightarrow> nat \<Rightarrow> XYZ list" where
  "sample_points_on_curveloop h curveloop samples_per_curve =
     concat (map (\<lambda>crv. sample_curve h crv samples_per_curve [0..<samples_per_curve]) curveloop)"

definition compute_centroid :: "XYZ list \<Rightarrow> XYZ" where
  "compute_centroid points =
     (if points = [] then (0, 0, 0)
      else (sum_list (map X points) / real (length points),
            sum_list (map Y points) / real (length points),
            sum_list (map Z points) / real (length points)))"

definition average_radius :: "'c curve_api \<Rightarrow> 'c list \<Rightarrow> XYZ \<Rightarrow> nat \<Rightarrow> real" where
  "average_radius h curveloop centroid samples_per_curve =
     (let pts = sample_points_on_curveloop h curveloop samples_per_curve
      in if pts = [] then 0
         else sum_list (map (\<lambda>p. distance p centroid) pts) / real (length pts))"

text \<open>
  The last loop of \<open>offset_loop_inwards\<close>: the state is \<open>best_loop\<close> with \<open>best_rad\<close>,
  \<open>None\<close> before the first candidate.
\<close>

definition best_step ::
  "'c curve_api \<Rightarrow> XYZ \<Rightarrow> nat \<Rightarrow> ('c list \<times> real) option \<Rightarrow> 'c list \<Rightarrow> ('c list \<times> real) option" where
  "best_step h centroid n best cl =
     (let rad = average_radius h cl centroid n
      in case best of
           None \<Rightarrow> Some (cl, rad)
         | Some (best_loop, best_rad) \<Rightarrow> if rad < best_rad then Some (cl, rad) else best)"

text \<open>\<open>offset_loop_inwards\<close>; the result \<open>None\<close> is Python's \<open>None\<close>.\<close>

definition offset_loop_inwards ::
  "'c curve_api \<Rightarrow> 'c list \<Rightarrow> real \<Rightarrow> XYZ \<Rightarrow> nat \<Rightarrow> 'c list option" where
  "offset_loop_inwards h curveloop offset_dist_feet normal samples_per_curve =
     (let orig_pts = sample_points_on_curveloop h curveloop samples_per_curve;
          centroid = compute_centroid orig_pts;
          candidates =
            (case CreateViaOffset h curveloop offset_dist_feet normal of
               Inr plus_loop \<Rightarrow> [plus_loop] | Inl ex \<Rightarrow> [])
            @ (case CreateViaOffset h curveloop (- offset_dist_feet) normal of
                 Inr minus_loop \<Rightarrow> [minus_loop] | Inl ex \<Rightarrow> [])
      in if candidates = [] then Some curveloop
         else if length candidates = 1 then Some (hd candidates)
         else map_option fst (foldl (best_step h centroid samples_per_curve) None candidates))"

text \<open>The centroid of the sampled points of a loop.\<close>

definition loop_centroid :: "'c curve_api \<Rightarrow> 'c list \<Rightarrow> nat \<Rightarrow> XYZ" where
  "loop_centroid h curveloop n = compute_centroid (sample_points_on_curveloop h curveloop n)"

subsection \<open>A sample host\<close>

text \<open>
  Curves are segments given by their end points; the host evaluates a segment at its two
  ends only. The sample loop is a diamond of half-width 2 around the point \<open>(10, 4, 0)\<close>;
  the host offsets it by \<open>1 / 60\<close> to the diamond of half-width 3 and by \<open>- 1 / 60\<close> to
  the diamond of half-width 1 around the same point, offsets the smaller one outwards and
  the larger one inwards only, and refuses every other request.
\<close>

definition diamond :: "real \<Rightarrow> (XYZ \<times> XYZ) list" where
  "diamond a = [((10 + a, 4, 0), (10, 4 + a, 0)), ((10, 4 + a, 0), (10 - a, 4, 0)),
                ((10 - a, 4, 0), (10, 4 - a, 0)), ((10, 4 - a, 0), (10 + a, 4, 0))]"

definition segment_api :: "(XYZ \<times> XYZ) curve_api" where
  "segment_api =
     \<lparr>Evaluate = (\<lambda>crv t.
        if t = 0 then Inr (fst crv) else if t = 1 then Inr (snd crv) else Inl HostError),
      GetEndPoint = (\<lambda>crv i. if i = 0 then fst crv else snd crv),
      CreateViaOffset = (\<lambda>l d nrm.
        if l = diamond 2 \<and> d = 1 / 60 then Inr (diamond 3)
        else if l = diamond 2 \<and> d = - (1 / 60) then Inr (diamond 1)
        else if l = diamond 1 \<and> d = 1 / 60 then Inr (diamond 2)
        else if l = diamond 3 \<and> d = - (1 / 60) then Inr (diamond 2)
        else Inl HostError)\<rparr>"

section \<open>The floor under a picked point\<close>

text \<open>
  The document services that the ray cast uses: the 3D views in the order of the
  collector, whether a view is a template, the \<open>ReferenceIntersector\<close> (built from an
  element class filter, a target kind and a view) with its \<open>FindNearest\<close> from an origin
  along a direction, and \<open>doc.GetElement\<close> of the element of a hit. \<open>'v\<close> is a view,
  \<open>'r\<close> a hit, \<open>'e\<close> an element.
\<close>

datatype element_class = FloorClass | WallClass | PlantingClass

datatype find_target = TargetElement | TargetFace

record ('v, 'r, 'e) raycast_api =
  View3Ds :: "'v list"
  IsTemplate :: "'v \<Rightarrow> bool"
  FindNearest :: "element_class \<Rightarrow> find_target \<Rightarrow> 'v \<Rightarrow> XYZ \<Rightarrow> XYZ \<Rightarrow> 'r option"
  GetElement :: "'r \<Rightarrow> 'e option"

definition get_any_3d_view :: "('v, 'r, 'e) raycast_api \<Rightarrow> 'v option" where
  "get_any_3d_view doc = find (\<lambda>v. \<not> IsTemplate doc v) (View3Ds doc)"

definition get_floor_below_point :: "('v, 'r, 'e) raycast_api \<Rightarrow> XYZ \<Rightarrow> 'e option" where
  "get_floor_below_point doc pickpoint =
     (case get_any_3d_view doc of
        None \<Rightarrow> None
      | Some view3d \<Rightarrow>
          (let origin = (X pickpoint + 0, Y pickpoint + 0, Z pickpoint + 10);
               direction = (0, 0, - 1)
           in case FindNearest doc FloorClass TargetElement view3d origin direction of
                None \<Rightarrow> None
              | Some result \<Rightarrow> GetElement doc result))"

subsection \<open>A sample document\<close>

text \<open>
  A document of horizontal slabs: an element has a class, a rectangular footprint and the
  elevation of its top. A ray straight down from an origin hits the slabs of the wanted
  class whose footprint contains the origin and whose top is not above it, and the nearest
  hit is the highest of these; views see every slab. A floor lies below a point when the
  point is over its footprint and not below its top.
\<close>

record slab =
  slab_class :: element_class
  x_min :: real
  x_max :: real
  y_min :: real
  y_max :: real
  top :: real

definition under :: "XYZ \<Rightarrow> slab \<Rightarrow> bool" where
  "under p s = (x_min s \<le> X p \<and> X p \<le> x_max s \<and> y_min s \<le> Y p \<and> Y p \<le> y_max s
                \<and> top s \<le> Z p)"

fun highest :: "slab list \<Rightarrow> slab option" where
  "highest [] = None"
| "highest (s # ss) =
     (case highest ss of
        None \<Rightarrow> Some s
      | Some t \<Rightarrow> if top t > top s then Some t else Some s)"

definition slab_document :: "slab list \<Rightarrow> (string \<times> bool, slab, slab) raycast_api" where
  "slab_document scene =
     \<lparr>View3Ds = [(''3D template'', True), (''{3D}'', False)],
      IsTemplate = snd,
      FindNearest = (\<lambda>cls target view origin direction.
        if direction = (0, 0, - 1)
        then highest (filter (\<lambda>s. slab_class s = cls \<and> under origin s) scene)
        else None),
      GetElement = Some\<rparr>"

definition floor_below :: "slab list \<Rightarrow> XYZ \<Rightarrow> bool" where
  "floor_below scene p = list_ex (\<lambda>s. slab_class s = FloorClass \<and> under p s) scene"

definition deck :: "real \<Rightarrow> slab" where
  "deck z = \<lparr>slab_class = FloorClass, x_min = - 10, x_max = 10, y_min = - 10, y_max = 10,
             top = z\<rparr>"

section \<open>Transactions\<close>

text \<open>
  The dialogs of the two scripts that matter here: the three task dialogs of \<open>main\<close> of
  the boundary script (\<open>Active view must be an Area Plan to create area boundary lines.\<close>,
  \<open>No floor was found below the picked point.\<close>, and \<open>Failed to create boundaries and
  Area.\<close> followed by the text of the exception), the alert of the editor (\<open>Failed to
  update mix schedules:\<close> followed by the text of the exception), and any dialog that the
  work itself shows.
\<close>

datatype dialog =
  NotAnAreaPlan
| NoFloorFound
| BoundariesFailed py_error
| UpdateFailed py_error
| Other string

text \<open>
  A run of a script against the host: the document, whether the host lets a transaction
  start now, the state of the transaction object of the run with the document as it was at
  \<open>Start\<close>, and the dialogs shown so far.
\<close>

datatype tx_status = TxNew | TxStarted | TxCommitted | TxRolledBack

record 'd run =
  document :: 'd
  modifiable :: bool
  status :: tx_status
  at_start :: 'd
  dialogs :: "dialog list"

text \<open>
  \<open>DB.Transaction(doc, name)\<close> and the methods of the transaction. The host starts a new
  transaction when the document can be modified, commits a started one, and on
  \<open>RollBack\<close> of a started one restores the document of \<open>Start\<close>; every other use
  raises.
\<close>

definition Transaction :: "'d run \<Rightarrow> 'd run" where
  "Transaction r = r\<lparr>status := TxNew, at_start := document r\<rparr>"

definition tx_Start :: "'d run \<Rightarrow> py_error + 'd run" where
  "tx_Start r =
     (if status r = TxNew \<and> modifiable r
      then Inr (r\<lparr>status := TxStarted, at_start := document r\<rparr>)
      else Inl HostError)"

definition tx_Commit :: "'d run \<Rightarrow> py_error + 'd run" where
  "tx_Commit r =
     (if status r = TxStarted then Inr (r\<lparr>status := TxCommitted\<rparr>) else Inl HostError)"

definition tx_RollBack :: "'d run \<Rightarrow> py_error + 'd run" where
  "tx_RollBack r =
     (if status r = TxStarted then Inr (r\<lparr>status := TxRolledBack, document := at_start r\<rparr>)
      else Inl HostError)"

definition show_dialog :: "dialog \<Rightarrow> 'd run \<Rightarrow> 'd run" where
  "show_dialog msg r = r\<lparr>dialogs := dialogs r @ [msg]\<rparr>"

text \<open>
  A piece of work on the document: the document as the work leaves it, the dialogs it
  shows, and the exception if the work raised. Work that raises may have changed the
  document before. The host refuses work outside a started transaction: it raises and
  leaves the document as it is.
\<close>

type_synonym 'd work = "'d \<Rightarrow> 'd \<times> dialog list \<times> py_error option"

definition do_work :: "'d work \<Rightarrow> 'd run \<Rightarrow> 'd run \<times> py_error option" where
  "do_work w r =
     (if status r = TxStarted
      then (case w (document r) of
              (d, shown, ex) \<Rightarrow> (r\<lparr>document := d, dialogs := dialogs r @ shown\<rparr>, ex))
      else (r, Some HostError))"

text \<open>
  \<open>main\<close> of the boundary script. Its inputs besides the run: whether the active view
  is an area plan, the picked point (or the exception of a cancelled pick), the floor found
  under it, the work of \<open>create_area_boundaries_from_floor\<close> on the floor, and the work of
  placing and naming the Area at the point, whose exception is logged and dropped.
  \<open>Start\<close> stands before the \<open>try\<close>, \<open>RollBack\<close> in the handler without a guard.
\<close>

definition boundary_main ::
  "bool \<Rightarrow> py_error + XYZ \<Rightarrow> (XYZ \<Rightarrow> 'e option) \<Rightarrow> ('e \<Rightarrow> 'd work) \<Rightarrow> (XYZ \<Rightarrow> 'd work) \<Rightarrow>
   'd run \<Rightarrow> py_error + 'd run" where
  "boundary_main is_area_plan pick floor_below_point create_boundaries place_area r =
     (if \<not> is_area_plan then Inr (show_dialog NotAnAreaPlan r)
      else case pick of
        Inl ex \<Rightarrow> Inr r
      | Inr p \<Rightarrow>
          (case floor_below_point p of
             None \<Rightarrow> Inr (show_dialog NoFloorFound r)
           | Some fl \<Rightarrow>
               (case tx_Start (Transaction r) of
                  Inl ex \<Rightarrow> Inl ex
                | Inr r1 \<Rightarrow>
                    (let failed = (\<lambda>r' e. case tx_RollBack r' of
                                     Inl ex \<Rightarrow> Inl ex
                                   | Inr r'' \<Rightarrow> Inr (show_dialog (BoundariesFailed e) r''))
                     in case do_work (create_boundaries fl) r1 of
                          (r2, Some e) \<Rightarrow> failed r2 e
                        | (r2, None) \<Rightarrow>
                            (let r3 = fst (do_work (place_area p) r2)
                             in case tx_Commit r3 of
                                  Inl e \<Rightarrow> failed r3 e
                                | Inr r4 \<Rightarrow> Inr r4)))))"

text \<open>
  \<open>on_apply\<close> of the editor. Its inputs: whether there are mixes, and the work between
  \<open>Start\<close> and \<open>Commit\<close> (the mix parameters, the Area renames, the colour-scheme
  updates and the filled-region strips). \<open>Start\<close> stands inside the \<open>try\<close>, and an
  exception of \<open>RollBack\<close> is dropped. \<open>show_fr_debug_popup\<close> after the commit returns
  at once, since \<open>DEBUG_FILLED_REGION\<close> is \<open>False\<close>.
\<close>

definition on_apply :: "bool \<Rightarrow> 'd work \<Rightarrow> 'd run \<Rightarrow> py_error + 'd run" where
  "on_apply has_mixes update r =
     (if \<not> has_mixes then Inr r
      else let t = Transaction r;
               failed = (\<lambda>r' e. Inr (show_dialog (UpdateFailed e)
                                     (case tx_RollBack r' of Inl ex \<Rightarrow> r' | Inr r'' \<Rightarrow> r'')))
           in case tx_Start t of
                Inl e \<Rightarrow> failed t e
              | Inr r1 \<Rightarrow>
                  (case do_work update r1 of
                     (r2, Some e) \<Rightarrow> failed r2 e
                   | (r2, None) \<Rightarrow>
                       (case tx_Commit r2 of
                          Inl e \<Rightarrow> failed r2 e
                        | Inr r3 \<Rightarrow> Inr r3)))"

subsection \<open>A sample document\<close>

text \<open>
  The document is the list of the names of its elements. One piece of work adds two
  elements; another adds one, shows a dialog and then raises.
\<close>

definition add_lines :: "string list work" where
  "add_lines d = (d @ [''line 1'', ''line 2''], [], None)"

definition add_area :: "string list work" where
  "add_area d = (d @ [''area''], [], None)"

definition break_off :: "string list work" where
  "break_off d = (d @ [''line 1''], [Other ''Could not get perimeter loops''], Some ValueError)"

definition sample_run :: "string list run" where
  "sample_run = \<lparr>document = [''floor''], modifiable = True, status = TxCommitted,
                  at_start = [], dialogs = []\<rparr>"

section \<open>Verification\<close>

subsection \<open>Rows and the invariant of a mix\<close>

lemma load_row_index: "load_row el i = Inr r \<Longrightarrow> row_index r = i"
  unfolding load_row_def Let_def SpeciesRow_init_def
  by (cases "pct_raw_to_display (get_param el (species_param ''Pct'' i))";
      cases "space_raw_to_display (get_param el (species_param ''Space'' i))") auto

lemma load_rows_from_shape:
  "load_rows_from el ns = Inr rs \<Longrightarrow> map row_index rs = ns"
proof (induction ns arbitrary: rs)
  case Nil
  then show ?case by simp
next
  case (Cons i ns)
  from Cons.prems obtain r rs' where r: "load_row el i = Inr r"
    and rs': "load_rows_from el ns = Inr rs'" and eq: "rs = r # rs'"
    by (cases "load_row el i"; cases "load_rows_from el ns") auto
  from Cons.IH [OF rs'] load_row_index [OF r] eq show ?case by simp
qed

lemma upto_as_upt: "[1..n] = map int [1..<Suc (nat n)]"
  by (rule nth_equalityI) (auto simp: nth_append)

lemma load_rows_index:
  assumes "load_rows el n = Inr rs"
  shows "map row_index rs = map int [1..<Suc (nat n)]"
proof -
  have "map row_index rs = [1..n]"
    using assms unfolding load_rows_def by (rule load_rows_from_shape)
  then show ?thesis by (simp only: upto_as_upt)
qed

lemma load_rows_length:
  assumes "load_rows el n = Inr rs"
  shows "length rs = nat n"
proof -
  have "length (map row_index rs) = length (map int [1..<Suc (nat n)])"
    using load_rows_index [OF assms] by simp
  then show ?thesis by simp
qed

lemma load_rows_numbered:
  assumes "load_rows el n = Inr rs"
  shows "numbered rs"
  using load_rows_index [OF assms] load_rows_length [OF assms] by (simp add: numbered_def)

lemma length_renumber: "length (renumber rs) = length rs"
  by (simp add: renumber_def)

lemma numbered_renumber: "numbered (renumber rs)"
  unfolding numbered_def renumber_def
  by (rule nth_equalityI) (simp_all add: nth_enumerate_eq del: upt_Suc)

lemma str_nat_numeral:
  "str_nat (numeral k) =
     (if numeral k < (10::nat) then [digit_char (numeral k)]
      else str_nat (numeral k div 10) @ [digit_char (numeral k mod 10)])"
  by (rule str_nat.simps)

lemma str_nat_small: "str_nat 0 = ''0''" "str_nat (Suc 0) = ''1''" "str_nat 1 = ''1''"
  by (simp_all add: str_nat.simps digit_char_def)

lemmas text_eval = str_nat_numeral str_nat_small digit_char_def digit_val_def str_int_def
  is_space_def is_digit_def isdigit_def strip_def lstrip_def rstrip_def nat_of_digits_def species_param_def

lemma reindex_renumber:
  "map (row_index_update (\<lambda>_. 0)) (renumber rs) = map (row_index_update (\<lambda>_. 0)) rs"
  unfolding renumber_def
  by (rule nth_equalityI) (simp_all add: nth_enumerate_eq)

lemmas row_eval = load_row_def get_param_def text_eval Let_def pct_raw_to_display_def
  space_raw_to_display_def to_unicode_def SpeciesRow_init_def or_empty_def

subsection \<open>The link from a mix to a colour-scheme entry\<close>

lemma map_of_add_key:
  "map_of (add_key lookup key entry) k =
     (case map_of lookup k of
        Some e \<Rightarrow> Some e
      | None \<Rightarrow> if k \<noteq> [] \<and> k = key then Some entry else None)"
  by (auto simp: add_key_def map_add_def split: option.splits)

lemma map_of_lookup_step:
  "map_of (add_key (add_key lookup (fst (get_color_entry_keys e)) e)
             (snd (get_color_entry_keys e)) e) k =
     (case map_of lookup k of
        Some e' \<Rightarrow> Some e'
      | None \<Rightarrow> if k \<noteq> [] \<and> exact_match k e then Some e else None)"
  by (auto simp: map_of_add_key exact_match_def entry_keys_def split: option.splits)

lemma map_of_foldl_lookup:
  "map_of (foldl (\<lambda>lookup entry.
              add_key (add_key lookup (fst (get_color_entry_keys entry)) entry)
                (snd (get_color_entry_keys entry)) entry) lookup es) k =
     (case map_of lookup k of
        Some e \<Rightarrow> Some e
      | None \<Rightarrow> if k = [] then None else find (exact_match k) es)"
proof (induction es arbitrary: lookup)
  case Nil
  then show ?case by (simp split: option.splits)
next
  case (Cons e es)
  show ?case
    by (simp add: Cons.IH map_of_lookup_step split: option.splits)
qed

lemma map_of_build_lookup:
  "map_of (build_lookup es) k = (if k = [] then None else find (exact_match k) es)"
  by (simp add: build_lookup_def map_of_foldl_lookup)

lemma in_build_lookup:
  assumes "(k, e) \<in> set (build_lookup es)"
  shows "k \<noteq> [] \<and> e \<in> set es \<and> exact_match k e"
proof -
  have inv: "\<forall>(k, e) \<in> set (foldl (\<lambda>lookup entry.
              add_key (add_key lookup (fst (get_color_entry_keys entry)) entry)
                (snd (get_color_entry_keys entry)) entry) lookup es').
               k \<noteq> [] \<and> e \<in> set es \<and> exact_match k e"
    if "set es' \<subseteq> set es" "\<forall>(k, e) \<in> set lookup. k \<noteq> [] \<and> e \<in> set es \<and> exact_match k e"
    for es' lookup
    using that
  proof (induction es' arbitrary: lookup)
    case Nil
    then show ?case by simp
  next
    case (Cons a es')
    show ?case
      unfolding foldl_Cons
      by (rule Cons.IH) (use Cons.prems in \<open>auto simp: add_key_def exact_match_def entry_keys_def\<close>)
  qed
  from inv [of es "[]"] assms show ?thesis
    by (auto simp: build_lookup_def)
qed

lemma find_exact_in: "find (exact_match k) es = Some e \<Longrightarrow> e \<in> set es \<and> exact_match k e"
  by (auto simp: find_Some_iff)

lemma loose_in_lookup:
  assumes "e \<in> set es" and "loose_match key e"
  shows "\<exists>(k, v) \<in> set (build_lookup es). lower (strip k) = lower key"
proof -
  from assms(2) obtain k where k: "k \<in> set (entry_keys e)" "k \<noteq> []" "lower (strip k) = lower key"
    by (auto simp: loose_match_def list_ex_iff)
  with assms(1) have "find (exact_match k) es \<noteq> None"
    by (auto simp: find_None_iff exact_match_def)
  with k(2) have "map_of (build_lookup es) k \<noteq> None"
    by (simp add: map_of_build_lookup)
  then obtain v where "(k, v) \<in> set (build_lookup es)"
    by (auto dest: map_of_SomeD)
  with k(3) show ?thesis by auto
qed

lemma lower_eval:
  "lower [] = []" "lower (c # cs) = to_lower c # lower cs"
  by (simp_all add: lower_def)

subsection \<open>Evaluation of texts and floats\<close>

lemma bitlen_numeral:
  "bitlen 0 = 0" "bitlen 1 = 1" "bitlen (numeral Num.One) = 1"
  "bitlen (numeral (Num.Bit0 k)) = bitlen (numeral k) + 1"
  "bitlen (numeral (Num.Bit1 k)) = bitlen (numeral k) + 1"
  by (subst compute_bitlen, simp)+

lemma floor_rat_numeral:
  "\<lfloor>numeral a / numeral b :: rat\<rfloor> = numeral a div numeral b"
  "\<lfloor>1 / numeral b :: rat\<rfloor> = 1 div numeral b"
  using floor_divide_of_int_eq [of "numeral a" "numeral b", where ?'a = rat]
        floor_divide_of_int_eq [of 1 "numeral b", where ?'a = rat]
  by simp_all

lemma ceiling_rat_numeral:
  "\<lceil>numeral a / numeral b :: rat\<rceil> = - ((- numeral a) div numeral b)"
  "\<lceil>1 / numeral b :: rat\<rceil> = - ((- 1) div numeral b)"
  using floor_divide_of_int_eq [of "- numeral a" "numeral b", where ?'a = rat]
        floor_divide_of_int_eq [of "- 1" "numeral b", where ?'a = rat]
  by (simp_all add: ceiling_def)

lemmas float_eval = bitlen_numeral floor_rat_numeral ceiling_rat_numeral rnd_def floor_log2_def
  round_half_even_def pow2_def pow10_def mk_float_def float_of_rat_def float_of_int_def fval_def
  parse_decimal_def parse_exponent_def py_float_def lower_eval to_lower_def capitals_def small_letters_def Let_def

subsection \<open>Writing a parameter\<close>

text \<open>
  Claim C5. \<open>set_param\<close> never raises. When the lookup raises or finds no parameter the
  element is unchanged. Otherwise the write follows the storage type: a text parameter is
  set to the value, to the empty text for \<open>None\<close>; an integer parameter to \<open>int(value)\<close>,
  to 0 for \<open>None\<close>, an empty text or a value that \<open>int\<close> rejects; a double parameter to
  \<open>float(value)\<close>, else to the float of the text with commas turned into dots, and to 0.0
  for \<open>None\<close>, an empty text or a value that both reject; any other storage type goes
  through \<open>SetValueString(str(value))\<close> when the host has it. An exception of the host
  write is swallowed.
\<close>

theorem set_param_dispatch:
  "(\<exists>el'. set_param h el name v = Inr el')
   \<and> (el name = Inr None \<or> (\<exists>ex. el name = Inl ex) \<longrightarrow> set_param h el name v = Inr el)
   \<and> (el name = Inr (Some p) \<longrightarrow>
        (StorageType p = StString \<longrightarrow>
           set_param h el name v =
             written el name
               (host_Set h p (case v of PNone \<Rightarrow> SetStr [] | PStr s \<Rightarrow> SetStr s
                                      | PInt i \<Rightarrow> SetInt i)))
      \<and> (StorageType p = StInteger \<longrightarrow>
           set_param h el name v =
             written el name
               (host_Set h p
                  (SetInt (if v = PNone \<or> v = PStr [] then 0
                           else case py_int_of v of Inr i \<Rightarrow> i | Inl ex \<Rightarrow> 0))))
      \<and> (StorageType p = StDouble \<longrightarrow>
           set_param h el name v =
             written el name
               (host_Set h p
                  (SetDouble
                     (if v = PNone \<or> v = PStr [] then Finite False 0
                      else case py_float_of v of
                             Inr f \<Rightarrow> f
                           | Inl ex \<Rightarrow>
                               (case py_float (replace '','' ''.'' (py_str v)) of
                                  Some f \<Rightarrow> f
                                | None \<Rightarrow> Finite False 0)))))
      \<and> (StorageType p \<notin> {StString, StInteger, StDouble} \<longrightarrow>
           set_param h el name v =
             (if has_SetValueString h p
              then written el name (host_SetValueString h p (py_str v))
              else Inr el)))"
proof (intro conjI impI)
  show "\<exists>el'. set_param h el name v = Inr el'"
    by (simp add: set_param_def split: sum.splits option.splits)
next
  assume "el name = Inr None \<or> (\<exists>ex. el name = Inl ex)"
  then show "set_param h el name v = Inr el"
    by (auto simp: set_param_def)
next
  assume "el name = Inr (Some p)" "StorageType p = StString"
  then show "set_param h el name v =
      written el name (host_Set h p (case v of PNone \<Rightarrow> SetStr [] | PStr s \<Rightarrow> SetStr s
                                      | PInt i \<Rightarrow> SetInt i))"
    by (simp add: set_param_def set_param_body_def written_def)
next
  assume "el name = Inr (Some p)" "StorageType p = StInteger"
  then show "set_param h el name v =
      written el name (host_Set h p
                  (SetInt (if v = PNone \<or> v = PStr [] then 0
                           else case py_int_of v of Inr i \<Rightarrow> i | Inl ex \<Rightarrow> 0)))"
    by (simp add: set_param_def set_param_body_def written_def)
next
  assume "el name = Inr (Some p)" "StorageType p = StDouble"
  then show "set_param h el name v =
             written el name
               (host_Set h p
                  (SetDouble
                     (if v = PNone \<or> v = PStr [] then Finite False 0
                      else case py_float_of v of
                             Inr f \<Rightarrow> f
                           | Inl ex \<Rightarrow>
                               (case py_float (replace '','' ''.'' (py_str v)) of
                                  Some f \<Rightarrow> f
                                | None \<Rightarrow> Finite False 0))))"
    by (simp add: set_param_def set_param_body_def written_def)
next
  assume a: "el name = Inr (Some p)" "StorageType p \<notin> {StString, StInteger, StDouble}"
  then have same: "el(name := Inr (Some p)) = el" by auto
  from a same show "set_param h el name v =
             (if has_SetValueString h p
              then written el name (host_SetValueString h p (py_str v))
              else Inr el)"
    by (auto simp: set_param_def set_param_body_def written_def split: sum.splits)
qed

lemma typed_lookup:
  "typed_element ''Mix Name'' = Inr (Some (blank_param StString))"
  "typed_element ''Num_Species'' = Inr (Some (blank_param StInteger))"
  "typed_element ''S1_Space'' = Inr (Some (blank_param StDouble))"
  "typed_element ''Level'' = Inr (Some (blank_param StElementId))"
  "typed_element ''Broken'' = Inl HostError"
  "typed_element ''Missing'' = Inr None"
  by (simp_all add: typed_element_def)

lemma blank_storage: "StorageType (blank_param st) = st"
  by (simp add: blank_param_def)

theorem set_param_dispatch_witness:
  "typed_element ''Missing'' = Inr None
   \<and> set_param sample_host typed_element ''Missing'' (PStr ''x'') = Inr typed_element
   \<and> typed_element ''Broken'' = Inl HostError
   \<and> set_param sample_host typed_element ''Broken'' (PStr ''x'') = Inr typed_element
   \<and> typed_element ''Mix Name'' = Inr (Some (blank_param StString))
   \<and> StorageType (blank_param StString) = StString
   \<and> set_param sample_host typed_element ''Mix Name'' PNone =
        Inr (typed_element(''Mix Name'' :=
               Inr (Some ((blank_param StString)\<lparr>HasValue := True, AsString := Some []\<rparr>))))
   \<and> set_param sample_host typed_element ''Mix Name'' (PInt 3) = Inr typed_element
   \<and> typed_element ''Num_Species'' = Inr (Some (blank_param StInteger))
   \<and> StorageType (blank_param StInteger) = StInteger
   \<and> set_param sample_host typed_element ''Num_Species'' (PStr '' 12 '') =
        Inr (typed_element(''Num_Species'' :=
               Inr (Some ((blank_param StInteger)\<lparr>HasValue := True, AsInteger := 12\<rparr>))))
   \<and> set_param sample_host typed_element ''Num_Species'' (PStr ''1.5'') =
        Inr (typed_element(''Num_Species'' :=
               Inr (Some ((blank_param StInteger)\<lparr>HasValue := True, AsInteger := 0\<rparr>))))
   \<and> typed_element ''S1_Space'' = Inr (Some (blank_param StDouble))
   \<and> StorageType (blank_param StDouble) = StDouble
   \<and> set_param sample_host typed_element ''S1_Space'' (PStr ''1,5'') =
        Inr (typed_element(''S1_Space'' :=
               Inr (Some ((blank_param StDouble)\<lparr>HasValue := True, AsDoubleText := ''1.5''\<rparr>))))
   \<and> set_param sample_host typed_element ''S1_Space'' (PStr ''wide'') =
        Inr (typed_element(''S1_Space'' :=
               Inr (Some ((blank_param StDouble)\<lparr>HasValue := True, AsDoubleText := ''0.0''\<rparr>))))
   \<and> typed_element ''Level'' = Inr (Some (blank_param StElementId))
   \<and> StorageType (blank_param StElementId) \<notin> {StString, StInteger, StDouble}
   \<and> set_param sample_host typed_element ''Level'' (PInt 4) = Inr typed_element"
proof -
  have i: "py_int '' 12 '' = Inr 12" "py_int ''1.5'' = Inl ValueError"
    by (simp_all add: py_int_def text_eval Let_def)
  have f: "py_float ''1,5'' = None" "py_float ''1.5'' = Some (Finite False (3 / 2))"
          "py_float ''wide'' = None"
    by (simp_all add: float_eval text_eval)
  have t: "format_fixed (Suc 0) (Finite False (3 / 2)) = ''1.5''"
          "format_fixed (Suc 0) (Finite False 0) = ''0.0''"
    by (simp_all add: float_eval text_eval pad_digits_def)
  have h: "host_Set sample_host p (SetStr s) =
             (if StorageType p = StString then Inr (p\<lparr>HasValue := True, AsString := Some s\<rparr>)
              else Inl HostError)"
          "host_Set sample_host p (SetInt k) =
             (if StorageType p = StInteger then Inr (p\<lparr>HasValue := True, AsInteger := k\<rparr>)
              else Inl HostError)"
          "host_Set sample_host p (SetDouble d) =
             (if StorageType p = StDouble
              then Inr (p\<lparr>HasValue := True, AsDoubleText := format_fixed 1 d\<rparr>)
              else Inl HostError)"
          "host_SetValueString sample_host p s = Inl HostError"
          "has_SetValueString sample_host p" for p s k d
    by (simp_all add: sample_host_def)
  from set_param_dispatch [of sample_host typed_element "''Missing''" "PStr ''x''"]
       set_param_dispatch [of sample_host typed_element "''Broken''" "PStr ''x''"]
       set_param_dispatch [of sample_host typed_element "''Mix Name''" PNone "blank_param StString"]
       set_param_dispatch [of sample_host typed_element "''Mix Name''" "PInt 3" "blank_param StString"]
       set_param_dispatch [of sample_host typed_element "''Num_Species''" "PStr '' 12 ''"
         "blank_param StInteger"]
       set_param_dispatch [of sample_host typed_element "''Num_Species''" "PStr ''1.5''"
         "blank_param StInteger"]
       set_param_dispatch [of sample_host typed_element "''S1_Space''" "PStr ''1,5''"
         "blank_param StDouble"]
       set_param_dispatch [of sample_host typed_element "''S1_Space''" "PStr ''wide''"
         "blank_param StDouble"]
       set_param_dispatch [of sample_host typed_element "''Level''" "PInt 4"
         "blank_param StElementId"]
  show ?thesis
    by (simp add: typed_lookup blank_storage written_def i f t h del: format_fixed.simps)
qed

subsection \<open>Rounding to binary64\<close>

lemma pow2_powi: "pow2 q = 2 powi q"
  by (simp add: pow2_def power_int_def field_simps)

lemma pow2_pos: "0 < pow2 q"
  by (simp add: pow2_powi)

lemma pow2_add: "pow2 (a + b) = pow2 a * pow2 b"
  by (simp add: pow2_powi power_int_add)

lemma pow2_nat: "pow2 (int n) = 2 ^ n"
  by (simp add: pow2_def)

lemma pow2_neg: "pow2 (- int n) = 1 / 2 ^ n"
  by (simp add: pow2_powi power_int_minus field_simps)

lemma pow2_mono: "a \<le> b \<Longrightarrow> pow2 a \<le> pow2 b"
  by (simp add: pow2_powi power_int_increasing)

lemma floor_log2_lower:
  assumes "0 < x"
  shows "pow2 (floor_log2 x) \<le> x"
proof (cases "1 \<le> x")
  case True
  then have f: "0 < \<lfloor>x\<rfloor>" by simp
  from bitlen_bounds [OF f] have b: "2 ^ nat (bitlen \<lfloor>x\<rfloor> - 1) \<le> \<lfloor>x\<rfloor>" by simp
  from f have "1 \<le> bitlen \<lfloor>x\<rfloor>" by (simp add: bitlen_alt_def)
  then have "pow2 (bitlen \<lfloor>x\<rfloor> - 1) = 2 ^ nat (bitlen \<lfloor>x\<rfloor> - 1)"
    by (simp add: pow2_def)
  also have "\<dots> \<le> rat_of_int \<lfloor>x\<rfloor>" using b by simp
  also have "\<dots> \<le> x" by simp
  finally show ?thesis using True by (simp add: floor_log2_def)
next
  case False
  with assms have x1: "1 < 1 / x" by simp
  define c where "c = \<lceil>1 / x\<rceil>"
  from x1 have c2: "2 \<le> c" unfolding c_def by linarith
  then have c1: "0 < c - 1" by simp
  define k where "k = bitlen (c - 1)"
  from bitlen_bounds [OF c1] have "c - 1 < 2 ^ nat k" by (simp add: k_def)
  then have "c \<le> 2 ^ nat k" by simp
  then have "rat_of_int c \<le> 2 ^ nat k" by simp
  moreover have "1 / x \<le> rat_of_int c" unfolding c_def by simp
  ultimately have le: "1 / x \<le> 2 ^ nat k" by linarith
  have k0: "0 \<le> k" by (simp add: k_def bitlen_nonneg)
  have "pow2 (- k) = 1 / 2 ^ nat k"
    using k0 pow2_neg [of "nat k"] by simp
  also have "\<dots> \<le> x"
    using le assms by (simp add: field_simps)
  finally show ?thesis using False by (simp add: floor_log2_def c_def k_def)
qed

lemma floor_log2_upper:
  assumes "0 < x"
  shows "x < pow2 (floor_log2 x + 1)"
proof (cases "1 \<le> x")
  case True
  then have f: "0 < \<lfloor>x\<rfloor>" by simp
  from bitlen_bounds [OF f] have b: "\<lfloor>x\<rfloor> < 2 ^ nat (bitlen \<lfloor>x\<rfloor>)" by simp
  then have "\<lfloor>x\<rfloor> + 1 \<le> 2 ^ nat (bitlen \<lfloor>x\<rfloor>)" by simp
  then have "rat_of_int (\<lfloor>x\<rfloor> + 1) \<le> 2 ^ nat (bitlen \<lfloor>x\<rfloor>)"
    by (simp only: of_int_le_numeral_power_cancel_iff)
  moreover have "x < rat_of_int (\<lfloor>x\<rfloor> + 1)" by linarith
  ultimately have "x < 2 ^ nat (bitlen \<lfloor>x\<rfloor>)" by linarith
  moreover have "pow2 (bitlen \<lfloor>x\<rfloor>) = 2 ^ nat (bitlen \<lfloor>x\<rfloor>)"
    by (simp add: pow2_def bitlen_nonneg)
  ultimately show ?thesis using True by (simp add: floor_log2_def)
next
  case False
  with assms have x1: "1 < 1 / x" by simp
  define c where "c = \<lceil>1 / x\<rceil>"
  from x1 have c2: "2 \<le> c" unfolding c_def by linarith
  then have c1: "0 < c - 1" by simp
  define k where "k = bitlen (c - 1)"
  from c1 have k1: "1 \<le> k" by (simp add: k_def bitlen_alt_def)
  from bitlen_bounds [OF c1] have "2 ^ nat (k - 1) \<le> c - 1" by (simp add: k_def)
  then have "2 ^ nat (k - 1) \<le> rat_of_int (c - 1)"
    by (simp only: numeral_power_le_of_int_cancel_iff)
  moreover have "rat_of_int (c - 1) < 1 / x" unfolding c_def by linarith
  ultimately have lt: "2 ^ nat (k - 1) < 1 / x" by linarith
  have "x < 1 / 2 ^ nat (k - 1)"
    using lt assms by (simp add: field_simps)
  also have "1 / 2 ^ nat (k - 1) = pow2 (- int (nat (k - 1)))"
    by (simp only: pow2_neg)
  also have "- int (nat (k - 1)) = - k + 1" using k1 by simp
  finally show ?thesis using False by (simp add: floor_log2_def c_def k_def)
qed

lemma round_half_even_err: "\<bar>of_int (round_half_even x) - x\<bar> \<le> 1 / 2"
proof -
  have "rat_of_int \<lfloor>x\<rfloor> \<le> x" "x < rat_of_int \<lfloor>x\<rfloor> + 1" by linarith+
  then show ?thesis
    unfolding round_half_even_def Let_def by (auto simp: abs_le_iff)
qed

lemma round_half_even_near:
  assumes "\<bar>x - of_int k\<bar> < 1 / 2"
  shows "round_half_even x = k"
proof -
  have "\<bar>rat_of_int (round_half_even x) - rat_of_int k\<bar> < 1"
    using round_half_even_err [of x] assms by linarith
  then have "\<bar>rat_of_int (round_half_even x - k)\<bar> < 1" by simp
  then have "\<bar>round_half_even x - k\<bar> < 1"
    by (metis of_int_abs of_int_less_1_iff)
  then show ?thesis by linarith
qed

lemma round_half_even_int: "round_half_even (of_int k) = k"
  by (rule round_half_even_near) simp

lemma pow2_less_cancel: "pow2 a < pow2 b \<Longrightarrow> a < b"
  using pow2_mono [of b a] by (cases "a < b") auto

lemma pow2_numeral: "pow2 (numeral n) = 2 ^ numeral n" "pow2 (- numeral n) = 1 / 2 ^ numeral n"
  by (simp_all add: pow2_def)

lemma rnd_normal:
  assumes lo: "1 / 2 ^ 1022 \<le> x" and hi: "x < 2 ^ 1023"
  shows "\<exists>r. rnd x = Some r \<and> \<bar>r - x\<bar> \<le> x / 2 ^ 53"
proof -
  have pos: "0 < x" using lo by (rule less_le_trans [rotated]) simp
  define e where "e = floor_log2 x"
  have le: "pow2 e \<le> x" and ue: "x < pow2 (e + 1)"
    unfolding e_def using pos by (rule floor_log2_lower, rule floor_log2_upper)
  have "pow2 e < pow2 1023" using le hi by (simp add: pow2_numeral)
  then have e_hi: "e < 1023" by (rule pow2_less_cancel)
  have "pow2 (- 1022) < pow2 (e + 1)" using lo ue by (simp add: pow2_numeral)
  then have e_lo: "- 1022 \<le> e" using pow2_less_cancel [of "- 1022" "e + 1"] by simp
  define q where "q = e - 52"
  have q: "max (e - 52) (- 1074) = q" using e_lo by (simp add: q_def)
  define y where "y = x / pow2 q"
  define r where "r = rat_of_int (round_half_even y) * pow2 q"
  have rnd: "rnd x = Some r"
    using pos e_hi q by (simp add: rnd_def Let_def e_def [symmetric] r_def y_def)
  have xq: "x = y * pow2 q" using pow2_pos [of q] by (simp add: y_def)
  have "\<bar>r - x\<bar> = \<bar>rat_of_int (round_half_even y) - y\<bar> * pow2 q"
    using pow2_pos [of q] by (simp add: r_def xq abs_mult left_diff_distrib [symmetric])
  also have "\<dots> \<le> 1 / 2 * pow2 q"
    using round_half_even_err [of y] pow2_pos [of q] by (simp add: mult_right_mono)
  also have "pow2 q = pow2 e * pow2 (- 52)"
    unfolding q_def using pow2_add [of e "- 52"] by simp
  also have "1 / 2 * (pow2 e * pow2 (- 52)) = pow2 e / 2 ^ 53"
    by (simp add: pow2_numeral)
  also have "\<dots> \<le> x / 2 ^ 53" using le by (simp add: divide_right_mono)
  finally show ?thesis using rnd by blast
qed

lemma round_half_even_le_double:
  assumes "0 \<le> y"
  shows "0 \<le> round_half_even y" "rat_of_int (round_half_even y) \<le> 2 * y"
proof -
  have err: "\<bar>rat_of_int (round_half_even y) - y\<bar> \<le> 1 / 2" by (rule round_half_even_err)
  with assms have "- 1 < rat_of_int (round_half_even y)" by linarith
  then have "- 1 < round_half_even y" by linarith
  then show "0 \<le> round_half_even y" by simp
  show "rat_of_int (round_half_even y) \<le> 2 * y"
  proof (cases "y < 1 / 2")
    case True
    with assms have "round_half_even y = 0" by (intro round_half_even_near) simp
    with assms show ?thesis by simp
  next
    case False
    with err show ?thesis by linarith
  qed
qed

lemma rnd_le_double:
  assumes "0 \<le> x" and hi: "x < 2 ^ 1023"
  shows "\<exists>r. rnd x = Some r \<and> 0 \<le> r \<and> r \<le> 2 * x"
proof (cases "x = 0")
  case True
  then show ?thesis by (simp add: rnd_def)
next
  case False
  with assms have pos: "0 < x" by simp
  define e where "e = floor_log2 x"
  have "pow2 e \<le> x" unfolding e_def using pos by (rule floor_log2_lower)
  then have "pow2 e < pow2 1023" using hi by (simp add: pow2_numeral)
  then have e_hi: "e < 1023" by (rule pow2_less_cancel)
  define q where "q = max (e - 52) (- 1074)"
  define y where "y = x / pow2 q"
  define r where "r = rat_of_int (round_half_even y) * pow2 q"
  have rnd: "rnd x = Some r"
    using pos e_hi by (simp add: rnd_def Let_def e_def [symmetric] q_def [symmetric] r_def y_def)
  have y0: "0 \<le> y" using pos pow2_pos [of q] by (simp add: y_def)
  have xq: "x = y * pow2 q" using pow2_pos [of q] by (simp add: y_def)
  from round_half_even_le_double [OF y0] pow2_pos [of q]
  have "0 \<le> r" "r \<le> 2 * y * pow2 q"
    by (simp_all add: r_def mult_right_mono)
  with rnd xq show ?thesis by (simp add: mult.assoc)
qed

lemma rnd_nat:
  assumes "n < 2 ^ 53"
  shows "rnd (of_nat n) = Some (of_nat n)"
proof (cases "n = 0")
  case True
  then show ?thesis by (simp add: rnd_def)
next
  case False
  define x where "x = rat_of_nat n"
  from False have x1: "1 \<le> x" by (simp add: x_def)
  then have pos: "0 < x" by simp
  define e where "e = floor_log2 x"
  have "pow2 e \<le> x" unfolding e_def using pos by (rule floor_log2_lower)
  moreover have "x < 2 ^ 53" using assms unfolding x_def
    by (metis of_nat_less_iff of_nat_numeral of_nat_power)
  ultimately have "pow2 e < pow2 53" by (simp add: pow2_numeral)
  then have e_hi: "e < 53" by (rule pow2_less_cancel)
  have "0 < \<lfloor>x\<rfloor>" using x1 by simp
  then have "1 \<le> bitlen \<lfloor>x\<rfloor>" by (simp add: bitlen_alt_def)
  then have e_lo: "0 \<le> e" using x1 by (simp add: e_def floor_log2_def)
  define j where "j = nat (52 - e)"
  have q: "max (e - 52) (- 1074) = - int j" using e_lo e_hi by (simp add: j_def)
  have y: "x / pow2 (- int j) = rat_of_int (int n * 2 ^ j)"
    by (simp add: pow2_neg x_def)
  have "rnd x = Some (rat_of_int (round_half_even (rat_of_int (int n * 2 ^ j))) * pow2 (- int j))"
    using pos e_hi q by (simp add: rnd_def Let_def e_def [symmetric] y)
  also have "round_half_even (rat_of_int (int n * 2 ^ j)) = int n * 2 ^ j"
    by (rule round_half_even_int)
  also have "rat_of_int (int n * 2 ^ j) * pow2 (- int j) = x"
    by (simp add: pow2_neg x_def)
  finally show ?thesis by (simp add: x_def)
qed

subsection \<open>Decimal texts\<close>

lemma digit_char_is_digit: "d < 10 \<Longrightarrow> is_digit (digit_char d)"
  unfolding is_digit_def digit_char_def by (rule nth_mem) simp

lemma digit_val_digit_char: "d < 10 \<Longrightarrow> digit_val (digit_char d) = d"
proof -
  assume "d < 10"
  then have "d \<in> {0, 1, 2, 3, 4, 5, 6, 7, 8, 9}" by auto
  then show ?thesis
    by (auto simp: digit_char_def digit_val_def)
qed

lemma str_nat_digits: "list_all is_digit (str_nat n)"
proof (induction n rule: str_nat.induct)
  case (1 n)
  show ?case
  proof (cases "n < 10")
    case True
    then show ?thesis by (subst str_nat.simps) (simp add: digit_char_is_digit)
  next
    case False
    with 1 show ?thesis by (subst str_nat.simps) (simp add: digit_char_is_digit)
  qed
qed

lemma str_nat_nonempty: "str_nat n \<noteq> []"
  by (subst str_nat.simps) simp

lemma nat_of_digits_foldl:
  "foldl (\<lambda>a c. 10 * a + digit_val c) a s =
     a * 10 ^ length s + foldl (\<lambda>a c. 10 * a + digit_val c) 0 s"
proof -
  define f where "f = (\<lambda>a c. 10 * a + digit_val c)"
  have "foldl f a s = a * 10 ^ length s + foldl f 0 s"
  proof (induction s arbitrary: a)
    case Nil
    then show ?case by simp
  next
    case (Cons c s)
    have "foldl f (f a c) s = f a c * 10 ^ length s + foldl f 0 s" by (rule Cons.IH)
    moreover have "foldl f (f 0 c) s = f 0 c * 10 ^ length s + foldl f 0 s" by (rule Cons.IH)
    moreover have "f a c = 10 * a + f 0 c" by (simp add: f_def)
    ultimately show ?case by (simp add: algebra_simps)
  qed
  then show ?thesis by (simp add: f_def)
qed

lemma nat_of_digits_append:
  "nat_of_digits (a @ b) = nat_of_digits a * 10 ^ length b + nat_of_digits b"
  unfolding nat_of_digits_def by (simp add: nat_of_digits_foldl [of "foldl _ 0 a"])

lemma nat_of_digits_single: "nat_of_digits [c] = digit_val c"
  by (simp add: nat_of_digits_def)

lemma nat_of_digits_str_nat: "nat_of_digits (str_nat n) = n"
proof (induction n rule: str_nat.induct)
  case (1 n)
  show ?case
  proof (cases "n < 10")
    case True
    then show ?thesis
      by (subst str_nat.simps) (simp add: nat_of_digits_single digit_val_digit_char)
  next
    case False
    with 1 show ?thesis
      by (subst str_nat.simps)
         (simp add: nat_of_digits_append nat_of_digits_single digit_val_digit_char)
  qed
qed

lemma digit_not_space: "is_digit c \<Longrightarrow> \<not> is_space c"
  by (auto simp: is_digit_def is_space_def)

lemma strip_id:
  assumes "s \<noteq> []" "\<not> is_space (hd s)" "\<not> is_space (last s)"
  shows "strip s = s"
proof -
  from assms have "dropWhile is_space s = s" by (cases s) auto
  moreover from assms have "dropWhile is_space (rev s) = rev s"
    by (cases "rev s") (auto simp: last_rev [symmetric] simp del: last_rev)
  ultimately show ?thesis by (simp add: strip_def lstrip_def rstrip_def)
qed

lemma replace_absent:
  assumes "old \<noteq> []" "hd old \<notin> set s"
  shows "replace old new s = s"
  using assms(2)
proof (induction s)
  case Nil
  then show ?case by simp
next
  case (Cons c cs)
  from Cons.prems assms(1) have "take (length old) (c # cs) \<noteq> old"
    by (cases old) auto
  with Cons show ?case by simp
qed

lemma replace_char_end:
  assumes "c \<notin> set s"
  shows "replace [c] [] (s @ [c]) = s"
  using assms by (induction s) auto

lemma filter_id: "list_all P s \<Longrightarrow> filter P s = s"
  by (induction s) auto

lemma to_lower_id: "c \<notin> set capitals \<Longrightarrow> to_lower c = c"
proof -
  assume "c \<notin> set capitals"
  then have "map_of (zip capitals small_letters) c = None"
    by (simp add: map_of_eq_None_iff capitals_def small_letters_def)
  then show ?thesis by (simp add: to_lower_def)
qed

lemma lower_id:
  "list_all (\<lambda>c. c \<notin> set capitals) s \<Longrightarrow> lower s = s"
  by (induction s) (simp_all add: lower_def to_lower_id)

text \<open>
  The text that \<open>format_fixed\<close> prints for a non-negative value whose rounded scaled value
  is \<open>n\<close>, and the two \<open>rstrip\<close> calls that follow every use of it.
\<close>

definition dec_text :: "nat \<Rightarrow> nat \<Rightarrow> string" where
  "dec_text p n = str_nat (n div 10 ^ p) @ ''.'' @ pad_digits p (n mod 10 ^ p)"

definition trim :: "string \<Rightarrow> string" where
  "trim s = rstrip_char CHR ''.'' (rstrip_char CHR ''0'' s)"

lemma length_str_nat: "0 < p \<Longrightarrow> n < 10 ^ p \<Longrightarrow> length (str_nat n) \<le> p"
proof (induction n arbitrary: p rule: str_nat.induct)
  case (1 n)
  show ?case
  proof (cases "n < 10")
    case True
    with 1 show ?thesis by (subst str_nat.simps) simp
  next
    case False
    obtain p' where p: "p = Suc p'" using 1 by (cases p) auto
    from False 1 p have "0 < p'" by (cases p') auto
    moreover from 1 p have "n div 10 < 10 ^ p'" by (simp add: less_mult_imp_div_less mult.commute)
    ultimately have "length (str_nat (n div 10)) \<le> p'" using 1 False by simp
    with False p show ?thesis by (subst str_nat.simps) simp
  qed
qed

lemma nat_of_digits_zeros: "nat_of_digits (replicate z CHR ''0'') = 0"
  by (induction z) (simp_all add: nat_of_digits_def digit_val_def)

lemma pad_digits_props:
  assumes "0 < p" "n < 10 ^ p"
  shows "length (pad_digits p n) = p" "list_all is_digit (pad_digits p n)"
    "nat_of_digits (pad_digits p n) = n"
proof -
  from length_str_nat [OF assms] show "length (pad_digits p n) = p"
    by (simp add: pad_digits_def)
  have "is_digit CHR ''0''" by (simp add: is_digit_def)
  then show "list_all is_digit (pad_digits p n)"
    using str_nat_digits [of n] by (auto simp: pad_digits_def list_all_iff)
  show "nat_of_digits (pad_digits p n) = n"
    by (simp add: pad_digits_def nat_of_digits_append nat_of_digits_zeros nat_of_digits_str_nat)
qed

lemma rstrip_char_split:
  "\<exists>z. s = rstrip_char c s @ replicate z c"
proof -
  define z where "z = length (takeWhile (\<lambda>x. x = c) (rev s))"
  define d where "d = dropWhile (\<lambda>x. x = c) (rev s)"
  have "takeWhile (\<lambda>x. x = c) (rev s) = replicate z c"
    unfolding z_def by (rule replicate_length_same [symmetric]) (auto dest: set_takeWhileD)
  then have "rev s = replicate z c @ d"
    unfolding d_def by (metis takeWhile_dropWhile_id)
  then have "rev (rev s) = rev (replicate z c @ d)" by (rule arg_cong)
  then have "s = rev d @ replicate z c" by simp
  then show ?thesis unfolding d_def rstrip_char_def ..
qed

lemma rstrip_char_last: "rstrip_char c s \<noteq> [] \<Longrightarrow> last (rstrip_char c s) \<noteq> c"
  unfolding rstrip_char_def
  by (metis (mono_tags, lifting) hd_dropWhile last_rev rev_is_Nil_conv)

lemma rstrip_char_append:
  "rstrip_char c (a @ b) = (if rstrip_char c b = [] then rstrip_char c a else a @ rstrip_char c b)"
  by (auto simp: rstrip_char_def dropWhile_append)

lemma rstrip_char_id: "s \<noteq> [] \<Longrightarrow> last s \<noteq> c \<Longrightarrow> rstrip_char c s = s"
  unfolding rstrip_char_def by (cases "rev s") (auto simp: last_rev [symmetric] simp del: last_rev)

lemma rstrip_char_sub: "set (rstrip_char c s) \<subseteq> set s"
  unfolding rstrip_char_def by (auto dest: set_dropWhileD)

lemma digit_neq_dot: "is_digit c \<Longrightarrow> c \<noteq> CHR ''.''"
  by (auto simp: is_digit_def)

lemma last_is_digit: "s \<noteq> [] \<Longrightarrow> list_all is_digit s \<Longrightarrow> is_digit (last s)"
  by (simp add: list_all_iff)

lemma hd_is_digit: "s \<noteq> [] \<Longrightarrow> list_all is_digit s \<Longrightarrow> is_digit (hd s)"
  by (simp add: list_all_iff)

lemma trim_dec_text_cases:
  assumes p: "0 < p"
  obtains (whole) "trim (dec_text p n) = str_nat (n div 10 ^ p)" "n mod 10 ^ p = 0"
  | (frac) f z where "trim (dec_text p n) = str_nat (n div 10 ^ p) @ ''.'' @ f"
      "f \<noteq> []" "list_all is_digit f" "pad_digits p (n mod 10 ^ p) = f @ replicate z CHR ''0''"
proof -
  define i where "i = str_nat (n div 10 ^ p)"
  define F where "F = pad_digits p (n mod 10 ^ p)"
  define f where "f = rstrip_char CHR ''0'' F"
  have lt: "n mod 10 ^ p < 10 ^ p" by simp
  note pd = pad_digits_props [OF p lt, folded F_def]
  obtain z where z: "F = f @ replicate z CHR ''0''"
    using rstrip_char_split [of F "CHR ''0''"] unfolding f_def by blast
  have fd: "list_all is_digit f"
    using pd(2) z by (metis list_all_append)
  have i: "i \<noteq> []" "list_all is_digit i"
    by (simp_all add: i_def str_nat_nonempty str_nat_digits)
  have "rstrip_char CHR ''0'' ''.'' = ''.''" by (simp add: rstrip_char_def)
  with rstrip_char_append [of "CHR ''0''" "''.''" F]
  have "rstrip_char CHR ''0'' (''.'' @ F) = ''.'' @ f"
    by (cases "f = []") (simp_all add: f_def)
  with rstrip_char_append [of "CHR ''0''" i "''.'' @ F"]
  have s1: "rstrip_char CHR ''0'' (i @ ''.'' @ F) = i @ ''.'' @ f"
    by simp
  show thesis
  proof (cases "f = []")
    case True
    have "rstrip_char CHR ''.'' ''.'' = []" by (simp add: rstrip_char_def)
    moreover have "rstrip_char CHR ''.'' i = i"
      using i digit_neq_dot [OF last_is_digit [OF i]] by (intro rstrip_char_id)
    ultimately have "rstrip_char CHR ''.'' (i @ ''.'') = i"
      using rstrip_char_append [of "CHR ''.''" i "''.''"] by simp
    with s1 True have t: "trim (dec_text p n) = i"
      by (simp add: trim_def dec_text_def i_def F_def)
    from z True have "nat_of_digits F = 0" by (simp add: nat_of_digits_zeros)
    with pd(3) have "n mod 10 ^ p = 0" by simp
    with t show ?thesis by (intro whole) (simp_all add: i_def)
  next
    case False
    then have "last (''.'' @ f) \<noteq> CHR ''.''"
      using digit_neq_dot [OF last_is_digit [OF False fd]] by simp
    then have "rstrip_char CHR ''.'' (''.'' @ f) = ''.'' @ f"
      by (intro rstrip_char_id) simp_all
    with rstrip_char_append [of "CHR ''.''" i "''.'' @ f"]
    have "rstrip_char CHR ''.'' (i @ ''.'' @ f) = i @ ''.'' @ f"
      by simp
    with s1 have "trim (dec_text p n) = i @ ''.'' @ f"
      by (simp add: trim_def dec_text_def i_def F_def)
    with False fd z show ?thesis by (intro frac) (simp_all add: i_def F_def)
  qed
qed

lemma not_digit_dot: "\<not> is_digit CHR ''.''"
  by (simp add: is_digit_def)

lemma digit_to_lower: "is_digit c \<Longrightarrow> to_lower c = c"
  by (rule to_lower_id) (auto simp: is_digit_def capitals_def)

lemma py_float_unsigned:
  assumes "t \<noteq> []" "is_digit (hd t)" "\<not> is_space (last t)"
  shows "py_float t = map_option (mk_float False) (parse_decimal t)"
proof -
  have st: "strip t = t"
    using assms digit_not_space by (intro strip_id) auto
  have sign: "hd t \<noteq> CHR ''-''" "hd t \<noteq> CHR ''+''"
    using assms(2) by (auto simp: is_digit_def)
  have "hd (lower t) = hd t"
    using assms(1,2) by (cases t) (simp_all add: lower_def digit_to_lower)
  with assms(2) have "is_digit (hd (lower t))" by simp
  then have "lower t \<noteq> ''inf''" "lower t \<noteq> ''infinity''" "lower t \<noteq> ''nan''"
    by (auto simp: is_digit_def)
  with st sign show ?thesis
    by (simp add: py_float_def Let_def)
qed

lemma parse_decimal_int:
  assumes "i \<noteq> []" "list_all is_digit i"
  shows "parse_decimal i = Some (of_nat (nat_of_digits i))"
proof -
  from assms(2) have w: "takeWhile is_digit i = i" "dropWhile is_digit i = []"
    by (simp_all add: list_all_iff)
  show ?thesis unfolding parse_decimal_def Let_def w using assms(1) by simp
qed

lemma parse_decimal_frac:
  assumes "i \<noteq> []" "list_all is_digit i" "list_all is_digit f"
  shows "parse_decimal (i @ ''.'' @ f) = Some (of_nat (nat_of_digits (i @ f)) / 10 ^ length f)"
proof -
  from assms(2) have w: "takeWhile is_digit (i @ ''.'' @ f) = i"
    "dropWhile is_digit (i @ ''.'' @ f) = ''.'' @ f"
    by (simp_all add: list_all_iff not_digit_dot)
  from assms(3) have v: "takeWhile is_digit f = f" "dropWhile is_digit f = []"
    by (simp_all add: list_all_iff)
  have h: "hd (''.'' @ f) = CHR ''.''" "tl (''.'' @ f) = f" "''.'' @ f \<noteq> []" by simp_all
  show ?thesis unfolding parse_decimal_def Let_def w h v using assms(1) by simp
qed

lemma py_float_str_nat: "py_float (str_nat n) = Some (mk_float False (of_nat n))"
proof -
  note d = str_nat_nonempty [of n] str_nat_digits [of n]
  have "py_float (str_nat n) = map_option (mk_float False) (parse_decimal (str_nat n))"
    using d digit_not_space [OF last_is_digit [OF d]] hd_is_digit [OF d]
    by (intro py_float_unsigned)
  then show ?thesis by (simp add: parse_decimal_int [OF d] nat_of_digits_str_nat)
qed

lemma trim_dec_text_chars:
  assumes "0 < p"
  shows "trim (dec_text p n) \<noteq> []" "is_digit (hd (trim (dec_text p n)))"
    "is_digit (last (trim (dec_text p n)))"
    "list_all (\<lambda>c. is_digit c \<or> c = CHR ''.'') (trim (dec_text p n))"
proof -
  note d = str_nat_nonempty [of "n div 10 ^ p"] str_nat_digits [of "n div 10 ^ p"]
  have "trim (dec_text p n) \<noteq> [] \<and> is_digit (hd (trim (dec_text p n)))
      \<and> is_digit (last (trim (dec_text p n)))
      \<and> list_all (\<lambda>c. is_digit c \<or> c = CHR ''.'') (trim (dec_text p n))"
  proof (rule trim_dec_text_cases [OF assms, of n], goal_cases)
    case 1
    with d hd_is_digit [OF d] last_is_digit [OF d] show ?case
      by (auto simp: list_all_iff)
  next
    case (2 f z)
    with d hd_is_digit [OF d] last_is_digit [OF 2(2,3)] show ?case
      by (auto simp: list_all_iff)
  qed
  then show "trim (dec_text p n) \<noteq> []" "is_digit (hd (trim (dec_text p n)))"
    "is_digit (last (trim (dec_text p n)))"
    "list_all (\<lambda>c. is_digit c \<or> c = CHR ''.'') (trim (dec_text p n))"
    by simp_all
qed

lemma parse_trim_dec_text:
  assumes "0 < p"
  shows "parse_decimal (trim (dec_text p n)) = Some (of_nat n / 10 ^ p)"
proof (rule trim_dec_text_cases [OF assms, of n], goal_cases)
  case whole: 1
  note d = str_nat_nonempty [of "n div 10 ^ p"] str_nat_digits [of "n div 10 ^ p"]
  from whole(2) have "n = n div 10 ^ p * 10 ^ p"
    by (metis add.right_neutral div_mult_mod_eq)
  then have "rat_of_nat n = rat_of_nat (n div 10 ^ p) * 10 ^ p"
    by (metis of_nat_mult of_nat_numeral of_nat_power)
  then have "rat_of_nat n / 10 ^ p = rat_of_nat (n div 10 ^ p)" by simp
  with whole(1) show ?case
    by (simp add: parse_decimal_int [OF d] nat_of_digits_str_nat)
next
  case frac: (2 f z)
  note d = str_nat_nonempty [of "n div 10 ^ p"] str_nat_digits [of "n div 10 ^ p"]
  have lt: "n mod 10 ^ p < 10 ^ p" by simp
  note pd = pad_digits_props [OF assms lt]
  from pd(1) frac(4) have len: "p = length f + z" by simp
  from pd(3) frac(4) have m: "n mod 10 ^ p = nat_of_digits f * 10 ^ z"
    by (simp add: nat_of_digits_append nat_of_digits_zeros)
  have "n = n div 10 ^ p * 10 ^ p + n mod 10 ^ p"
    by (rule div_mult_mod_eq [symmetric])
  with m have "n = n div 10 ^ p * 10 ^ p + nat_of_digits f * 10 ^ z" by simp
  then have "rat_of_nat n = rat_of_nat (n div 10 ^ p * 10 ^ p + nat_of_digits f * 10 ^ z)"
    by (rule arg_cong)
  then have n: "rat_of_nat n
      = rat_of_nat (n div 10 ^ p) * 10 ^ p + rat_of_nat (nat_of_digits f) * 10 ^ z"
    by simp
  have "parse_decimal (trim (dec_text p n))
      = Some (rat_of_nat (nat_of_digits (str_nat (n div 10 ^ p) @ f)) / 10 ^ length f)"
    unfolding frac(1) using d frac(3) by (rule parse_decimal_frac)
  also have "rat_of_nat (nat_of_digits (str_nat (n div 10 ^ p) @ f)) / 10 ^ length f
      = rat_of_nat n / 10 ^ p"
    unfolding n len
    by (simp add: nat_of_digits_append nat_of_digits_str_nat power_add field_simps)
  finally show ?case .
qed

lemma py_float_trim_dec_text:
  assumes "0 < p"
  shows "py_float (trim (dec_text p n)) = Some (mk_float False (of_nat n / 10 ^ p))"
proof -
  note c = trim_dec_text_chars [OF assms, of n]
  have "py_float (trim (dec_text p n))
      = map_option (mk_float False) (parse_decimal (trim (dec_text p n)))"
    using c(1,2) digit_not_space [OF c(3)] by (rule py_float_unsigned)
  then show ?thesis by (simp add: parse_trim_dec_text [OF assms])
qed

subsection \<open>Float steps of the conversions\<close>

lemma float_consts:
  "fadd f_1 f_1e_9 = Finite False (281474976992131 / 281474976710656)"
  "f_1e_6 = Finite False (4722366482869645 / 4722366482869645213696)"
  by (simp_all add: f_1_def f_1e_9_def f_1e_6_def float_eval)

lemma mk_float_nat: "n < 2 ^ 53 \<Longrightarrow> mk_float s (of_nat n) = Finite s (of_nat n)"
  by (simp add: mk_float_def rnd_nat)

lemma mk_float_normal:
  assumes "1 / 2 ^ 1022 \<le> x" "x < 2 ^ 1023"
  obtains r where "mk_float s x = Finite s r" "\<bar>r - x\<bar> \<le> x / 2 ^ 53"
  using rnd_normal [OF assms] by (auto simp: mk_float_def)

lemma mk_float_le_double:
  assumes "0 \<le> x" "x < 2 ^ 1023"
  obtains r where "mk_float s x = Finite s r" "0 \<le> r" "r \<le> 2 * x"
  using rnd_le_double [OF assms] by (auto simp: mk_float_def)

lemma float_of_int_nat: "n < 2 ^ 53 \<Longrightarrow> float_of_int (int n) = Finite False (of_nat n)"
  by (simp add: float_of_int_def float_of_rat_def mk_float_nat)

lemma eps53: "(1::rat) / 2 ^ 53 \<le> 1 / 10 ^ 15" "(0::rat) < 1 / 2 ^ 53"
  by simp_all

lemma small_range: "1 / 10 ^ 6 \<le> x \<Longrightarrow> x \<le> 10 ^ 18 \<Longrightarrow> 1 / 2 ^ 1022 \<le> x \<and> x < 2 ^ 1023"
  for x :: rat
proof -
  assume a: "1 / 10 ^ 6 \<le> x" "x \<le> 10 ^ 18"
  have "(1::rat) / 2 ^ 1022 \<le> 1 / 10 ^ 6" "(10::rat) ^ 18 < 2 ^ 1023" by simp_all
  with a show ?thesis by linarith
qed

text \<open>A rounded value stays within a relative \<open>10\<^sup>-\<^sup>1\<^sup>5\<close> of the exact one.\<close>

lemma mk_float_close:
  assumes "1 / 10 ^ 6 \<le> x" "x \<le> 10 ^ 18"
  obtains r where "mk_float s x = Finite s r" "\<bar>r - x\<bar> \<le> x / 10 ^ 15"
proof -
  from small_range [OF assms] have rng: "1 / 2 ^ 1022 \<le> x" "x < 2 ^ 1023" by simp_all
  from mk_float_normal [OF rng, of s] obtain r
    where r: "mk_float s x = Finite s r" "\<bar>r - x\<bar> \<le> x / 2 ^ 53" by blast
  have "0 \<le> x" using assms(1) by (rule order_trans [rotated]) simp
  then have "x * (1 / 2 ^ 53) \<le> x * (1 / 10 ^ 15)"
    by (intro mult_left_mono eps53)
  with r(2) have "\<bar>r - x\<bar> \<le> x / 10 ^ 15" by simp
  with r(1) show thesis by (rule that)
qed

subsection \<open>The conversions on a cleaned number\<close>

lemma pct_display_to_raw_num:
  assumes "strip (to_unicode d) = s" "s \<noteq> []"
    and "strip (filter (\<lambda>ch. isdigit ch \<or> ch \<in> set ''.-'')
           (replace '','' ''.'' (replace ''%'' [] s))) = t" "t \<noteq> []"
    and "py_float t = Some val"
  shows "pct_display_to_raw d =
     (let raw_str = trim (format_fixed 4
                            (if flt (fadd f_1 f_1e_9) val then fdiv val f_100 else val))
      in if raw_str = [] then ''0'' else raw_str)"
  using assms by (simp add: pct_display_to_raw_def Let_def trim_def)

lemma pct_raw_to_display_num:
  assumes "strip (to_unicode d) = s" "s \<noteq> []"
    and "strip (filter (\<lambda>ch. isdigit ch \<or> ch \<in> set ''.-'')
           (replace '','' ''.'' (replace ''%'' [] s))) = t" "t \<noteq> []"
    and "py_float t = Some val"
    and "(if fle val (fadd f_1 f_1e_9) then fmul val f_100 else val) = perc"
    and "py_int_of_float (py_round perc) = Inr int_perc"
  shows "pct_raw_to_display d =
     Inr ((if flt (fabs (fsub perc (float_of_int int_perc))) f_1e_6 then str_int int_perc
           else trim (format_fixed 2 perc)) @ ''%'')"
  using assms by (simp add: pct_raw_to_display_def Let_def trim_def)

lemma space_raw_to_display_num:
  assumes "strip (to_unicode d) = s" "s \<noteq> []"
    and "strip (replace '','' ''.'' (filter (\<lambda>ch. isdigit ch \<or> ch \<in> set ''.,-'') s)) = t"
      "t \<noteq> []"
    and "py_float t = Some mm"
    and "py_int_of_float (py_round (fdiv mm f_1000)) = Inr int_m"
  shows "space_raw_to_display d =
     Inr ((if flt (fabs (fsub (fdiv mm f_1000) (float_of_int int_m))) f_1e_6 then str_int int_m
           else trim (format_fixed 3 (fdiv mm f_1000))) @ ''m'')"
  using assms by (simp add: space_raw_to_display_def Let_def trim_def)

lemma space_display_to_raw_num:
  assumes "lower (strip (to_unicode d)) = s" "s \<noteq> []"
    and "strip (replace '','' ''.'' (filter (\<lambda>ch. isdigit ch \<or> ch \<in> set ''.,-'')
           (replace ''m'' [] (replace ''mm'' [] s)))) = t" "t \<noteq> []"
    and "py_float t = Some m_val"
    and "py_int_of_float (py_round (fmul m_val f_1000)) = Inr mm_int"
  shows "space_display_to_raw d = Inr (str_int mm_int)"
  using assms by (simp add: space_display_to_raw_def Let_def)

text \<open>A text of digits and dots that starts and ends with a digit passes the cleaning.\<close>

lemma clean_text:
  assumes "t \<noteq> []" "list_all (\<lambda>c. is_digit c \<or> c = CHR ''.'') t"
    "is_digit (hd t)" "is_digit (last t)"
  shows "strip t = t"
    "strip (filter (\<lambda>ch. isdigit ch \<or> ch \<in> set ''.-'')
       (replace '','' ''.'' (replace ''%'' [] t))) = t"
    "strip (replace '','' ''.'' (filter (\<lambda>ch. isdigit ch \<or> ch \<in> set ''.,-'') t)) = t"
    "lower t = t"
    "CHR ''m'' \<notin> set t"
proof -
  from assms(2) have chars: "\<And>c. c \<in> set t \<Longrightarrow> is_digit c \<or> c = CHR ''.''"
    by (simp add: list_all_iff)
  show st: "strip t = t"
    using assms digit_not_space by (intro strip_id) auto
  have pc: "CHR ''%'' \<notin> set t" and cm: "CHR '','' \<notin> set t"
    using chars by (auto simp: is_digit_def)
  show "CHR ''m'' \<notin> set t"
    using chars by (auto simp: is_digit_def)
  have r1: "replace ''%'' [] t = t" using pc by (intro replace_absent) simp_all
  have r2: "replace '','' ''.'' t = t" using cm by (intro replace_absent) simp_all
  have f1: "filter (\<lambda>ch. isdigit ch \<or> ch \<in> set ''.-'') t = t"
    using chars by (intro filter_id) (auto simp: list_all_iff isdigit_def)
  have f2: "filter (\<lambda>ch. isdigit ch \<or> ch \<in> set ''.,-'') t = t"
    using chars by (intro filter_id) (auto simp: list_all_iff isdigit_def)
  show "strip (filter (\<lambda>ch. isdigit ch \<or> ch \<in> set ''.-'')
       (replace '','' ''.'' (replace ''%'' [] t))) = t"
    by (simp only: r1 r2 f1 st)
  show "strip (replace '','' ''.'' (filter (\<lambda>ch. isdigit ch \<or> ch \<in> set ''.,-'') t)) = t"
    by (simp only: r2 f2 st)
  show "lower t = t"
    using chars by (intro lower_id) (auto simp: list_all_iff is_digit_def capitals_def)
qed

lemma str_nat_chars:
  "str_nat n \<noteq> []" "list_all (\<lambda>c. is_digit c \<or> c = CHR ''.'') (str_nat n)"
  "is_digit (hd (str_nat n))" "is_digit (last (str_nat n))"
proof -
  note d = str_nat_nonempty [of n] str_nat_digits [of n]
  show "str_nat n \<noteq> []" by (rule d)
  show "list_all (\<lambda>c. is_digit c \<or> c = CHR ''.'') (str_nat n)"
    using d(2) by (simp add: list_all_iff)
  show "is_digit (hd (str_nat n))" by (rule hd_is_digit [OF d])
  show "is_digit (last (str_nat n))" by (rule last_is_digit [OF d])
qed

subsection \<open>Percentages\<close>

lemma format_fixed_dec_text:
  "format_fixed p (Finite False r) = dec_text p (nat (round_half_even (r * 10 ^ p)))"
  by (simp add: dec_text_def Let_def)

lemma str_int_nat: "str_int (int n) = str_nat n"
  by (simp add: str_int_def)

lemma py_round_near:
  assumes "\<bar>x - rat_of_nat n\<bar> < 1 / 2"
  shows "py_int_of_float (py_round (Finite False x)) = Inr (int n)"
proof -
  from assms have "rat_of_nat n \<le> x + 1 / 2" "x + 1 / 2 < rat_of_nat n + 1"
    by linarith+
  then have "rat_of_int (int n) \<le> x + 1 / 2" "x + 1 / 2 < rat_of_int (int n) + 1"
    by simp_all
  then have "\<lfloor>x + 1 / 2\<rfloor> = int n" by (rule floor_unique)
  then show ?thesis by simp
qed

lemma fsub_small:
  assumes "\<bar>x - y\<bar> \<le> 1 / 10 ^ 7"
  shows "flt (fabs (fsub (Finite False x) (Finite False y))) f_1e_6"
proof (cases "x = y")
  case True
  then show ?thesis by (simp add: float_consts fval_def)
next
  case False
  have "\<bar>x - y\<bar> < 2 ^ 1023"
    using assms by (rule le_less_trans) simp
  from mk_float_le_double [OF abs_ge_zero this, of "x - y < 0"] obtain d
    where d: "mk_float (x - y < 0) \<bar>x - y\<bar> = Finite (x - y < 0) d" "d \<le> 2 * \<bar>x - y\<bar>"
    by blast
  from d(2) assms have "d \<le> 2 / 10 ^ 7" by simp
  also have "\<dots> < 4722366482869645 / 4722366482869645213696" by simp
  finally show ?thesis
    using False d(1) by (simp add: float_consts fval_def float_of_rat_def)
qed

lemma pct_ratio:
  fixes n :: nat
  assumes "2 \<le> n" "n \<le> 100"
  obtains r where "mk_float False (rat_of_nat n / 100) = Finite False r"
    "\<bar>r - rat_of_nat n / 100\<bar> \<le> 1 / 10 ^ 15"
proof -
  from assms have n: "2 \<le> rat_of_nat n" "rat_of_nat n \<le> 100"
    using of_nat_mono [of 2 n, where ?'a = rat] of_nat_mono [of n 100, where ?'a = rat]
    by simp_all
  then have rng: "1 / 10 ^ 6 \<le> rat_of_nat n / 100" "rat_of_nat n / 100 \<le> 10 ^ 18"
    by simp_all
  from mk_float_close [OF rng, of False] obtain r
    where r: "mk_float False (rat_of_nat n / 100) = Finite False r"
      "\<bar>r - rat_of_nat n / 100\<bar> \<le> rat_of_nat n / 100 / 10 ^ 15" by blast
  from n have "rat_of_nat n / 100 / 10 ^ 15 \<le> 1 / 10 ^ 15" by simp
  with r(2) have "\<bar>r - rat_of_nat n / 100\<bar> \<le> 1 / 10 ^ 15" by linarith
  with r(1) show thesis by (rule that)
qed

lemma not_in_clean:
  assumes "list_all (\<lambda>c. is_digit c \<or> c = CHR ''.'') t" "\<not> is_digit x" "x \<noteq> CHR ''.''"
  shows "x \<notin> set t"
  using assms by (auto simp: list_all_iff)

lemma pct_display_to_raw_percent:
  assumes "2 \<le> n" "n \<le> 100"
  shows "pct_display_to_raw (Some (str_nat n @ ''%'')) = trim (dec_text 4 (100 * n))"
proof -
  note c = str_nat_chars [of n]
  from assms have n: "2 \<le> rat_of_nat n" "rat_of_nat n \<le> 100"
    using of_nat_mono [of 2 n, where ?'a = rat] of_nat_mono [of n 100, where ?'a = rat]
    by simp_all
  have "hd (str_nat n @ ''%'') = hd (str_nat n)" "last (str_nat n @ ''%'') = CHR ''%''"
    using c(1) by simp_all
  moreover have "\<not> is_space CHR ''%''" by (simp add: is_space_def)
  ultimately have "strip (str_nat n @ ''%'') = str_nat n @ ''%''"
    using digit_not_space [OF c(3)] by (intro strip_id) (simp_all del: hd_append last_append)
  then have s: "strip (to_unicode (Some (str_nat n @ ''%''))) = str_nat n @ ''%''"
    by (simp add: to_unicode_def)
  have "\<not> is_digit CHR ''%''" by (simp add: is_digit_def)
  then have "CHR ''%'' \<notin> set (str_nat n)"
    by (intro not_in_clean [OF c(2)]) simp_all
  then have r: "replace ''%'' [] (str_nat n @ ''%'') = str_nat n"
    by (rule replace_char_end)
  have r': "replace ''%'' [] (str_nat n) = str_nat n"
    using \<open>CHR ''%'' \<notin> set (str_nat n)\<close> by (intro replace_absent) simp_all
  have t: "strip (filter (\<lambda>ch. isdigit ch \<or> ch \<in> set ''.-'')
           (replace '','' ''.'' (replace ''%'' [] (str_nat n @ ''%'')))) = str_nat n"
    using clean_text(2) [OF c] unfolding r r' .
  have "n < 2 ^ 53" using assms(2) by (rule le_less_trans) simp
  then have v: "py_float (str_nat n) = Some (Finite False (rat_of_nat n))"
    by (simp add: py_float_str_nat mk_float_nat)
  obtain q where q: "mk_float False (rat_of_nat n / 100) = Finite False q"
    "\<bar>q - rat_of_nat n / 100\<bar> \<le> 1 / 10 ^ 15"
    using pct_ratio [OF assms] by blast
  have big: "flt (fadd f_1 f_1e_9) (Finite False (rat_of_nat n))"
    using n(1) by (simp add: float_consts fval_def)
  have dv: "fdiv (Finite False (rat_of_nat n)) f_100 = Finite False q"
    by (simp add: f_100_def q(1))
  have "\<bar>q * 10 ^ 4 - rat_of_int (int (100 * n))\<bar> = 10 ^ 4 * \<bar>q - rat_of_nat n / 100\<bar>"
    by (simp add: abs_if)
  also have "\<dots> \<le> 10 ^ 4 * (1 / 10 ^ 15)"
    using q(2) by (intro mult_left_mono) simp_all
  also have "\<dots> < 1 / 2" by simp
  finally have "round_half_even (q * 10 ^ 4) = int (100 * n)"
    by (rule round_half_even_near)
  then have f: "format_fixed 4 (Finite False q) = dec_text 4 (100 * n)"
    by (simp only: format_fixed_dec_text nat_int)
  have ne: "trim (dec_text 4 (100 * n)) \<noteq> []"
    by (rule trim_dec_text_chars) simp
  have ne': "str_nat n @ ''%'' \<noteq> []" by simp
  show ?thesis
    unfolding pct_display_to_raw_num [OF s ne' t c(1) v]
    using big dv f ne by (simp add: Let_def)
qed

lemma pct_raw_to_display_fraction:
  assumes "2 \<le> n" "n \<le> 100"
  shows "pct_raw_to_display (Some (trim (dec_text 4 (100 * n)))) = Inr (str_nat n @ ''%'')"
proof -
  define T where "T = trim (dec_text 4 (100 * n))"
  have p4: "(0::nat) < 4" by simp
  note c0 = trim_dec_text_chars [OF p4, of "100 * n", folded T_def]
  note c = c0(1) c0(4) c0(2) c0(3)
  from assms have n: "2 \<le> rat_of_nat n" "rat_of_nat n \<le> 100"
    using of_nat_mono [of 2 n, where ?'a = rat] of_nat_mono [of n 100, where ?'a = rat]
    by simp_all
  have s: "strip (to_unicode (Some T)) = T"
    unfolding to_unicode_def option.case by (rule clean_text(1) [OF c])
  note t = clean_text(2) [OF c]
  obtain q where q: "mk_float False (rat_of_nat n / 100) = Finite False q"
    "\<bar>q - rat_of_nat n / 100\<bar> \<le> 1 / 10 ^ 15"
    using pct_ratio [OF assms] by blast
  have "rat_of_nat (100 * n) / 10 ^ 4 = rat_of_nat n / 100" by simp
  then have v: "py_float T = Some (Finite False q)"
    unfolding T_def by (simp only: py_float_trim_dec_text [OF p4] q(1))
  from q(2) have q': "\<bar>q - rat_of_nat n / 100\<bar> \<le> 1 / 1000000000000000" by simp
  from q' n have qb: "1 / 100 \<le> q" "q \<le> 2" by linarith+
  have le: "fle (Finite False q) (fadd f_1 f_1e_9)"
  proof -
    from q' n(2) have "q \<le> 1 + 1 / 1000000000000000" by linarith
    also have "\<dots> \<le> 281474976992131 / 281474976710656" by simp
    finally have "q \<le> 281474976992131 / 281474976710656" .
    then show ?thesis by (simp only: float_consts fle.simps fval_def if_False)
  qed
  have rng: "1 / 10 ^ 6 \<le> q * 100" "q * 100 \<le> 10 ^ 18"
    using qb by simp_all
  from mk_float_close [OF rng, of False] obtain pc
    where pc: "mk_float False (q * 100) = Finite False pc"
      "\<bar>pc - q * 100\<bar> \<le> q * 100 / 10 ^ 15" by blast
  have perc: "(if fle (Finite False q) (fadd f_1 f_1e_9) then fmul (Finite False q) f_100
               else Finite False q) = Finite False pc"
    using le pc(1) by (simp add: f_100_def)
  have "q * 100 / 10 ^ 15 \<le> 2 / 10 ^ 13" using qb(2) by simp
  with pc(2) have e1: "\<bar>pc - q * 100\<bar> \<le> 2 / 10 ^ 13" by linarith
  have "\<bar>q * 100 - rat_of_nat n\<bar> = 100 * \<bar>q - rat_of_nat n / 100\<bar>"
    by (simp add: abs_if)
  also have "\<dots> \<le> 100 * (1 / 10 ^ 15)"
    using q(2) by (intro mult_left_mono) simp_all
  finally have e2: "\<bar>q * 100 - rat_of_nat n\<bar> \<le> 1 / 10 ^ 13" by simp
  from e1 e2 have close: "\<bar>pc - rat_of_nat n\<bar> \<le> 3 / 10 ^ 13" by linarith
  then have "\<bar>pc - rat_of_nat n\<bar> < 1 / 2" by (rule le_less_trans) simp
  then have rd: "py_int_of_float (py_round (Finite False pc)) = Inr (int n)"
    by (rule py_round_near)
  have "n < 2 ^ 53" using assms(2) by (rule le_less_trans) simp
  then have fi: "float_of_int (int n) = Finite False (rat_of_nat n)"
    by (rule float_of_int_nat)
  from close have "\<bar>pc - rat_of_nat n\<bar> \<le> 1 / 10 ^ 7" by (rule order_trans) simp
  then have sm: "flt (fabs (fsub (Finite False pc) (Finite False (rat_of_nat n)))) f_1e_6"
    by (rule fsub_small)
  show ?thesis
    unfolding T_def [symmetric] pct_raw_to_display_num [OF s c(1) t c(1) v perc rd]
    using sm by (simp add: fi str_int_nat)
qed

lemma replicate_numeral_eval: "replicate (numeral k) x = x # replicate (pred_numeral k) x"
  by (simp add: numeral_eq_Suc)

lemmas conv_eval = replicate_numeral_eval pct_display_to_raw_def pct_raw_to_display_def space_raw_to_display_def
  space_display_to_raw_def to_unicode_def trim_def rstrip_char_def pad_digits_def
  f_1_def f_100_def f_1000_def f_1e_9_def f_1e_6_def

lemma pct_zero:
  "pct_display_to_raw (Some ''0%'') = ''0''" "pct_raw_to_display (Some ''0'') = Inr ''0%''"
  by (simp_all add: conv_eval float_eval text_eval)

lemma pct_one:
  "pct_display_to_raw (Some ''1%'') = ''1''" "pct_raw_to_display (Some ''1'') = Inr ''100%''"
  by (simp_all add: conv_eval float_eval text_eval)

lemma pct_just_above_one:
  "py_float ''1.0000000005'' = Some (Finite False (562949953702787 / 562949953421312))"
  "pct_display_to_raw (Some ''1.0000000005'') = ''1''"
  "trim (format_fixed 4 (fdiv (Finite False (562949953702787 / 562949953421312)) f_100)) = ''0.01''"
  by (simp_all add: conv_eval float_eval text_eval)

lemma fle_not_flt: "fle a b \<Longrightarrow> \<not> flt b a"
  by (cases a; cases b) (auto simp: fval_def split: if_splits)

text \<open>
  Claim C8, as amended. \<open>pct_display_to_raw\<close> keeps a parsed value that is at most
  \<open>1.0 + 1e-9\<close> as a fraction and divides a value above \<open>1.0 + 1e-9\<close> by 100. For
  \<open>n = 0\<close> and for every \<open>n\<close> from 2 to 100 the text \<open>n%\<close> is mapped back to \<open>n%\<close> by
  \<open>pct_display_to_raw\<close> followed by \<open>pct_raw_to_display\<close>; the text \<open>1%\<close> is read as the
  fraction 1 and comes back as \<open>100%\<close>.
\<close>

theorem pct_threshold_and_roundtrip:
  fixes n :: nat
  shows "(strip (to_unicode d) \<noteq> []
          \<and> strip (filter (\<lambda>ch. isdigit ch \<or> ch \<in> set ''.-'')
                (replace '','' ''.'' (replace ''%'' [] (strip (to_unicode d))))) = t
          \<and> t \<noteq> [] \<and> py_float t = Some val \<longrightarrow>
            (fle val (fadd f_1 f_1e_9) \<longrightarrow>
               pct_display_to_raw d =
                 (if trim (format_fixed 4 val) = [] then ''0'' else trim (format_fixed 4 val)))
          \<and> (flt (fadd f_1 f_1e_9) val \<longrightarrow>
               pct_display_to_raw d =
                 (if trim (format_fixed 4 (fdiv val f_100)) = [] then ''0''
                  else trim (format_fixed 4 (fdiv val f_100)))))
       \<and> (n = 0 \<or> 2 \<le> n \<and> n \<le> 100 \<longrightarrow>
            pct_raw_to_display (Some (pct_display_to_raw (Some (str_nat n @ ''%''))))
              = Inr (str_nat n @ ''%''))
       \<and> pct_display_to_raw (Some ''1%'') = ''1''
       \<and> pct_raw_to_display (Some (pct_display_to_raw (Some ''1%''))) = Inr ''100%''"
proof (intro conjI impI)
  assume h: "strip (to_unicode d) \<noteq> []
          \<and> strip (filter (\<lambda>ch. isdigit ch \<or> ch \<in> set ''.-'')
                (replace '','' ''.'' (replace ''%'' [] (strip (to_unicode d))))) = t
          \<and> t \<noteq> [] \<and> py_float t = Some val"
  then have h1: "strip (to_unicode d) \<noteq> []"
    and h2: "strip (filter (\<lambda>ch. isdigit ch \<or> ch \<in> set ''.-'')
                (replace '','' ''.'' (replace ''%'' [] (strip (to_unicode d))))) = t"
    and h3: "t \<noteq> []" and h4: "py_float t = Some val"
    by blast+
  note num = pct_display_to_raw_num [OF refl h1 h2 h3 h4]
  {
    assume "fle val (fadd f_1 f_1e_9)"
    then have "\<not> flt (fadd f_1 f_1e_9) val" by (rule fle_not_flt)
    with num show "pct_display_to_raw d =
        (if trim (format_fixed 4 val) = [] then ''0'' else trim (format_fixed 4 val))"
      by (simp add: Let_def)
  next
    assume "flt (fadd f_1 f_1e_9) val"
    with num show "pct_display_to_raw d =
        (if trim (format_fixed 4 (fdiv val f_100)) = [] then ''0''
         else trim (format_fixed 4 (fdiv val f_100)))"
      by (simp add: Let_def)
  }
next
  assume "n = 0 \<or> 2 \<le> n \<and> n \<le> 100"
  then show "pct_raw_to_display (Some (pct_display_to_raw (Some (str_nat n @ ''%''))))
      = Inr (str_nat n @ ''%'')"
  proof
    assume "n = 0"
    then show ?thesis by (simp add: str_nat_small pct_zero)
  next
    assume "2 \<le> n \<and> n \<le> 100"
    then show ?thesis
      by (simp add: pct_display_to_raw_percent pct_raw_to_display_fraction)
  qed
next
  show "pct_display_to_raw (Some ''1%'') = ''1''" by (rule pct_one)
  show "pct_raw_to_display (Some (pct_display_to_raw (Some ''1%''))) = Inr ''100%''"
    by (simp only: pct_one)
qed

lemma pct_fifty:
  "py_float ''50'' = Some (Finite False 50)"
  "trim (format_fixed 4 (fdiv (Finite False 50) f_100)) = ''0.5''"
  "py_float ''0.5'' = Some (Finite False (1 / 2))"
  "trim (format_fixed 4 (Finite False (1 / 2))) = ''0.5''"
  by (simp_all add: conv_eval float_eval text_eval)

theorem pct_threshold_and_roundtrip_witness:
  "(strip (to_unicode (Some ''50'')) \<noteq> []
     \<and> strip (filter (\<lambda>ch. isdigit ch \<or> ch \<in> set ''.-'')
           (replace '','' ''.'' (replace ''%'' [] (strip (to_unicode (Some ''50'')))))) = ''50''
     \<and> ''50'' \<noteq> [] \<and> py_float ''50'' = Some (Finite False 50))
   \<and> flt (fadd f_1 f_1e_9) (Finite False 50)
   \<and> pct_display_to_raw (Some ''50'') = ''0.5''
   \<and> (strip (to_unicode (Some ''0.5'')) \<noteq> []
     \<and> strip (filter (\<lambda>ch. isdigit ch \<or> ch \<in> set ''.-'')
           (replace '','' ''.'' (replace ''%'' [] (strip (to_unicode (Some ''0.5'')))))) = ''0.5''
     \<and> ''0.5'' \<noteq> [] \<and> py_float ''0.5'' = Some (Finite False (1 / 2)))
   \<and> fle (Finite False (1 / 2)) (fadd f_1 f_1e_9)
   \<and> pct_display_to_raw (Some ''0.5'') = ''0.5''
   \<and> (57 = (0::nat) \<or> 2 \<le> (57::nat) \<and> (57::nat) \<le> 100)
   \<and> pct_raw_to_display (Some (pct_display_to_raw (Some ''57%''))) = Inr ''57%''"
proof -
  have h50: "strip (to_unicode (Some ''50'')) \<noteq> []
     \<and> strip (filter (\<lambda>ch. isdigit ch \<or> ch \<in> set ''.-'')
           (replace '','' ''.'' (replace ''%'' [] (strip (to_unicode (Some ''50'')))))) = ''50''
     \<and> ''50'' \<noteq> [] \<and> py_float ''50'' = Some (Finite False 50)"
    by (simp add: to_unicode_def text_eval pct_fifty)
  have h05: "strip (to_unicode (Some ''0.5'')) \<noteq> []
     \<and> strip (filter (\<lambda>ch. isdigit ch \<or> ch \<in> set ''.-'')
           (replace '','' ''.'' (replace ''%'' [] (strip (to_unicode (Some ''0.5'')))))) = ''0.5''
     \<and> ''0.5'' \<noteq> [] \<and> py_float ''0.5'' = Some (Finite False (1 / 2))"
    by (simp add: to_unicode_def text_eval pct_fifty)
  have big: "flt (fadd f_1 f_1e_9) (Finite False 50)"
    and small: "fle (Finite False (1 / 2)) (fadd f_1 f_1e_9)"
    by (simp_all add: float_consts fval_def)
  have n: "57 = (0::nat) \<or> 2 \<le> (57::nat) \<and> (57::nat) \<le> 100" by simp
  note a = pct_threshold_and_roundtrip [of "Some ''50''" "''50''" "Finite False 50" 57]
  note b = pct_threshold_and_roundtrip [of "Some ''0.5''" "''0.5''" "Finite False (1 / 2)" 57]
  from a [THEN conjunct1, rule_format, OF h50, THEN conjunct2, rule_format, OF big]
  have r50: "pct_display_to_raw (Some ''50'') = ''0.5''"
    by (simp only: pct_fifty) simp
  from b [THEN conjunct1, rule_format, OF h05, THEN conjunct1, rule_format, OF small]
  have r05: "pct_display_to_raw (Some ''0.5'') = ''0.5''"
    by (simp only: pct_fifty) simp
  have s: "str_nat 57 = ''57''" by (simp add: text_eval)
  from a [THEN conjunct2, THEN conjunct1, rule_format, OF n]
  have r57: "pct_raw_to_display (Some (pct_display_to_raw (Some ''57%''))) = Inr ''57%''"
    by (simp add: s)
  from h50 big r50 h05 small r05 n r57 show ?thesis by blast
qed

text \<open>
  The claim as stated fails just above 1: the text \<open>1.0000000005\<close> parses to a value
  greater than 1, yet it is kept as a fraction and printed as \<open>1\<close>; divided by 100 it would
  print as \<open>0.01\<close>.
\<close>

theorem pct_threshold_counterexample:
  "py_float ''1.0000000005'' = Some (Finite False (562949953702787 / 562949953421312))
   \<and> flt f_1 (Finite False (562949953702787 / 562949953421312))
   \<and> pct_display_to_raw (Some ''1.0000000005'') = ''1''
   \<and> trim (format_fixed 4 (fdiv (Finite False (562949953702787 / 562949953421312)) f_100))
       = ''0.01''"
  using pct_just_above_one by (simp add: f_1_def fval_def del: format_fixed.simps)

subsection \<open>Spacings\<close>

lemma mk_float_sharp:
  assumes "1 / 10 ^ 6 \<le> x" "x \<le> 10 ^ 18"
  obtains r where "mk_float s x = Finite s r" "\<bar>r - x\<bar> \<le> x / 9000000000000000"
proof -
  from small_range [OF assms] have rng: "1 / 2 ^ 1022 \<le> x" "x < 2 ^ 1023" by simp_all
  from mk_float_normal [OF rng, of s] obtain r
    where r: "mk_float s x = Finite s r" "\<bar>r - x\<bar> \<le> x / 2 ^ 53" by blast
  have "0 \<le> x" using assms(1) by (rule order_trans [rotated]) simp
  moreover have "(1::rat) / 2 ^ 53 \<le> 1 / 9000000000000000" by simp
  ultimately have "x * (1 / 2 ^ 53) \<le> x * (1 / 9000000000000000)"
    by (intro mult_left_mono)
  with r(2) have "\<bar>r - x\<bar> \<le> x / 9000000000000000" by simp
  with r(1) show thesis by (rule that)
qed

lemma replace_double_end:
  assumes "c \<notin> set s"
  shows "replace [c, c] new (s @ [c]) = s @ [c]"
  using assms by (induction s) auto

lemma strip_suffix_m:
  assumes "t \<noteq> []" "list_all (\<lambda>c. is_digit c \<or> c = CHR ''.'') t"
    "is_digit (hd t)" "is_digit (last t)"
  shows "lower (strip (t @ ''m'')) = t @ ''m''"
    "strip (replace '','' ''.'' (filter (\<lambda>ch. isdigit ch \<or> ch \<in> set ''.,-'')
       (replace ''m'' [] (replace ''mm'' [] (t @ ''m''))))) = t"
proof -
  have "hd (t @ ''m'') = hd t" "last (t @ ''m'') = CHR ''m''"
    using assms(1) by simp_all
  moreover have "\<not> is_space CHR ''m''" by (simp add: is_space_def)
  ultimately have st: "strip (t @ ''m'') = t @ ''m''"
    using digit_not_space [OF assms(3)]
    by (intro strip_id) (simp_all del: hd_append last_append)
  have "lower (t @ ''m'') = lower t @ lower ''m''" by (simp add: lower_def)
  also have "lower ''m'' = ''m''" by (simp add: lower_def to_lower_def capitals_def small_letters_def)
  finally show "lower (strip (t @ ''m'')) = t @ ''m''"
    by (simp only: st clean_text(4) [OF assms])
  note m = clean_text(5) [OF assms]
  have "replace ''mm'' [] (t @ ''m'') = t @ ''m''"
    using replace_double_end [OF m, of "[]"] by simp
  moreover have "replace ''m'' [] (t @ ''m'') = t"
    by (rule replace_char_end [OF m])
  ultimately show "strip (replace '','' ''.'' (filter (\<lambda>ch. isdigit ch \<or> ch \<in> set ''.,-'')
       (replace ''m'' [] (replace ''mm'' [] (t @ ''m''))))) = t"
    by (simp only: clean_text(3) [OF assms])
qed

lemma nat_bound_rat:
  fixes m :: nat
  assumes "m < 10 ^ 15"
  shows "rat_of_nat m < 1000000000000000" "m < 2 ^ 53"
proof -
  from assms have "rat_of_nat m < rat_of_nat (10 ^ 15)" by (simp only: of_nat_less_iff)
  then show "rat_of_nat m < 1000000000000000" by simp
  from assms show "m < 2 ^ 53" by (rule less_trans) simp
qed

text \<open>A multiple of a metre is shown as whole metres and read back exactly.\<close>

lemma space_whole_metres:
  assumes "1000 * k < (10::nat) ^ 15"
  shows "space_raw_to_display (Some (str_nat (1000 * k))) = Inr (str_nat k @ ''m'')"
    and "space_display_to_raw (Some (str_nat k @ ''m'')) = Inr (str_nat (1000 * k))"
proof -
  note b = nat_bound_rat [OF assms]
  have k53: "k < 2 ^ 53" using b(2) by simp
  note c = str_nat_chars [of "1000 * k"]
  have s: "strip (to_unicode (Some (str_nat (1000 * k)))) = str_nat (1000 * k)"
    by (simp add: to_unicode_def clean_text(1) [OF c])
  have v: "py_float (str_nat (1000 * k)) = Some (Finite False (rat_of_nat (1000 * k)))"
    by (simp only: py_float_str_nat mk_float_nat [OF b(2)])
  have e: "rat_of_nat (1000 * k) / 1000 = rat_of_nat k" by simp
  have dv: "fdiv (Finite False (rat_of_nat (1000 * k))) f_1000 = Finite False (rat_of_nat k)"
    by (simp add: f_1000_def e mk_float_nat [OF k53] del: of_nat_mult)
  have rd: "py_int_of_float (py_round (fdiv (Finite False (rat_of_nat (1000 * k))) f_1000))
      = Inr (int k)"
    unfolding dv by (rule py_round_near) simp
  have sm: "flt (fabs (fsub (Finite False (rat_of_nat k)) (Finite False (rat_of_nat k)))) f_1e_6"
    by (rule fsub_small) simp
  show "space_raw_to_display (Some (str_nat (1000 * k))) = Inr (str_nat k @ ''m'')"
    unfolding space_raw_to_display_num [OF s c(1) clean_text(3) [OF c] c(1) v rd]
    using sm by (simp only: dv float_of_int_nat [OF k53] str_int_nat if_True)
  note ck = str_nat_chars [of k]
  have s': "lower (strip (to_unicode (Some (str_nat k @ ''m'')))) = str_nat k @ ''m''"
    by (simp add: to_unicode_def strip_suffix_m(1) [OF ck])
  have v': "py_float (str_nat k) = Some (Finite False (rat_of_nat k))"
    by (simp only: py_float_str_nat mk_float_nat [OF k53])
  have e': "rat_of_nat k * 1000 = rat_of_nat (1000 * k)" by simp
  have ml: "fmul (Finite False (rat_of_nat k)) f_1000 = Finite False (rat_of_nat (1000 * k))"
    by (simp add: f_1000_def e' mk_float_nat [OF b(2)] del: of_nat_mult)
  have rd': "py_int_of_float (py_round (fmul (Finite False (rat_of_nat k)) f_1000))
      = Inr (int (1000 * k))"
    unfolding ml by (rule py_round_near) simp
  have ne: "str_nat k @ ''m'' \<noteq> []" by simp
  show "space_display_to_raw (Some (str_nat k @ ''m'')) = Inr (str_nat (1000 * k))"
    unfolding space_display_to_raw_num [OF s' ne strip_suffix_m(2) [OF ck] ck(1) v' rd']
    by (simp only: str_int_nat)
qed

text \<open>Any other length below \<open>10\<^sup>1\<^sup>5\<close> mm is shown with its three decimals and read back.\<close>

lemma space_ratio:
  fixes m :: nat
  assumes "m < 10 ^ 15" "\<not> 1000 dvd m"
  obtains r where "mk_float False (rat_of_nat m / 1000) = Finite False r"
    "\<bar>r - rat_of_nat m / 1000\<bar> \<le> 1 / 9000"
proof -
  note b = nat_bound_rat [OF assms(1)]
  from assms(2) have "m \<noteq> 0" by (rule contrapos_nn) simp
  then have "1 \<le> m" by simp
  then have m1: "1 \<le> rat_of_nat m" using of_nat_mono [of 1 m, where ?'a = rat] by simp
  have rng: "1 / 10 ^ 6 \<le> rat_of_nat m / 1000" "rat_of_nat m / 1000 \<le> 10 ^ 18"
    using m1 b(1) by simp_all
  from mk_float_sharp [OF rng, of False] obtain r
    where r: "mk_float False (rat_of_nat m / 1000) = Finite False r"
      "\<bar>r - rat_of_nat m / 1000\<bar> \<le> rat_of_nat m / 1000 / 9000000000000000" by blast
  from b(1) have "rat_of_nat m / 1000 / 9000000000000000 \<le> 1 / 9000" by simp
  with r(2) have "\<bar>r - rat_of_nat m / 1000\<bar> \<le> 1 / 9000" by linarith
  with r(1) show thesis by (rule that)
qed

lemma off_grid:
  fixes m :: nat and k :: int
  assumes "\<not> 1000 dvd m"
  shows "1 / 1000 \<le> \<bar>rat_of_nat m / 1000 - rat_of_int k\<bar>"
proof -
  have "int m - 1000 * k \<noteq> 0"
  proof
    assume "int m - 1000 * k = 0"
    then have "int m = 1000 * k" by simp
    then have "(1000::int) dvd int m" by simp
    then have "1000 dvd m" by presburger
    with assms show False ..
  qed
  then have "1 \<le> \<bar>int m - 1000 * k\<bar>" by simp
  then have "rat_of_int 1 \<le> rat_of_int \<bar>int m - 1000 * k\<bar>" by (simp only: of_int_le_iff)
  then have "1 \<le> \<bar>rat_of_nat m - 1000 * rat_of_int k\<bar>" by simp
  then show ?thesis by (simp add: abs_if field_simps split: if_splits)
qed

lemma space_fraction_metres:
  assumes "m < 10 ^ 15" "\<not> 1000 dvd m"
  shows "space_raw_to_display (Some (str_nat m)) = Inr (trim (dec_text 3 m) @ ''m'')"
    and "space_display_to_raw (Some (trim (dec_text 3 m) @ ''m'')) = Inr (str_nat m)"
proof -
  note b = nat_bound_rat [OF assms(1)]
  from assms(2) have "m \<noteq> 0" by (rule contrapos_nn) simp
  then have "1 \<le> m" by simp
  then have m1: "1 \<le> rat_of_nat m" using of_nat_mono [of 1 m, where ?'a = rat] by simp
  obtain r where r: "mk_float False (rat_of_nat m / 1000) = Finite False r"
    and e: "\<bar>r - rat_of_nat m / 1000\<bar> \<le> 1 / 9000"
    using space_ratio [OF assms] by blast
  from e m1 b(1) have rb: "8 / 9000 \<le> r" "r \<le> 1000000000001" by linarith+
  define k where "k = \<lfloor>r + 1 / 2\<rfloor>"
  have kr: "rat_of_int k \<le> r + 1 / 2" "r + 1 / 2 < rat_of_int k + 1"
    unfolding k_def by linarith+
  with rb have "- 1 < rat_of_int k" "rat_of_int k < 1000000000002" by linarith+
  then have k0: "0 \<le> k" and k1: "k < 1000000000002" by linarith+
  then have kn: "nat k < 2 ^ 53" by simp
  have fk: "float_of_int k = Finite False (rat_of_int k)"
    using float_of_int_nat [OF kn] k0 by simp
  have rd: "py_int_of_float (py_round (Finite False r)) = Inr k"
    by (simp add: k_def)
  \<comment> \<open>the value is not within \<open>1e-6\<close> of an integer\<close>
  from off_grid [OF assms(2), of k] e
  have far: "8 / 9000 \<le> \<bar>r - rat_of_int k\<bar>" by linarith
  from kr have near: "\<bar>r - rat_of_int k\<bar> \<le> 1 / 2" by linarith
  from far have ne: "r \<noteq> rat_of_int k" by auto
  have rng: "1 / 10 ^ 6 \<le> \<bar>r - rat_of_int k\<bar>" "\<bar>r - rat_of_int k\<bar> \<le> 10 ^ 18"
    using far near by simp_all
  from mk_float_sharp [OF rng, of "r - rat_of_int k < 0"] obtain d
    where d: "mk_float (r - rat_of_int k < 0) \<bar>r - rat_of_int k\<bar>
              = Finite (r - rat_of_int k < 0) d"
      "\<bar>d - \<bar>r - rat_of_int k\<bar>\<bar> \<le> \<bar>r - rat_of_int k\<bar> / 9000000000000000" by blast
  have "4 / 9000 \<le> d"
  proof -
    define x where "x = \<bar>r - rat_of_int k\<bar>"
    from d(2) far have "\<bar>d - x\<bar> \<le> x / 9000000000000000" "8 / 9000 \<le> x"
      unfolding x_def by simp_all
    then show ?thesis by linarith
  qed
  then have "\<not> d < 4722366482869645 / 4722366482869645213696"
    by (simp add: not_less)
  then have nosm: "\<not> flt (fabs (fsub (Finite False r) (Finite False (rat_of_int k)))) f_1e_6"
    using ne d(1) by (simp add: float_consts fval_def float_of_rat_def)
  \<comment> \<open>the three decimals are those of \<open>m / 1000\<close>\<close>
  have "\<bar>r * 10 ^ 3 - rat_of_int (int m)\<bar> = 1000 * \<bar>r - rat_of_nat m / 1000\<bar>"
    by (simp add: abs_if)
  also have "\<dots> \<le> 1000 * (1 / 9000)"
    using e by (intro mult_left_mono) simp_all
  also have "\<dots> < 1 / 2" by simp
  finally have "round_half_even (r * 10 ^ 3) = int m"
    by (rule round_half_even_near)
  then have f: "format_fixed 3 (Finite False r) = dec_text 3 m"
    by (simp only: format_fixed_dec_text nat_int)
  note c = str_nat_chars [of m]
  have s: "strip (to_unicode (Some (str_nat m))) = str_nat m"
    by (simp add: to_unicode_def clean_text(1) [OF c])
  have v: "py_float (str_nat m) = Some (Finite False (rat_of_nat m))"
    by (simp only: py_float_str_nat mk_float_nat [OF b(2)])
  have dv: "fdiv (Finite False (rat_of_nat m)) f_1000 = Finite False r"
    by (simp add: f_1000_def r)
  have rd': "py_int_of_float (py_round (fdiv (Finite False (rat_of_nat m)) f_1000)) = Inr k"
    unfolding dv by (rule rd)
  show "space_raw_to_display (Some (str_nat m)) = Inr (trim (dec_text 3 m) @ ''m'')"
    unfolding space_raw_to_display_num [OF s c(1) clean_text(3) [OF c] c(1) v rd']
    using nosm by (simp only: dv fk f if_False)
  \<comment> \<open>and back\<close>
  define T where "T = trim (dec_text 3 m)"
  have p3: "(0::nat) < 3" by simp
  note c0 = trim_dec_text_chars [OF p3, of m, folded T_def]
  note ct = c0(1) c0(4) c0(2) c0(3)
  have s': "lower (strip (to_unicode (Some (T @ ''m'')))) = T @ ''m''"
    by (simp add: to_unicode_def strip_suffix_m(1) [OF ct])
  have "rat_of_nat m / 10 ^ 3 = rat_of_nat m / 1000" by simp
  then have v': "py_float T = Some (Finite False r)"
    unfolding T_def by (simp only: py_float_trim_dec_text [OF p3] r)
  have rng': "1 / 10 ^ 6 \<le> r * 1000" "r * 1000 \<le> 10 ^ 18"
    using rb by simp_all
  from mk_float_sharp [OF rng', of False] obtain p
    where p: "mk_float False (r * 1000) = Finite False p"
      "\<bar>p - r * 1000\<bar> \<le> r * 1000 / 9000000000000000" by blast
  from rb(2) have "r * 1000 / 9000000000000000 \<le> 1 / 8" by simp
  with p(2) have e1: "\<bar>p - r * 1000\<bar> \<le> 1 / 8" by linarith
  from e have e2: "\<bar>r * 1000 - rat_of_nat m\<bar> \<le> 1 / 9" by linarith
  from e1 e2 have "\<bar>p - rat_of_nat m\<bar> < 1 / 2" by linarith
  then have "py_int_of_float (py_round (Finite False p)) = Inr (int m)"
    by (rule py_round_near)
  then have rd2: "py_int_of_float (py_round (fmul (Finite False r) f_1000)) = Inr (int m)"
    by (simp add: f_1000_def p(1))
  have ne': "T @ ''m'' \<noteq> []" by simp
  show "space_display_to_raw (Some (trim (dec_text 3 m) @ ''m'')) = Inr (str_nat m)"
    unfolding T_def [symmetric]
      space_display_to_raw_num [OF s' ne' strip_suffix_m(2) [OF ct] ct(1) v' rd2]
    by (simp only: str_int_nat)
qed

text \<open>
  Claim C9, as amended. For every millimetre value \<open>m\<close> below \<open>10\<^sup>1\<^sup>5\<close>, stored as the
  text \<open>str(m)\<close>, \<open>space_raw_to_display\<close> returns the metres followed by \<open>m\<close> (whole metres
  when 1000 divides \<open>m\<close>, else up to three decimals), and \<open>space_display_to_raw\<close> of
  that text returns \<open>str(m)\<close> again.
\<close>

theorem space_roundtrip:
  fixes m :: nat
  assumes "m < 10 ^ 15"
  shows "space_raw_to_display (Some (str_nat m))
           = Inr ((if 1000 dvd m then str_nat (m div 1000) else trim (dec_text 3 m)) @ ''m'')
       \<and> space_display_to_raw
           (Some ((if 1000 dvd m then str_nat (m div 1000) else trim (dec_text 3 m)) @ ''m''))
           = Inr (str_nat m)"
proof (cases "1000 dvd m")
  case True
  then obtain k where k: "m = 1000 * k" ..
  with assms have "1000 * k < (10::nat) ^ 15" by simp
  from space_whole_metres [OF this] k show ?thesis by simp
next
  case False
  with space_fraction_metres [OF assms False] show ?thesis by simp
qed

lemma space_samples:
  "str_nat 1500 = ''1500''" "trim (dec_text 3 1500) = ''1.5''"
  "str_nat 3000 = ''3000''" "str_nat 3 = ''3''"
  by (simp_all add: text_eval dec_text_def conv_eval)

theorem space_roundtrip_witness:
  "(1500::nat) < 10 ^ 15
   \<and> space_raw_to_display (Some ''1500'') = Inr ''1.5m''
   \<and> space_display_to_raw (Some ''1.5m'') = Inr ''1500''
   \<and> (3000::nat) < 10 ^ 15
   \<and> space_raw_to_display (Some ''3000'') = Inr ''3m''
   \<and> space_display_to_raw (Some ''3m'') = Inr ''3000''"
proof -
  have h: "(1500::nat) < 10 ^ 15" "(3000::nat) < 10 ^ 15" by simp_all
  have d: "\<not> 1000 dvd (1500::nat)" "1000 dvd (3000::nat)" "(3000::nat) div 1000 = 3"
    by simp_all
  from space_roundtrip [OF h(1)] space_roundtrip [OF h(2)] h
  show ?thesis by (simp only: d space_samples if_True if_False) simp
qed

text \<open>
  The claim as stated fails for large values: \<open>10\<^sup>1\<^sup>7 + 1\<close> is not a binary64 value, it
  is read as \<open>10\<^sup>1\<^sup>7\<close>, shown as \<open>100000000000000m\<close> and read back as \<open>10\<^sup>1\<^sup>7\<close>.
\<close>

theorem space_roundtrip_counterexample:
  "str_nat 100000000000000001 = ''100000000000000001''
   \<and> space_raw_to_display (Some ''100000000000000001'') = Inr ''100000000000000m''
   \<and> space_display_to_raw (Some ''100000000000000m'') = Inr ''100000000000000000''"
  by (simp add: conv_eval float_eval text_eval)

subsection \<open>The floor under a picked point\<close>

text \<open>
  Claim C7, as amended. \<open>get_floor_below_point\<close> uses the first 3D view that is not a
  template and asks for the nearest hit, among floors only, of the ray that starts 10 ft
  above the picked point and points straight down; it returns the element of that hit. It
  returns \<open>None\<close> when every 3D view is a template and when that ray meets no floor.
\<close>

theorem get_floor_below_point_ray:
  "(list_all (IsTemplate doc) (View3Ds doc) \<longrightarrow> get_floor_below_point doc pick = None)
   \<and> (find (\<lambda>v. \<not> IsTemplate doc v) (View3Ds doc) = Some view
        \<and> FindNearest doc FloorClass TargetElement view (X pick, Y pick, Z pick + 10) (0, 0, - 1)
            = None \<longrightarrow>
        get_floor_below_point doc pick = None)
   \<and> (find (\<lambda>v. \<not> IsTemplate doc v) (View3Ds doc) = Some view
        \<and> FindNearest doc FloorClass TargetElement view (X pick, Y pick, Z pick + 10) (0, 0, - 1)
            = Some hit \<longrightarrow>
        get_floor_below_point doc pick = GetElement doc hit)"
proof (intro conjI impI)
  assume "list_all (IsTemplate doc) (View3Ds doc)"
  then have "find (\<lambda>v. \<not> IsTemplate doc v) (View3Ds doc) = None"
    by (simp add: find_None_iff list_all_iff)
  then show "get_floor_below_point doc pick = None"
    by (simp add: get_floor_below_point_def get_any_3d_view_def)
next
  assume "find (\<lambda>v. \<not> IsTemplate doc v) (View3Ds doc) = Some view
        \<and> FindNearest doc FloorClass TargetElement view (X pick, Y pick, Z pick + 10) (0, 0, - 1)
            = None"
  then show "get_floor_below_point doc pick = None"
    by (simp add: get_floor_below_point_def get_any_3d_view_def)
next
  assume "find (\<lambda>v. \<not> IsTemplate doc v) (View3Ds doc) = Some view
        \<and> FindNearest doc FloorClass TargetElement view (X pick, Y pick, Z pick + 10) (0, 0, - 1)
            = Some hit"
  then show "get_floor_below_point doc pick = GetElement doc hit"
    by (simp add: get_floor_below_point_def get_any_3d_view_def)
qed

lemma slab_view:
  "find (\<lambda>v. \<not> IsTemplate (slab_document scene) v) (View3Ds (slab_document scene))
     = Some (''{3D}'', False)"
  by (simp add: slab_document_def)

lemma slab_rays:
  "FindNearest (slab_document [deck (- 1), deck (- 4)]) FloorClass TargetElement (''{3D}'', False)
     (X (0, 0, 0), Y (0, 0, 0), Z (0, 0, 0) + 10) (0, 0, - 1) = Some (deck (- 1))"
  "FindNearest (slab_document [deck (- 1)]) FloorClass TargetElement (''{3D}'', False)
     (X (50, 0, 0), Y (50, 0, 0), Z (50, 0, 0) + 10) (0, 0, - 1) = None"
  "FindNearest (slab_document [deck 5]) FloorClass TargetElement (''{3D}'', False)
     (X (0, 0, 0), Y (0, 0, 0), Z (0, 0, 0) + 10) (0, 0, - 1) = Some (deck 5)"
  by (simp_all add: slab_document_def deck_def under_def X_def Y_def Z_def)

theorem get_floor_below_point_ray_witness:
  "list_all (IsTemplate ((slab_document [deck (- 1)])\<lparr>View3Ds := [(''3D template'', True)]\<rparr>))
     (View3Ds ((slab_document [deck (- 1)])\<lparr>View3Ds := [(''3D template'', True)]\<rparr>))
   \<and> get_floor_below_point ((slab_document [deck (- 1)])\<lparr>View3Ds := [(''3D template'', True)]\<rparr>)
        (0, 0, 0) = None
   \<and> (find (\<lambda>v. \<not> IsTemplate (slab_document [deck (- 1)]) v)
          (View3Ds (slab_document [deck (- 1)])) = Some (''{3D}'', False)
      \<and> FindNearest (slab_document [deck (- 1)]) FloorClass TargetElement (''{3D}'', False)
           (X (50, 0, 0), Y (50, 0, 0), Z (50, 0, 0) + 10) (0, 0, - 1) = None)
   \<and> get_floor_below_point (slab_document [deck (- 1)]) (50, 0, 0) = None
   \<and> (find (\<lambda>v. \<not> IsTemplate (slab_document [deck (- 1), deck (- 4)]) v)
          (View3Ds (slab_document [deck (- 1), deck (- 4)])) = Some (''{3D}'', False)
      \<and> FindNearest (slab_document [deck (- 1), deck (- 4)]) FloorClass TargetElement
           (''{3D}'', False) (X (0, 0, 0), Y (0, 0, 0), Z (0, 0, 0) + 10) (0, 0, - 1)
           = Some (deck (- 1)))
   \<and> get_floor_below_point (slab_document [deck (- 1), deck (- 4)]) (0, 0, 0) = Some (deck (- 1))"
proof -
  define templates where
    "templates = (slab_document [deck (- 1)])\<lparr>View3Ds := [(''3D template'', True)]\<rparr>"
  have h1: "list_all (IsTemplate templates) (View3Ds templates)"
    by (simp add: templates_def slab_document_def)
  note h2 = conjI [OF slab_view [of "[deck (- 1)]"] slab_rays(2)]
  note h3 = conjI [OF slab_view [of "[deck (- 1), deck (- 4)]"] slab_rays(1)]
  have g: "GetElement (slab_document scene) = Some" for scene
    by (simp add: slab_document_def)
  from get_floor_below_point_ray [of templates "(0, 0, 0)", THEN conjunct1, rule_format, OF h1]
  have r1: "get_floor_below_point templates (0, 0, 0) = None" .
  from get_floor_below_point_ray [THEN conjunct2, THEN conjunct1, rule_format, OF h2]
  have r2: "get_floor_below_point (slab_document [deck (- 1)]) (50, 0, 0) = None" .
  from get_floor_below_point_ray [THEN conjunct2, THEN conjunct2, rule_format, OF h3]
  have r3: "get_floor_below_point (slab_document [deck (- 1), deck (- 4)]) (0, 0, 0)
      = Some (deck (- 1))"
    by (simp add: g)
  from h1 r1 h2 r2 h3 r3 show ?thesis
    unfolding templates_def by blast
qed

text \<open>
  The claim as stated fails for a floor above the picked point: with one floor whose top
  lies 5 ft above the point, no floor lies below the point, and the ray from 10 ft above
  still finds that floor.
\<close>

theorem get_floor_below_point_counterexample:
  "\<not> floor_below [deck 5] (0, 0, 0)
   \<and> get_floor_below_point (slab_document [deck 5]) (0, 0, 0) = Some (deck 5)"
proof -
  have "\<not> floor_below [deck 5] (0, 0, 0)"
    by (simp add: floor_below_def under_def deck_def X_def Y_def Z_def)
  moreover have "get_floor_below_point (slab_document [deck 5]) (0, 0, 0) = Some (deck 5)"
    using slab_view [of "[deck 5]"] slab_rays(3)
    by (simp add: get_floor_below_point_def get_any_3d_view_def slab_document_def)
  ultimately show ?thesis ..
qed

subsection \<open>The invariant of a mix\<close>

lemma py_int_str_int: "py_int (str_int n) = Inr n"
proof (cases "n < 0")
  case True
  have ne: "str_nat (nat (- n)) \<noteq> []" by (rule str_nat_nonempty)
  have "\<not> is_space (last (str_nat (nat (- n))))"
    by (rule digit_not_space) (rule last_is_digit [OF ne str_nat_digits])
  then have "\<not> is_space (last (CHR ''-'' # str_nat (nat (- n))))"
    using ne by simp
  moreover have "\<not> is_space (hd (CHR ''-'' # str_nat (nat (- n))))"
    by (simp add: is_space_def)
  ultimately have s: "strip (CHR ''-'' # str_nat (nat (- n))) = CHR ''-'' # str_nat (nat (- n))"
    by (intro strip_id) simp_all
  from True show ?thesis
    unfolding py_int_def str_int_def
    by (simp add: s Let_def ne str_nat_digits nat_of_digits_str_nat)
next
  case False
  have ne: "str_nat (nat n) \<noteq> []" by (rule str_nat_nonempty)
  have d: "is_digit (hd (str_nat (nat n)))" "is_digit (last (str_nat (nat n)))"
    by (rule hd_is_digit [OF ne str_nat_digits], rule last_is_digit [OF ne str_nat_digits])
  then have s: "strip (str_nat (nat n)) = str_nat (nat n)"
    using ne by (intro strip_id) (simp_all add: digit_not_space)
  from d(1) have "hd (str_nat (nat n)) \<noteq> CHR ''-''" "hd (str_nat (nat n)) \<noteq> CHR ''+''"
    by (auto simp: is_digit_def)
  with False show ?thesis
    unfolding py_int_def str_int_def
    by (simp add: s Let_def ne str_nat_digits nat_of_digits_str_nat)
qed

lemma get_param_integer:
  assumes "el name = Inr (Some p)" "HasValue p" "StorageType p = StInteger"
  shows "get_param el name = Some (str_int (AsInteger p))"
  using assms by (simp add: get_param_def)

lemma load_rows_from_nth:
  "load_rows_from el ns = Inr rs \<Longrightarrow> k < length rs \<Longrightarrow> load_row el (ns ! k) = Inr (rs ! k)"
proof (induction ns arbitrary: rs k)
  case Nil
  then show ?case by simp
next
  case (Cons i ns)
  from Cons.prems(1) obtain r rs' where r: "load_row el i = Inr r"
    and rs': "load_rows_from el ns = Inr rs'" and eq: "rs = r # rs'"
    by (cases "load_row el i"; cases "load_rows_from el ns") auto
  show ?case
  proof (cases k)
    case 0
    with r eq show ?thesis by simp
  next
    case (Suc j)
    with Cons.prems(2) eq have "j < length rs'" by simp
    from Cons.IH [OF rs' this] Suc eq show ?thesis by simp
  qed
qed

lemma load_rows_nth:
  assumes "load_rows el n = Inr rs" "k < length rs"
  shows "load_row el (int k + 1) = Inr (rs ! k)"
proof -
  from load_rows_length [OF assms(1)] assms(2) have k: "k < nat n" by simp
  from assms have "load_row el ([1..n] ! k) = Inr (rs ! k)"
    unfolding load_rows_def by (rule load_rows_from_nth)
  moreover from k have "[1..n] ! k = int k + 1"
    by (simp add: upto_as_upt del: upt_Suc)
  ultimately show ?thesis by simp
qed

text \<open>The count that the constructor reads, before it is clamped.\<close>

lemma init_count:
  fixes m0 :: "('e, 'c) MixModel"
  assumes "MixModel_init el = Inr m0"
  defines "n0 \<equiv> (case get_param el PARAM_NUM_SPECIES of
                  None \<Rightarrow> 0
                | Some s \<Rightarrow> if s = [] then 0 else (case py_int s of Inr i \<Rightarrow> i | Inl ex \<Rightarrow> 0))"
  shows "num_species m0 = max 0 (min 15 n0)" "load_rows el (num_species m0) = Inr (rows m0)"
proof -
  define n2 where "n2 = (if (if n0 < 0 then 0 else n0) > MAX_SPECIES then MAX_SPECIES
                         else (if n0 < 0 then 0 else n0))"
  from assms(1) obtain rs where rs: "load_rows el n2 = Inr rs"
    and m0: "rows m0 = rs" "num_species m0 = n2"
    unfolding MixModel_init_def Let_def n0_def [symmetric] n2_def [symmetric]
    by (cases "load_rows el n2") auto
  show "num_species m0 = max 0 (min 15 n0)"
    by (simp add: m0 n2_def MAX_SPECIES_def)
  from rs m0 show "load_rows el (num_species m0) = Inr (rows m0)" by simp
qed

text \<open>
  Claim C10. Every mix satisfies \<open>0 \<le> num_species \<le> 15\<close> and
  \<open>num_species = len(rows)\<close>. The constructor sets \<open>num_species\<close> to the stored
  \<open>Num_Species\<close> value clamped into \<open>[0, 15]\<close> (to 0 when nothing is stored or the
  stored text is no integer) and loads that many rows, row \<open>k\<close> from the parameters of
  species \<open>k\<close>, numbered from 1. \<open>add_row\<close>, \<open>remove_row_at\<close> and the window's
  \<open>on_add_row\<close> preserve the invariant; \<open>add_row\<close> leaves a mix of fifteen rows as it
  is and appends one blank row to a shorter mix; \<open>remove_row_at\<close> at a valid position
  deletes that row, keeps the other rows but for their index, numbers them from 1 and sets
  \<open>num_species\<close> to the new count.
\<close>

theorem MixModel_invariant:
  fixes m m0 :: "('e, 'c) MixModel"
  shows "MAX_SPECIES = 15
       \<and> mix_inv m =
           (0 \<le> num_species m \<and> num_species m \<le> 15 \<and> num_species m = int (length (rows m)))
       \<and> (MixModel_init el = Inr m0 \<longrightarrow>
            mix_inv m0 \<and> numbered (rows m0)
          \<and> (\<forall>k < length (rows m0). load_row el (int k + 1) = Inr (rows m0 ! k)))
       \<and> (MixModel_init el = Inr m0 \<and> el ''Num_Species'' = Inr (Some p) \<and> HasValue p
            \<and> StorageType p = StInteger \<longrightarrow>
            num_species m0 = max 0 (min 15 (AsInteger p))
          \<and> length (rows m0) = nat (max 0 (min 15 (AsInteger p))))
       \<and> (MixModel_init el = Inr m0 \<and> get_param el ''Num_Species'' = Some s
            \<and> py_int s = Inr n \<longrightarrow>
            num_species m0 = max 0 (min 15 n) \<and> length (rows m0) = nat (max 0 (min 15 n)))
       \<and> (MixModel_init el = Inr m0
            \<and> (get_param el ''Num_Species'' = None
                \<or> (\<exists>s ex. get_param el ''Num_Species'' = Some s \<and> py_int s = Inl ex)) \<longrightarrow>
            num_species m0 = 0 \<and> rows m0 = [])
       \<and> (mix_inv m \<longrightarrow>
            mix_inv (add_row m) \<and> mix_inv (remove_row_at m i) \<and> mix_inv (fst (on_add_row m)))
       \<and> (MAX_SPECIES \<le> int (length (rows m)) \<longrightarrow> add_row m = m \<and> on_add_row m = (m, True))
       \<and> (int (length (rows m)) < MAX_SPECIES \<longrightarrow>
            length (rows (add_row m)) = length (rows m) + 1
          \<and> num_species (add_row m) = int (length (rows m)) + 1
          \<and> take (length (rows m)) (rows (add_row m)) = rows m
          \<and> row_index (last (rows (add_row m))) = int (length (rows m)) + 1
          \<and> on_add_row m = (add_row m, False))
       \<and> (0 \<le> i \<and> i < int (length (rows m)) \<longrightarrow>
            length (rows (remove_row_at m i)) = length (rows m) - 1
          \<and> num_species (remove_row_at m i) = int (length (rows m)) - 1
          \<and> numbered (rows (remove_row_at m i))
          \<and> map (row_index_update (\<lambda>_. 0)) (rows (remove_row_at m i)) =
              map (row_index_update (\<lambda>_. 0)) (take (nat i) (rows m) @ drop (Suc (nat i)) (rows m)))
       \<and> (i < 0 \<or> int (length (rows m)) \<le> i \<longrightarrow> remove_row_at m i = m)"
proof (intro conjI impI allI)
  show "MAX_SPECIES = 15" by (simp add: MAX_SPECIES_def)
next
  show "mix_inv m =
      (0 \<le> num_species m \<and> num_species m \<le> 15 \<and> num_species m = int (length (rows m)))"
    by (simp add: mix_inv_def MAX_SPECIES_def)
next
  assume init: "MixModel_init el = Inr m0"
  note c = init_count [OF init]
  from c(1) load_rows_length [OF c(2)] show "mix_inv m0"
    by (simp add: mix_inv_def MAX_SPECIES_def)
  from load_rows_numbered [OF c(2)] show "numbered (rows m0)" .
  fix k assume "k < length (rows m0)"
  with c(2) show "load_row el (int k + 1) = Inr (rows m0 ! k)"
    by (rule load_rows_nth)
next
  assume h: "MixModel_init el = Inr m0 \<and> el ''Num_Species'' = Inr (Some p) \<and> HasValue p
            \<and> StorageType p = StInteger"
  then have init: "MixModel_init el = Inr m0"
    and g: "get_param el PARAM_NUM_SPECIES = Some (str_int (AsInteger p))"
    by (simp_all add: get_param_integer PARAM_NUM_SPECIES_def)
  note c = init_count [OF init]
  have "str_int (AsInteger p) \<noteq> []"
    by (simp add: str_int_def str_nat_nonempty)
  with c(1) g show n: "num_species m0 = max 0 (min 15 (AsInteger p))"
    by (simp add: py_int_str_int)
  from load_rows_length [OF c(2)] n
  show "length (rows m0) = nat (max 0 (min 15 (AsInteger p)))" by simp
next
  assume h: "MixModel_init el = Inr m0 \<and> get_param el ''Num_Species'' = Some s
            \<and> py_int s = Inr n"
  then have init: "MixModel_init el = Inr m0"
    and g: "get_param el PARAM_NUM_SPECIES = Some s" and i: "py_int s = Inr n"
    by (simp_all add: PARAM_NUM_SPECIES_def)
  note c = init_count [OF init]
  from i have "s \<noteq> []" by (auto simp: py_int_def strip_def lstrip_def rstrip_def Let_def)
  with c(1) g i show n: "num_species m0 = max 0 (min 15 n)"
    by simp
  from load_rows_length [OF c(2)] n
  show "length (rows m0) = nat (max 0 (min 15 n))" by simp
next
  assume h: "MixModel_init el = Inr m0
            \<and> (get_param el ''Num_Species'' = None
                \<or> (\<exists>s ex. get_param el ''Num_Species'' = Some s \<and> py_int s = Inl ex))"
  then have init: "MixModel_init el = Inr m0" by simp
  note c = init_count [OF init]
  from h c(1) show n: "num_species m0 = 0"
    by (auto simp: PARAM_NUM_SPECIES_def)
  from load_rows_length [OF c(2)] n show "rows m0 = []" by simp
next
  assume "mix_inv m"
  then show "mix_inv (add_row m)"
    by (auto simp: mix_inv_def add_row_def Let_def MAX_SPECIES_def)
next
  assume "mix_inv m"
  then show "mix_inv (remove_row_at m i)"
    by (auto simp: mix_inv_def remove_row_at_def Let_def length_renumber MAX_SPECIES_def)
next
  assume "mix_inv m"
  then show "mix_inv (fst (on_add_row m))"
    by (auto simp: mix_inv_def on_add_row_def add_row_def Let_def MAX_SPECIES_def)
next
  assume "MAX_SPECIES \<le> int (length (rows m))"
  then show "add_row m = m" by (simp add: add_row_def)
next
  assume "MAX_SPECIES \<le> int (length (rows m))"
  then show "on_add_row m = (m, True)" by (simp add: on_add_row_def)
next
  assume "int (length (rows m)) < MAX_SPECIES"
  then show "length (rows (add_row m)) = length (rows m) + 1"
    and "num_species (add_row m) = int (length (rows m)) + 1"
    and "take (length (rows m)) (rows (add_row m)) = rows m"
    and "row_index (last (rows (add_row m))) = int (length (rows m)) + 1"
    and "on_add_row m = (add_row m, False)"
    by (simp_all add: add_row_def on_add_row_def Let_def SpeciesRow_init_def)
next
  assume "0 \<le> i \<and> i < int (length (rows m))"
  then show "length (rows (remove_row_at m i)) = length (rows m) - 1"
    by (auto simp: remove_row_at_def Let_def length_renumber)
next
  assume "0 \<le> i \<and> i < int (length (rows m))"
  then show "num_species (remove_row_at m i) = int (length (rows m)) - 1"
    by (auto simp: remove_row_at_def Let_def length_renumber)
next
  assume "0 \<le> i \<and> i < int (length (rows m))"
  then show "numbered (rows (remove_row_at m i))"
    by (simp add: remove_row_at_def Let_def numbered_renumber)
next
  assume "0 \<le> i \<and> i < int (length (rows m))"
  then show "map (row_index_update (\<lambda>_. 0)) (rows (remove_row_at m i)) =
              map (row_index_update (\<lambda>_. 0)) (take (nat i) (rows m) @ drop (Suc (nat i)) (rows m))"
    by (simp add: remove_row_at_def Let_def reindex_renumber)
next
  assume "i < 0 \<or> int (length (rows m)) \<le> i"
  then show "remove_row_at m i = m" by (auto simp: remove_row_at_def)
qed

lemma sample_rows: "load_rows sample_element 2 = Inr [sample_row 1 ''LOM'', sample_row 2 []]"
proof -
  have "load_row sample_element 1 = Inr (sample_row 1 ''LOM'')"
       "load_row sample_element 2 = Inr (sample_row 2 [])"
    by (simp_all add: row_eval sample_element_def sample_row_def)
  then show ?thesis by (simp add: load_rows_def upto.simps)
qed

lemma sample_init: "MixModel_init sample_element = Inr sample_mix"
proof -
  have "get_param sample_element PARAM_NUM_SPECIES = Some ''2''"
       "get_param sample_element PARAM_MIX_NAME = None"
    by (simp_all add: get_param_def sample_element_def text_eval PARAM_NUM_SPECIES_def
          PARAM_MIX_NAME_def)
  moreover have "py_int ''2'' = Inr 2"
    by (simp add: py_int_def text_eval Let_def)
  ultimately show ?thesis
    by (simp add: MixModel_init_def MAX_SPECIES_def sample_rows sample_mix_def)
qed

lemma count_row: "load_row (count_element p) i = Inr (sample_row i [])"
proof -
  have "get_param (count_element p) (species_param suffix i) = None" for suffix
    by (simp add: get_param_def count_element_def species_param_def)
  then show ?thesis
    by (simp add: load_row_def Let_def pct_raw_to_display_def space_raw_to_display_def
          to_unicode_def strip_def lstrip_def rstrip_def SpeciesRow_init_def or_empty_def
          sample_row_def)
qed

lemma count_rows_from:
  "load_rows_from (count_element p) ns = Inr (map (\<lambda>i. sample_row i []) ns)"
  by (induction ns) (simp_all add: count_row)

lemma count_rows:
  "load_rows (count_element p) n = Inr (map (\<lambda>i. sample_row (int i) []) [1..<Suc (nat n)])"
  unfolding load_rows_def count_rows_from upto_as_upt by (simp add: comp_def del: upt_Suc)

lemma count_init:
  assumes "(case get_param (count_element p) ''Num_Species'' of
              None \<Rightarrow> 0
            | Some s \<Rightarrow> if s = [] then 0 else (case py_int s of Inr i \<Rightarrow> i | Inl ex \<Rightarrow> 0)) = n0"
    and "nat (max 0 (min 15 n0)) = k"
  shows "MixModel_init (count_element p) = Inr (blank_mix (count_element p) k)"
proof -
  have nm: "get_param (count_element p) PARAM_MIX_NAME = None"
    by (simp add: get_param_def count_element_def PARAM_MIX_NAME_def)
  have n2: "(if (if n0 < 0 then 0 else n0) > 15 then 15 else (if n0 < 0 then 0 else n0)) = int k"
    using assms(2) by auto
  show ?thesis
    unfolding MixModel_init_def Let_def PARAM_NUM_SPECIES_def assms(1) nm MAX_SPECIES_def n2
    by (simp add: count_rows blank_mix_def del: upt_Suc)
qed

lemma count_params:
  "get_param (count_element None) ''Num_Species'' = None"
  "get_param (count_element (Some (integer_param n))) ''Num_Species'' = Some (str_int n)"
  "get_param (count_element (Some (text_param s))) ''Num_Species'' = Some s"
  by (simp_all add: get_param_def count_element_def integer_param_def text_param_def)

lemma sample_counts:
  "py_int '' 7 '' = Inr 7" "py_int ''many'' = Inl ValueError" "py_int ''2.0'' = Inl ValueError"
  by (simp_all add: py_int_def text_eval Let_def)

lemma sample_inits:
  "MixModel_init (count_element (Some (integer_param 20)))
     = Inr (blank_mix (count_element (Some (integer_param 20))) 15)"
  "MixModel_init (count_element (Some (integer_param (- 3))))
     = Inr (blank_mix (count_element (Some (integer_param (- 3)))) 0)"
  "MixModel_init (count_element (Some (text_param '' 7 '')))
     = Inr (blank_mix (count_element (Some (text_param '' 7 ''))) 7)"
  "MixModel_init (count_element (Some (text_param ''many'')))
     = Inr (blank_mix (count_element (Some (text_param ''many''))) 0)"
  "MixModel_init (count_element None) = Inr (blank_mix (count_element None) 0)"
proof -
  have n: "py_int (str_int 20) = Inr 20" "py_int (str_int (- 3)) = Inr (- 3)"
    "str_int 20 \<noteq> []" "str_int (- 3) \<noteq> []"
    by (simp_all add: py_int_str_int) (simp_all add: str_int_def str_nat_nonempty)
  show "MixModel_init (count_element (Some (integer_param 20)))
     = Inr (blank_mix (count_element (Some (integer_param 20))) 15)"
    by (rule count_init [where ?n0.0 = 20]) (simp_all add: count_params n)
  show "MixModel_init (count_element (Some (integer_param (- 3))))
     = Inr (blank_mix (count_element (Some (integer_param (- 3)))) 0)"
    by (rule count_init [where ?n0.0 = "- 3"]) (simp_all add: count_params n)
  show "MixModel_init (count_element (Some (text_param '' 7 '')))
     = Inr (blank_mix (count_element (Some (text_param '' 7 ''))) 7)"
    by (rule count_init [where ?n0.0 = 7]) (simp_all add: count_params sample_counts)
  show "MixModel_init (count_element (Some (text_param ''many'')))
     = Inr (blank_mix (count_element (Some (text_param ''many''))) 0)"
    by (rule count_init [where ?n0.0 = 0]) (simp_all add: count_params sample_counts)
  show "MixModel_init (count_element None) = Inr (blank_mix (count_element None) 0)"
    by (rule count_init [where ?n0.0 = 0]) (simp_all add: count_params)
qed

theorem MixModel_invariant_witness:
  "MixModel_init sample_element = Inr sample_mix
   \<and> mix_inv sample_mix \<and> numbered (rows sample_mix) \<and> num_species sample_mix = 2
   \<and> load_row sample_element 1 = Inr (sample_row 1 ''LOM'')
   \<and> load_row sample_element 2 = Inr (sample_row 2 [])
   \<and> count_element (Some (integer_param 20)) ''Num_Species'' = Inr (Some (integer_param 20))
   \<and> HasValue (integer_param 20) \<and> StorageType (integer_param 20) = StInteger
   \<and> AsInteger (integer_param 20) = 20
   \<and> MixModel_init (count_element (Some (integer_param 20)))
        = Inr (blank_mix (count_element (Some (integer_param 20))) 15)
   \<and> num_species (blank_mix (count_element (Some (integer_param 20))) 15) = 15
   \<and> length (rows (blank_mix (count_element (Some (integer_param 20))) 15)) = 15
   \<and> count_element (Some (integer_param (- 3))) ''Num_Species'' = Inr (Some (integer_param (- 3)))
   \<and> HasValue (integer_param (- 3)) \<and> StorageType (integer_param (- 3)) = StInteger
   \<and> AsInteger (integer_param (- 3)) = - 3
   \<and> MixModel_init (count_element (Some (integer_param (- 3))))
        = Inr (blank_mix (count_element (Some (integer_param (- 3)))) 0)
   \<and> num_species (blank_mix (count_element (Some (integer_param (- 3)))) 0) = 0
   \<and> get_param (count_element (Some (text_param '' 7 ''))) ''Num_Species'' = Some '' 7 ''
   \<and> py_int '' 7 '' = Inr 7
   \<and> MixModel_init (count_element (Some (text_param '' 7 '')))
        = Inr (blank_mix (count_element (Some (text_param '' 7 ''))) 7)
   \<and> num_species (blank_mix (count_element (Some (text_param '' 7 ''))) 7) = 7
   \<and> get_param (count_element (Some (text_param ''many''))) ''Num_Species'' = Some ''many''
   \<and> py_int ''many'' = Inl ValueError
   \<and> MixModel_init (count_element (Some (text_param ''many'')))
        = Inr (blank_mix (count_element (Some (text_param ''many''))) 0)
   \<and> num_species (blank_mix (count_element (Some (text_param ''many''))) 0) = 0
   \<and> get_param (count_element None) ''Num_Species'' = None
   \<and> MixModel_init (count_element None) = Inr (blank_mix (count_element None) 0)
   \<and> num_species (blank_mix (count_element None) 0) = 0
   \<and> rows (blank_mix (count_element None) 0) = []
   \<and> int (length (rows sample_mix)) < MAX_SPECIES
   \<and> mix_inv (add_row sample_mix) \<and> length (rows (add_row sample_mix)) = 3
   \<and> num_species (add_row sample_mix) = 3
   \<and> row_index (last (rows (add_row sample_mix))) = 3
   \<and> on_add_row sample_mix = (add_row sample_mix, False)
   \<and> mix_inv (remove_row_at sample_mix 0)
   \<and> rows (remove_row_at sample_mix 0) = [sample_row 1 []]
   \<and> num_species (remove_row_at sample_mix 0) = 1
   \<and> remove_row_at sample_mix 2 = sample_mix
   \<and> mix_inv full_mix \<and> MAX_SPECIES \<le> int (length (rows full_mix))
   \<and> add_row full_mix = full_mix \<and> on_add_row full_mix = (full_mix, True)"
proof -
  note inv_thm = MixModel_invariant [where ?'e = unit and ?'c = unit]
  have len: "length (rows sample_mix) = 2" "length (rows full_mix) = 15"
    by (simp_all add: sample_mix_def full_mix_def)
  have rws: "rows sample_mix ! 0 = sample_row 1 ''LOM''" "rows sample_mix ! Suc 0 = sample_row 2 []"
    by (simp_all add: sample_mix_def)
  have a: "mix_inv sample_mix \<and> numbered (rows sample_mix)
      \<and> load_row sample_element 1 = Inr (sample_row 1 ''LOM'')
      \<and> load_row sample_element 2 = Inr (sample_row 2 [])"
    using inv_thm [where el = sample_element and ?m0.0 = sample_mix,
            THEN conjunct2, THEN conjunct2, THEN conjunct1, rule_format, OF sample_init]
          inv_thm [where el = sample_element and ?m0.0 = sample_mix,
            THEN conjunct2, THEN conjunct2, THEN conjunct1, rule_format, OF sample_init,
            THEN conjunct2, THEN conjunct2, rule_format, of 0]
          inv_thm [where el = sample_element and ?m0.0 = sample_mix,
            THEN conjunct2, THEN conjunct2, THEN conjunct1, rule_format, OF sample_init,
            THEN conjunct2, THEN conjunct2, rule_format, of 1]
    by (simp add: len rws)
  have ip: "count_element (Some (integer_param n)) ''Num_Species'' = Inr (Some (integer_param n))"
    "HasValue (integer_param n)" "StorageType (integer_param n) = StInteger"
    "AsInteger (integer_param n) = n" for n
    by (simp_all add: count_element_def integer_param_def)
  have b: "num_species (blank_mix (count_element (Some (integer_param 20))) 15) = 15
      \<and> length (rows (blank_mix (count_element (Some (integer_param 20))) 15)) = 15"
    using inv_thm [where el = "count_element (Some (integer_param 20))"
            and ?m0.0 = "blank_mix (count_element (Some (integer_param 20))) 15"
            and p = "integer_param 20",
            THEN conjunct2, THEN conjunct2, THEN conjunct2, THEN conjunct1, rule_format,
            OF conjI [OF sample_inits(1) conjI [OF ip(1) conjI [OF ip(2) ip(3)]]]]
    by (simp add: ip)
  have c: "num_species (blank_mix (count_element (Some (integer_param (- 3)))) 0) = 0"
    using inv_thm [where el = "count_element (Some (integer_param (- 3)))"
            and ?m0.0 = "blank_mix (count_element (Some (integer_param (- 3)))) 0"
            and p = "integer_param (- 3)",
            THEN conjunct2, THEN conjunct2, THEN conjunct2, THEN conjunct1, rule_format,
            OF conjI [OF sample_inits(2) conjI [OF ip(1) conjI [OF ip(2) ip(3)]]]]
    by (simp add: ip)
  have d: "num_species (blank_mix (count_element (Some (text_param '' 7 ''))) 7) = 7"
    using inv_thm [where el = "count_element (Some (text_param '' 7 ''))"
            and ?m0.0 = "blank_mix (count_element (Some (text_param '' 7 ''))) 7"
            and s = "'' 7 ''" and n = 7,
            THEN conjunct2, THEN conjunct2, THEN conjunct2, THEN conjunct2, THEN conjunct1,
            rule_format,
            OF conjI [OF sample_inits(3) conjI [OF count_params(3) sample_counts(1)]]]
    by simp
  have hm: "get_param (count_element (Some (text_param ''many''))) ''Num_Species'' = None
      \<or> (\<exists>s ex. get_param (count_element (Some (text_param ''many''))) ''Num_Species'' = Some s
            \<and> py_int s = Inl ex)"
    using count_params(3) [of "''many''"] sample_counts(2) by blast
  have hn: "get_param (count_element None) ''Num_Species'' = None
      \<or> (\<exists>s ex. get_param (count_element None) ''Num_Species'' = Some s \<and> py_int s = Inl ex)"
    using count_params(1) by blast
  have e: "num_species (blank_mix (count_element (Some (text_param ''many''))) 0) = 0"
    using inv_thm [where el = "count_element (Some (text_param ''many''))"
            and ?m0.0 = "blank_mix (count_element (Some (text_param ''many''))) 0",
            THEN conjunct2, THEN conjunct2, THEN conjunct2, THEN conjunct2, THEN conjunct2,
            THEN conjunct1, rule_format, OF conjI [OF sample_inits(4) hm]]
    by simp
  have f: "num_species (blank_mix (count_element None) 0) = 0
      \<and> rows (blank_mix (count_element None) 0) = []"
    using inv_thm [where el = "count_element None" and ?m0.0 = "blank_mix (count_element None) 0",
            THEN conjunct2, THEN conjunct2, THEN conjunct2, THEN conjunct2, THEN conjunct2,
            THEN conjunct1, rule_format, OF conjI [OF sample_inits(5) hn]]
    by simp
  have full: "mix_inv full_mix"
    by (simp add: mix_inv_def len MAX_SPECIES_def) (simp add: full_mix_def)
  have rem: "rows (remove_row_at sample_mix 0) = [sample_row 1 []]"
    by (simp add: remove_row_at_def sample_mix_def renumber_def sample_row_def enumerate_eq_zip)
  have ns: "num_species sample_mix = 2" by (simp add: sample_mix_def)
  from a have inv: "mix_inv sample_mix" by simp
  have g: "mix_inv (add_row sample_mix) \<and> mix_inv (remove_row_at sample_mix 0)"
    using inv_thm [where m = sample_mix and i = 0, THEN conjunct2, THEN conjunct2, THEN conjunct2,
            THEN conjunct2, THEN conjunct2, THEN conjunct2, THEN conjunct1, rule_format, OF inv]
    by simp
  have lt: "int (length (rows sample_mix)) < MAX_SPECIES"
    and ge: "MAX_SPECIES \<le> int (length (rows full_mix))"
    by (simp_all add: len MAX_SPECIES_def)
  have h: "add_row full_mix = full_mix \<and> on_add_row full_mix = (full_mix, True)"
    using inv_thm [where m = full_mix, THEN conjunct2, THEN conjunct2, THEN conjunct2,
            THEN conjunct2, THEN conjunct2, THEN conjunct2, THEN conjunct2, THEN conjunct1,
            rule_format, OF ge]
    by simp
  have i: "length (rows (add_row sample_mix)) = 3 \<and> num_species (add_row sample_mix) = 3
      \<and> row_index (last (rows (add_row sample_mix))) = 3
      \<and> on_add_row sample_mix = (add_row sample_mix, False)"
    using inv_thm [where m = sample_mix, THEN conjunct2, THEN conjunct2, THEN conjunct2,
            THEN conjunct2, THEN conjunct2, THEN conjunct2, THEN conjunct2, THEN conjunct2,
            THEN conjunct1, rule_format, OF lt]
    by (simp add: len)
  have v: "0 \<le> (0::int) \<and> 0 < int (length (rows sample_mix))"
    and w: "(2::int) < 0 \<or> int (length (rows sample_mix)) \<le> 2"
    by (simp_all add: len)
  have j: "num_species (remove_row_at sample_mix 0) = 1"
    using inv_thm [where m = sample_mix and i = 0, THEN conjunct2, THEN conjunct2, THEN conjunct2,
            THEN conjunct2, THEN conjunct2, THEN conjunct2, THEN conjunct2, THEN conjunct2,
            THEN conjunct2, THEN conjunct1, rule_format, OF v]
    by (simp add: len)
  have k: "remove_row_at sample_mix 2 = sample_mix"
    using inv_thm [where m = sample_mix and i = 2, THEN conjunct2, THEN conjunct2, THEN conjunct2,
            THEN conjunct2, THEN conjunct2, THEN conjunct2, THEN conjunct2, THEN conjunct2,
            THEN conjunct2, THEN conjunct2, rule_format, OF w] .
  from sample_init a ns ip [of 20] ip [of "- 3"] sample_inits b c d e f count_params(1)
    count_params(3) [of "'' 7 ''"] count_params(3) [of "''many''"] sample_counts(1,2)
    lt ge g h i j k rem full
  show ?thesis by simp
qed

subsection \<open>The keys of an entry and the link of a mix\<close>

lemma strip_str_int: "strip (str_int i) = str_int i"
proof (cases "i < 0")
  case True
  have ne: "str_nat (nat (- i)) \<noteq> []" by (rule str_nat_nonempty)
  have "\<not> is_space (last (str_nat (nat (- i))))"
    by (rule digit_not_space) (rule last_is_digit [OF ne str_nat_digits])
  then have "\<not> is_space (last (CHR ''-'' # str_nat (nat (- i))))"
    using ne by simp
  moreover have "\<not> is_space (hd (CHR ''-'' # str_nat (nat (- i))))"
    by (simp add: is_space_def)
  ultimately have "strip (CHR ''-'' # str_nat (nat (- i))) = CHR ''-'' # str_nat (nat (- i))"
    by (intro strip_id) simp_all
  with True show ?thesis by (simp add: str_int_def)
next
  case False
  have ne: "str_nat (nat i) \<noteq> []" by (rule str_nat_nonempty)
  have "is_digit (hd (str_nat (nat i)))" "is_digit (last (str_nat (nat i)))"
    by (rule hd_is_digit [OF ne str_nat_digits], rule last_is_digit [OF ne str_nat_digits])
  then have "strip (str_nat (nat i)) = str_nat (nat i)"
    using ne by (intro strip_id) (simp_all add: digit_not_space)
  with False show ?thesis by (simp add: str_int_def)
qed

lemma strip_empty: "strip [] = []"
  by (simp add: strip_def lstrip_def rstrip_def)

text \<open>
  Claim C6. The value key of an entry is its value rendered as a text and trimmed: the
  string value, the integer value, the double value, or else the integer of the element id
  (read through \<open>IntegerValue\<close>, else \<open>Value\<close>, else \<open>int\<close>), which gives no key when
  it is \<open>-1\<close> or missing; the caption key is the trimmed caption. With the dictionary built
  from the entries of the scheme, a mix is linked by its trimmed name: to the first entry
  that has the name as its value key or caption when there is one (the exact match comes
  first); else to an entry one of whose keys equals the name after trimming and
  lower-casing, when there is one; and when no entry matches, or the name is empty, the
  entry and the stored colour of a freshly constructed mix stay \<open>None\<close> and the swatch
  does not react to clicks. The stored colour is the colour of the linked entry.
\<close>

theorem attach_color_to_mix_links:
  fixes ctl :: "('s, 'c) controller" and e0 :: "'c ColorFillSchemeEntry"
  assumes "color_entries_by_key ctl = build_lookup entries"
    and "key = strip (mix_name mix)"
  shows "(EntryStorageType e0 = Inr StString \<and> GetStringValue e0 = Inr (Some v) \<longrightarrow>
            fst (get_color_entry_keys e0) = strip v)
       \<and> (EntryStorageType e0 = Inr StInteger \<and> GetIntegerValue e0 = Inr i \<longrightarrow>
            fst (get_color_entry_keys e0) = str_int i)
       \<and> (EntryStorageType e0 = Inr StDouble \<and> GetDoubleText e0 = Inr t \<longrightarrow>
            fst (get_color_entry_keys e0) = strip t)
       \<and> (EntryStorageType e0 \<noteq> Inr StString \<and> EntryStorageType e0 \<noteq> Inr StInteger
            \<and> EntryStorageType e0 \<noteq> Inr StDouble \<and> GetElementIdValue e0 = Inr (Some d)
            \<and> IntegerValue d = Inr i \<longrightarrow>
            fst (get_color_entry_keys e0) = (if i = - 1 then [] else str_int i))
       \<and> (EntryStorageType e0 \<noteq> Inr StString \<and> EntryStorageType e0 \<noteq> Inr StInteger
            \<and> EntryStorageType e0 \<noteq> Inr StDouble \<and> GetElementIdValue e0 = Inr (Some d)
            \<and> (\<exists>ex. IntegerValue d = Inl ex) \<and> IdValue d = Inr i \<longrightarrow>
            fst (get_color_entry_keys e0) = (if i = - 1 then [] else str_int i))
       \<and> (EntryStorageType e0 \<noteq> Inr StString \<and> EntryStorageType e0 \<noteq> Inr StInteger
            \<and> EntryStorageType e0 \<noteq> Inr StDouble \<and> GetElementIdValue e0 = Inr (Some d)
            \<and> (\<exists>ex. IntegerValue d = Inl ex) \<and> (\<exists>ex. IdValue d = Inl ex)
            \<and> id_as_int d = Inr i \<longrightarrow>
            fst (get_color_entry_keys e0) = (if i = - 1 then [] else str_int i))
       \<and> (EntryStorageType e0 \<noteq> Inr StString \<and> EntryStorageType e0 \<noteq> Inr StInteger
            \<and> EntryStorageType e0 \<noteq> Inr StDouble \<and> GetElementIdValue e0 = Inr None \<longrightarrow>
            fst (get_color_entry_keys e0) = [])
       \<and> (Caption e0 = Inr (Some c) \<longrightarrow> snd (get_color_entry_keys e0) = strip c)
       \<and> (Caption e0 = Inr None \<or> (\<exists>ex. Caption e0 = Inl ex) \<longrightarrow>
            snd (get_color_entry_keys e0) = [])
       \<and> exact_match key e0 =
           (key = fst (get_color_entry_keys e0) \<or> key = snd (get_color_entry_keys e0))
       \<and> loose_match key e0 =
           (fst (get_color_entry_keys e0) \<noteq> []
              \<and> lower (strip (fst (get_color_entry_keys e0))) = lower key
            \<or> snd (get_color_entry_keys e0) \<noteq> []
              \<and> lower (strip (snd (get_color_entry_keys e0))) = lower key)
       \<and> (color_scheme ctl \<noteq> None \<and> key \<noteq> [] \<and> (\<exists>e \<in> set entries. exact_match key e) \<longrightarrow>
            (\<exists>e. find (exact_match key) entries = Some e
               \<and> area_color_entry (attach_color_to_mix ctl mix) = Some e
               \<and> area_color_dbcolor (attach_color_to_mix ctl mix) = get_entry_color e))
       \<and> (color_scheme ctl \<noteq> None \<and> key \<noteq> [] \<and> (\<forall>e \<in> set entries. \<not> exact_match key e)
            \<and> (\<exists>e \<in> set entries. loose_match key e) \<longrightarrow>
            (\<exists>e \<in> set entries. loose_match key e
               \<and> area_color_entry (attach_color_to_mix ctl mix) = Some e
               \<and> area_color_dbcolor (attach_color_to_mix ctl mix) = get_entry_color e))
       \<and> ((key = [] \<or> (\<forall>e \<in> set entries. \<not> exact_match key e \<and> \<not> loose_match key e))
            \<and> area_color_entry mix = None \<and> area_color_dbcolor mix = None \<longrightarrow>
            area_color_entry (attach_color_to_mix ctl mix) = None
          \<and> area_color_dbcolor (attach_color_to_mix ctl mix) = None
          \<and> \<not> swatch_editable ctl (attach_color_to_mix ctl mix))"
proof (intro conjI impI)
  assume "EntryStorageType e0 = Inr StString \<and> GetStringValue e0 = Inr (Some v)"
  then show "fst (get_color_entry_keys e0) = strip v"
    by (simp add: get_color_entry_keys_def to_unicode_def)
next
  assume "EntryStorageType e0 = Inr StInteger \<and> GetIntegerValue e0 = Inr i"
  then show "fst (get_color_entry_keys e0) = str_int i"
    by (simp add: get_color_entry_keys_def strip_str_int)
next
  assume "EntryStorageType e0 = Inr StDouble \<and> GetDoubleText e0 = Inr t"
  then show "fst (get_color_entry_keys e0) = strip t"
    by (simp add: get_color_entry_keys_def)
next
  assume h: "EntryStorageType e0 \<noteq> Inr StString \<and> EntryStorageType e0 \<noteq> Inr StInteger
            \<and> EntryStorageType e0 \<noteq> Inr StDouble \<and> GetElementIdValue e0 = Inr (Some d)
            \<and> IntegerValue d = Inr i"
  then have "get_element_id_int (Some d) = Some i"
    by (simp add: get_element_id_int_def)
  with h show "fst (get_color_entry_keys e0) = (if i = - 1 then [] else str_int i)"
    by (cases "EntryStorageType e0")
       (simp_all add: get_color_entry_keys_def strip_str_int strip_empty)
next
  assume h: "EntryStorageType e0 \<noteq> Inr StString \<and> EntryStorageType e0 \<noteq> Inr StInteger
            \<and> EntryStorageType e0 \<noteq> Inr StDouble \<and> GetElementIdValue e0 = Inr (Some d)
            \<and> (\<exists>ex. IntegerValue d = Inl ex) \<and> IdValue d = Inr i"
  then have "get_element_id_int (Some d) = Some i"
    by (auto simp: get_element_id_int_def)
  with h show "fst (get_color_entry_keys e0) = (if i = - 1 then [] else str_int i)"
    by (cases "EntryStorageType e0")
       (simp_all add: get_color_entry_keys_def strip_str_int strip_empty)
next
  assume h: "EntryStorageType e0 \<noteq> Inr StString \<and> EntryStorageType e0 \<noteq> Inr StInteger
            \<and> EntryStorageType e0 \<noteq> Inr StDouble \<and> GetElementIdValue e0 = Inr (Some d)
            \<and> (\<exists>ex. IntegerValue d = Inl ex) \<and> (\<exists>ex. IdValue d = Inl ex)
            \<and> id_as_int d = Inr i"
  then have "get_element_id_int (Some d) = Some i"
    by (auto simp: get_element_id_int_def)
  with h show "fst (get_color_entry_keys e0) = (if i = - 1 then [] else str_int i)"
    by (cases "EntryStorageType e0")
       (simp_all add: get_color_entry_keys_def strip_str_int strip_empty)
next
  assume h: "EntryStorageType e0 \<noteq> Inr StString \<and> EntryStorageType e0 \<noteq> Inr StInteger
            \<and> EntryStorageType e0 \<noteq> Inr StDouble \<and> GetElementIdValue e0 = Inr None"
  then show "fst (get_color_entry_keys e0) = []"
    by (cases "EntryStorageType e0")
       (simp_all add: get_color_entry_keys_def get_element_id_int_def strip_empty)
next
  assume "Caption e0 = Inr (Some c)"
  then show "snd (get_color_entry_keys e0) = strip c"
    by (simp add: get_color_entry_keys_def to_unicode_def Let_def)
next
  assume "Caption e0 = Inr None \<or> (\<exists>ex. Caption e0 = Inl ex)"
  then show "snd (get_color_entry_keys e0) = []"
    by (auto simp: get_color_entry_keys_def to_unicode_def Let_def strip_empty)
next
  show "exact_match key e0 =
      (key = fst (get_color_entry_keys e0) \<or> key = snd (get_color_entry_keys e0))"
    by (simp add: exact_match_def entry_keys_def)
next
  show "loose_match key e0 =
           (fst (get_color_entry_keys e0) \<noteq> []
              \<and> lower (strip (fst (get_color_entry_keys e0))) = lower key
            \<or> snd (get_color_entry_keys e0) \<noteq> []
              \<and> lower (strip (snd (get_color_entry_keys e0))) = lower key)"
    by (simp add: loose_match_def entry_keys_def)
next
  assume h: "color_scheme ctl \<noteq> None \<and> key \<noteq> [] \<and> (\<exists>e \<in> set entries. exact_match key e)"
  then obtain e where e: "find (exact_match key) entries = Some e"
    by (cases "find (exact_match key) entries") (auto simp: find_None_iff)
  with h have get: "map_of (build_lookup entries) key = Some e"
    by (simp add: map_of_build_lookup)
  then have ne: "build_lookup entries \<noteq> []" by auto
  from h get ne e
  show "\<exists>e. find (exact_match key) entries = Some e
          \<and> area_color_entry (attach_color_to_mix ctl mix) = Some e
          \<and> area_color_dbcolor (attach_color_to_mix ctl mix) = get_entry_color e"
    by (auto simp: attach_color_to_mix_def Let_def assms(1) assms(2) [symmetric])
next
  assume h: "color_scheme ctl \<noteq> None \<and> key \<noteq> [] \<and> (\<forall>e \<in> set entries. \<not> exact_match key e)
            \<and> (\<exists>e \<in> set entries. loose_match key e)"
  then have get: "map_of (build_lookup entries) key = None"
    by (simp add: map_of_build_lookup find_None_iff)
  from h obtain e0 where "e0 \<in> set entries" "loose_match key e0" by auto
  from loose_in_lookup [OF this]
  have "find (\<lambda>(k, v). lower (strip k) = lower key) (build_lookup entries) \<noteq> None"
    by (auto simp: find_None_iff)
  then obtain k v where f: "find (\<lambda>(k, v). lower (strip k) = lower key) (build_lookup entries)
      = Some (k, v)"
    by (cases "find (\<lambda>(k, v). lower (strip k) = lower key) (build_lookup entries)") auto
  then have kv: "(k, v) \<in> set (build_lookup entries)" "lower (strip k) = lower key"
    by (auto simp: find_Some_iff in_set_conv_nth)
  from in_build_lookup [OF kv(1)] kv(2) have v: "v \<in> set entries" "loose_match key v"
    by (auto simp: loose_match_def exact_match_def list_ex_iff)
  from kv(1) have ne: "build_lookup entries \<noteq> []" by auto
  have "area_color_entry (attach_color_to_mix ctl mix) = Some v
      \<and> area_color_dbcolor (attach_color_to_mix ctl mix) = get_entry_color v"
    using h get f ne
    by (auto simp: attach_color_to_mix_def Let_def assms(1) assms(2) [symmetric])
  with v show "\<exists>e \<in> set entries. loose_match key e
               \<and> area_color_entry (attach_color_to_mix ctl mix) = Some e
               \<and> area_color_dbcolor (attach_color_to_mix ctl mix) = get_entry_color e"
    by blast
next
  assume h: "(key = [] \<or> (\<forall>e \<in> set entries. \<not> exact_match key e \<and> \<not> loose_match key e))
            \<and> area_color_entry mix = None \<and> area_color_dbcolor mix = None"
  have none: "area_color_entry (attach_color_to_mix ctl mix) = None
      \<and> area_color_dbcolor (attach_color_to_mix ctl mix) = None"
  proof (cases "key = []")
    case True
    with h show ?thesis
      by (simp add: attach_color_to_mix_def Let_def assms(2) [symmetric])
  next
    case False
    with h have no: "\<forall>e \<in> set entries. \<not> exact_match key e \<and> \<not> loose_match key e" by simp
    then have get: "map_of (build_lookup entries) key = None"
      by (simp add: map_of_build_lookup find_None_iff)
    have "find (\<lambda>(k, v). lower (strip k) = lower key) (build_lookup entries) = None"
    proof (rule ccontr)
      assume "find (\<lambda>(k, v). lower (strip k) = lower key) (build_lookup entries) \<noteq> None"
      then obtain k v where kv: "(k, v) \<in> set (build_lookup entries)" "lower (strip k) = lower key"
        by (auto simp: find_None_iff)
      from in_build_lookup [OF kv(1)] kv(2) have "v \<in> set entries" "loose_match key v"
        by (auto simp: loose_match_def exact_match_def list_ex_iff)
      with no show False by blast
    qed
    with get h show ?thesis
      by (auto simp: attach_color_to_mix_def Let_def assms(1) assms(2) [symmetric])
  qed
  then show "area_color_entry (attach_color_to_mix ctl mix) = None" 
    and "area_color_dbcolor (attach_color_to_mix ctl mix) = None"
    and "\<not> swatch_editable ctl (attach_color_to_mix ctl mix)"
    by (simp_all add: swatch_editable_def)
qed

lemma sample_keys:
  "get_color_entry_keys sample_entry_text = (''Mix A'', ''Mix A'')"
  "get_color_entry_keys sample_entry_int = (''7'', ''Grass Mix'')"
  "get_color_entry_keys sample_entry_double = (''2.5'', ''CAF'' @ [CHR 0xC9])"
  "get_color_entry_keys sample_entry_id = (''42'', [])"
  "get_color_entry_keys sample_entry_id_value = (''77'', [])"
  by (simp_all add: get_color_entry_keys_def sample_entry_text_def sample_entry_int_def
        sample_entry_double_def sample_entry_id_def sample_entry_id_value_def
        get_element_id_int_def to_unicode_def text_eval Let_def)

lemma sample_lookup:
  "build_lookup sample_entries =
     [(''Mix A'', sample_entry_text), (''7'', sample_entry_int), (''Grass Mix'', sample_entry_int),
      (''2.5'', sample_entry_double), (''CAF'' @ [CHR 0xC9], sample_entry_double),
      (''42'', sample_entry_id), (''77'', sample_entry_id_value)]"
  by (simp add: build_lookup_def sample_entries_def add_key_def sample_keys)

lemma sample_names:
  "strip (mix_name (named_mix '' Mix A '')) = ''Mix A''"
  "strip (mix_name (named_mix name_nbsp)) = ''Mix A''"
  "strip (mix_name (named_mix ''grass mix'')) = ''grass mix''"
  "strip (mix_name (named_mix ''2.5'')) = ''2.5''"
  "strip (mix_name (named_mix name_small)) = name_small"
  "strip (mix_name (named_mix ''42'')) = ''42''"
  "strip (mix_name (named_mix ''77'')) = ''77''"
  "strip (mix_name (named_mix ''Lawn'')) = ''Lawn''"
  "strip (mix_name (named_mix ''  '')) = []"
  by (simp_all add: named_mix_def name_nbsp_def name_small_def text_eval)

lemma sample_exact:
  "exact_match k sample_entry_text = (k = ''Mix A'')"
  "exact_match k sample_entry_int = (k = ''7'' \<or> k = ''Grass Mix'')"
  "exact_match k sample_entry_double = (k = ''2.5'' \<or> k = ''CAF'' @ [CHR 0xC9])"
  "exact_match k sample_entry_id = (k = ''42'' \<or> k = [])"
  "exact_match k sample_entry_id_value = (k = ''77'' \<or> k = [])"
  by (auto simp: exact_match_def entry_keys_def sample_keys)

lemma sample_loose:
  "loose_match k sample_entry_text = (''mix a'' = lower k)"
  "loose_match k sample_entry_int = (''7'' = lower k \<or> ''grass mix'' = lower k)"
  "loose_match k sample_entry_double = (''2.5'' = lower k \<or> name_small = lower k)"
  "loose_match k sample_entry_id = (''42'' = lower k)"
  "loose_match k sample_entry_id_value = (''77'' = lower k)"
  by (simp_all add: loose_match_def entry_keys_def sample_keys text_eval lower_eval
        to_lower_def capitals_def small_letters_def name_small_def)

lemma sample_lower:
  "lower ''Mix A'' = ''mix a''" "lower ''grass mix'' = ''grass mix''" "lower ''2.5'' = ''2.5''"
  "lower name_small = name_small" "lower ''42'' = ''42''" "lower ''77'' = ''77''"
  "lower ''Lawn'' = ''lawn''"
  by (simp_all add: lower_eval to_lower_def capitals_def small_letters_def name_small_def)

lemma sample_colors:
  "get_entry_color sample_entry_text = Some (10, 200, 30)"
  "get_entry_color sample_entry_int = Some (1, 2, 3)"
  "get_entry_color sample_entry_double = Some (4, 5, 6)"
  "get_entry_color sample_entry_id = Some (7, 8, 9)"
  "get_entry_color sample_entry_id_value = None"
  by (simp_all add: get_entry_color_def sample_entry_text_def sample_entry_int_def
        sample_entry_double_def sample_entry_id_def sample_entry_id_value_def)

theorem attach_color_to_mix_links_witness:
  "color_entries_by_key scheme_ctl = build_lookup sample_entries
   \<and> color_scheme scheme_ctl \<noteq> None
   \<and> EntryStorageType sample_entry_text = Inr StString
   \<and> GetStringValue sample_entry_text = Inr (Some ''Mix A'')
   \<and> fst (get_color_entry_keys sample_entry_text) = ''Mix A''
   \<and> EntryStorageType sample_entry_int = Inr StInteger
   \<and> GetIntegerValue sample_entry_int = Inr 7
   \<and> fst (get_color_entry_keys sample_entry_int) = ''7''
   \<and> EntryStorageType sample_entry_double = Inr StDouble
   \<and> GetDoubleText sample_entry_double = Inr ''2.5''
   \<and> fst (get_color_entry_keys sample_entry_double) = ''2.5''
   \<and> EntryStorageType sample_entry_id \<noteq> Inr StString
   \<and> EntryStorageType sample_entry_id \<noteq> Inr StInteger
   \<and> EntryStorageType sample_entry_id \<noteq> Inr StDouble
   \<and> GetElementIdValue sample_entry_id = Inr (Some \<lparr>IntegerValue = Inr 42, IdValue = Inl HostError, id_as_int = Inl HostError\<rparr>)
   \<and> IntegerValue \<lparr>IntegerValue = Inr 42, IdValue = Inl HostError, id_as_int = Inl HostError\<rparr> = Inr 42
   \<and> fst (get_color_entry_keys sample_entry_id) = ''42''
   \<and> EntryStorageType sample_entry_invalid \<noteq> Inr StString
   \<and> EntryStorageType sample_entry_invalid \<noteq> Inr StInteger
   \<and> EntryStorageType sample_entry_invalid \<noteq> Inr StDouble
   \<and> GetElementIdValue sample_entry_invalid = Inr (Some \<lparr>IntegerValue = Inr (- 1), IdValue = Inl HostError, id_as_int = Inl HostError\<rparr>)
   \<and> IntegerValue \<lparr>IntegerValue = Inr (- 1), IdValue = Inl HostError, id_as_int = Inl HostError\<rparr> = Inr (- 1)
   \<and> fst (get_color_entry_keys sample_entry_invalid) = []
   \<and> EntryStorageType sample_entry_id_value \<noteq> Inr StString
   \<and> EntryStorageType sample_entry_id_value \<noteq> Inr StInteger
   \<and> EntryStorageType sample_entry_id_value \<noteq> Inr StDouble
   \<and> GetElementIdValue sample_entry_id_value = Inr (Some \<lparr>IntegerValue = Inl HostError, IdValue = Inr 77, id_as_int = Inl HostError\<rparr>)
   \<and> IdValue \<lparr>IntegerValue = Inl HostError, IdValue = Inr 77, id_as_int = Inl HostError\<rparr> = Inr 77
   \<and> fst (get_color_entry_keys sample_entry_id_value) = ''77''
   \<and> EntryStorageType sample_entry_id_int \<noteq> Inr StString
   \<and> EntryStorageType sample_entry_id_int \<noteq> Inr StInteger
   \<and> EntryStorageType sample_entry_id_int \<noteq> Inr StDouble
   \<and> GetElementIdValue sample_entry_id_int = Inr (Some \<lparr>IntegerValue = Inl HostError, IdValue = Inl HostError, id_as_int = Inr 5\<rparr>)
   \<and> id_as_int \<lparr>IntegerValue = Inl HostError, IdValue = Inl HostError, id_as_int = Inr 5\<rparr> = Inr 5
   \<and> fst (get_color_entry_keys sample_entry_id_int) = ''5''
   \<and> EntryStorageType sample_entry_no_id \<noteq> Inr StString
   \<and> EntryStorageType sample_entry_no_id \<noteq> Inr StInteger
   \<and> EntryStorageType sample_entry_no_id \<noteq> Inr StDouble
   \<and> GetElementIdValue sample_entry_no_id = Inr None
   \<and> fst (get_color_entry_keys sample_entry_no_id) = []
   \<and> Caption sample_entry_int = Inr (Some '' Grass Mix'')
   \<and> snd (get_color_entry_keys sample_entry_int) = ''Grass Mix''
   \<and> snd (get_color_entry_keys sample_entry_id) = []
   \<and> snd (get_color_entry_keys sample_entry_id_value) = []
   \<and> exact_match ''7'' sample_entry_int
   \<and> loose_match ''GRASS MIX'' sample_entry_int
   \<and> strip (mix_name (named_mix '' Mix A '')) = ''Mix A''
   \<and> exact_match ''Mix A'' sample_entry_text
   \<and> area_color_entry (attach_color_to_mix scheme_ctl (named_mix '' Mix A '')) = Some sample_entry_text
   \<and> area_color_dbcolor (attach_color_to_mix scheme_ctl (named_mix '' Mix A '')) = Some (10, 200, 30)
   \<and> strip (mix_name (named_mix name_nbsp)) = ''Mix A''
   \<and> exact_match ''Mix A'' sample_entry_text
   \<and> area_color_entry (attach_color_to_mix scheme_ctl (named_mix name_nbsp)) = Some sample_entry_text
   \<and> area_color_dbcolor (attach_color_to_mix scheme_ctl (named_mix name_nbsp)) = Some (10, 200, 30)
   \<and> strip (mix_name (named_mix ''2.5'')) = ''2.5''
   \<and> exact_match ''2.5'' sample_entry_double
   \<and> area_color_entry (attach_color_to_mix scheme_ctl (named_mix ''2.5'')) = Some sample_entry_double
   \<and> area_color_dbcolor (attach_color_to_mix scheme_ctl (named_mix ''2.5'')) = Some (4, 5, 6)
   \<and> strip (mix_name (named_mix ''42'')) = ''42''
   \<and> exact_match ''42'' sample_entry_id
   \<and> area_color_entry (attach_color_to_mix scheme_ctl (named_mix ''42'')) = Some sample_entry_id
   \<and> area_color_dbcolor (attach_color_to_mix scheme_ctl (named_mix ''42'')) = Some (7, 8, 9)
   \<and> strip (mix_name (named_mix ''77'')) = ''77''
   \<and> exact_match ''77'' sample_entry_id_value
   \<and> area_color_entry (attach_color_to_mix scheme_ctl (named_mix ''77'')) = Some sample_entry_id_value
   \<and> area_color_dbcolor (attach_color_to_mix scheme_ctl (named_mix ''77'')) = None
   \<and> strip (mix_name (named_mix ''grass mix'')) = ''grass mix''
   \<and> \<not> exact_match ''grass mix'' sample_entry_text
   \<and> \<not> exact_match ''grass mix'' sample_entry_int
   \<and> \<not> exact_match ''grass mix'' sample_entry_double
   \<and> \<not> exact_match ''grass mix'' sample_entry_id
   \<and> \<not> exact_match ''grass mix'' sample_entry_id_value
   \<and> loose_match ''grass mix'' sample_entry_int
   \<and> area_color_entry (attach_color_to_mix scheme_ctl (named_mix ''grass mix'')) = Some sample_entry_int
   \<and> area_color_dbcolor (attach_color_to_mix scheme_ctl (named_mix ''grass mix'')) = Some (1, 2, 3)
   \<and> strip (mix_name (named_mix name_small)) = name_small
   \<and> \<not> exact_match name_small sample_entry_text
   \<and> \<not> exact_match name_small sample_entry_int
   \<and> \<not> exact_match name_small sample_entry_double
   \<and> \<not> exact_match name_small sample_entry_id
   \<and> \<not> exact_match name_small sample_entry_id_value
   \<and> loose_match name_small sample_entry_double
   \<and> area_color_entry (attach_color_to_mix scheme_ctl (named_mix name_small)) = Some sample_entry_double
   \<and> area_color_dbcolor (attach_color_to_mix scheme_ctl (named_mix name_small)) = Some (4, 5, 6)
   \<and> strip (mix_name (named_mix ''Lawn'')) = ''Lawn''
   \<and> area_color_entry (named_mix ''Lawn'') = None
   \<and> area_color_dbcolor (named_mix ''Lawn'') = None
   \<and> area_color_entry (attach_color_to_mix scheme_ctl (named_mix ''Lawn'')) = None
   \<and> area_color_dbcolor (attach_color_to_mix scheme_ctl (named_mix ''Lawn'')) = None
   \<and> \<not> swatch_editable scheme_ctl (attach_color_to_mix scheme_ctl (named_mix ''Lawn''))
   \<and> strip (mix_name (named_mix ''  '')) = []
   \<and> area_color_entry (named_mix ''  '') = None
   \<and> area_color_dbcolor (named_mix ''  '') = None
   \<and> area_color_entry (attach_color_to_mix scheme_ctl (named_mix ''  '')) = None
   \<and> area_color_dbcolor (attach_color_to_mix scheme_ctl (named_mix ''  '')) = None
   \<and> \<not> swatch_editable scheme_ctl (attach_color_to_mix scheme_ctl (named_mix ''  ''))
   \<and> \<not> exact_match ''Lawn'' sample_entry_text
   \<and> \<not> loose_match ''Lawn'' sample_entry_text"
proof -
  have ctl: "color_entries_by_key scheme_ctl = build_lookup sample_entries"
    "color_scheme scheme_ctl \<noteq> None"
    by (simp_all add: scheme_ctl_def)
  note L = attach_color_to_mix_links [OF ctl(1)]
  note K = L [OF sample_names(8) [symmetric]]
  have hk0: "EntryStorageType sample_entry_text = Inr StString
      \<and> GetStringValue sample_entry_text = Inr (Some ''Mix A'')"
    by (simp add: sample_entry_text_def sample_entry_int_def sample_entry_double_def sample_entry_id_def sample_entry_id_value_def sample_entry_id_int_def sample_entry_invalid_def sample_entry_no_id_def)
  have k0: "fst (get_color_entry_keys sample_entry_text) = ''Mix A''"
    using K [where ?e0.0 = sample_entry_text and v = "''Mix A''", THEN conjunct1, rule_format, OF hk0]
    by (simp add: text_eval)
  have hk1: "EntryStorageType sample_entry_int = Inr StInteger
      \<and> GetIntegerValue sample_entry_int = Inr 7"
    by (simp add: sample_entry_text_def sample_entry_int_def sample_entry_double_def sample_entry_id_def sample_entry_id_value_def sample_entry_id_int_def sample_entry_invalid_def sample_entry_no_id_def)
  have k1: "fst (get_color_entry_keys sample_entry_int) = ''7''"
    using K [where ?e0.0 = sample_entry_int and i = 7, THEN conjunct2, THEN conjunct1, rule_format, OF hk1]
    by (simp add: text_eval)
  have hk2: "EntryStorageType sample_entry_double = Inr StDouble
      \<and> GetDoubleText sample_entry_double = Inr ''2.5''"
    by (simp add: sample_entry_text_def sample_entry_int_def sample_entry_double_def sample_entry_id_def sample_entry_id_value_def sample_entry_id_int_def sample_entry_invalid_def sample_entry_no_id_def)
  have k2: "fst (get_color_entry_keys sample_entry_double) = ''2.5''"
    using K [where ?e0.0 = sample_entry_double and t = "''2.5''", THEN conjunct2, THEN conjunct2, THEN conjunct1, rule_format, OF hk2]
    by (simp add: text_eval)
  have hk3: "EntryStorageType sample_entry_id \<noteq> Inr StString
      \<and> EntryStorageType sample_entry_id \<noteq> Inr StInteger
      \<and> EntryStorageType sample_entry_id \<noteq> Inr StDouble
      \<and> GetElementIdValue sample_entry_id = Inr (Some \<lparr>IntegerValue = Inr 42, IdValue = Inl HostError, id_as_int = Inl HostError\<rparr>)
      \<and> IntegerValue \<lparr>IntegerValue = Inr 42, IdValue = Inl HostError, id_as_int = Inl HostError\<rparr> = Inr 42"
    by (simp add: sample_entry_text_def sample_entry_int_def sample_entry_double_def sample_entry_id_def sample_entry_id_value_def sample_entry_id_int_def sample_entry_invalid_def sample_entry_no_id_def)
  have k3: "fst (get_color_entry_keys sample_entry_id) = ''42''"
    using K [where ?e0.0 = sample_entry_id and i = 42 and d = "\<lparr>IntegerValue = Inr 42, IdValue = Inl HostError, id_as_int = Inl HostError\<rparr>", THEN conjunct2, THEN conjunct2, THEN conjunct2, THEN conjunct1, rule_format, OF hk3]
    by (simp add: text_eval)
  have hk4: "EntryStorageType sample_entry_invalid \<noteq> Inr StString
      \<and> EntryStorageType sample_entry_invalid \<noteq> Inr StInteger
      \<and> EntryStorageType sample_entry_invalid \<noteq> Inr StDouble
      \<and> GetElementIdValue sample_entry_invalid = Inr (Some \<lparr>IntegerValue = Inr (- 1), IdValue = Inl HostError, id_as_int = Inl HostError\<rparr>)
      \<and> IntegerValue \<lparr>IntegerValue = Inr (- 1), IdValue = Inl HostError, id_as_int = Inl HostError\<rparr> = Inr (- 1)"
    by (simp add: sample_entry_text_def sample_entry_int_def sample_entry_double_def sample_entry_id_def sample_entry_id_value_def sample_entry_id_int_def sample_entry_invalid_def sample_entry_no_id_def)
  have k4: "fst (get_color_entry_keys sample_entry_invalid) = []"
    using K [where ?e0.0 = sample_entry_invalid and i = "- 1" and d = "\<lparr>IntegerValue = Inr (- 1), IdValue = Inl HostError, id_as_int = Inl HostError\<rparr>", THEN conjunct2, THEN conjunct2, THEN conjunct2, THEN conjunct1, rule_format, OF hk4]
    by (simp add: text_eval)
  have hk5: "EntryStorageType sample_entry_id_value \<noteq> Inr StString
      \<and> EntryStorageType sample_entry_id_value \<noteq> Inr StInteger
      \<and> EntryStorageType sample_entry_id_value \<noteq> Inr StDouble
      \<and> GetElementIdValue sample_entry_id_value = Inr (Some \<lparr>IntegerValue = Inl HostError, IdValue = Inr 77, id_as_int = Inl HostError\<rparr>)
      \<and> (\<exists>ex. IntegerValue \<lparr>IntegerValue = Inl HostError, IdValue = Inr 77, id_as_int = Inl HostError\<rparr> = Inl ex)
      \<and> IdValue \<lparr>IntegerValue = Inl HostError, IdValue = Inr 77, id_as_int = Inl HostError\<rparr> = Inr 77"
    by (simp add: sample_entry_text_def sample_entry_int_def sample_entry_double_def sample_entry_id_def sample_entry_id_value_def sample_entry_id_int_def sample_entry_invalid_def sample_entry_no_id_def)
  have k5: "fst (get_color_entry_keys sample_entry_id_value) = ''77''"
    using K [where ?e0.0 = sample_entry_id_value and i = 77 and d = "\<lparr>IntegerValue = Inl HostError, IdValue = Inr 77, id_as_int = Inl HostError\<rparr>", THEN conjunct2, THEN conjunct2, THEN conjunct2, THEN conjunct2, THEN conjunct1, rule_format, OF hk5]
    by (simp add: text_eval)
  have hk6: "EntryStorageType sample_entry_id_int \<noteq> Inr StString
      \<and> EntryStorageType sample_entry_id_int \<noteq> Inr StInteger
      \<and> EntryStorageType sample_entry_id_int \<noteq> Inr StDouble
      \<and> GetElementIdValue sample_entry_id_int = Inr (Some \<lparr>IntegerValue = Inl HostError, IdValue = Inl HostError, id_as_int = Inr 5\<rparr>)
      \<and> (\<exists>ex. IntegerValue \<lparr>IntegerValue = Inl HostError, IdValue = Inl HostError, id_as_int = Inr 5\<rparr> = Inl ex)
      \<and> (\<exists>ex. IdValue \<lparr>IntegerValue = Inl HostError, IdValue = Inl HostError, id_as_int = Inr 5\<rparr> = Inl ex)
      \<and> id_as_int \<lparr>IntegerValue = Inl HostError, IdValue = Inl HostError, id_as_int = Inr 5\<rparr> = Inr 5"
    by (simp add: sample_entry_text_def sample_entry_int_def sample_entry_double_def sample_entry_id_def sample_entry_id_value_def sample_entry_id_int_def sample_entry_invalid_def sample_entry_no_id_def)
  have k6: "fst (get_color_entry_keys sample_entry_id_int) = ''5''"
    using K [where ?e0.0 = sample_entry_id_int and i = 5 and d = "\<lparr>IntegerValue = Inl HostError, IdValue = Inl HostError, id_as_int = Inr 5\<rparr>", THEN conjunct2, THEN conjunct2, THEN conjunct2, THEN conjunct2, THEN conjunct2, THEN conjunct1, rule_format, OF hk6]
    by (simp add: text_eval)
  have hk7: "EntryStorageType sample_entry_no_id \<noteq> Inr StString
      \<and> EntryStorageType sample_entry_no_id \<noteq> Inr StInteger
      \<and> EntryStorageType sample_entry_no_id \<noteq> Inr StDouble
      \<and> GetElementIdValue sample_entry_no_id = Inr None"
    by (simp add: sample_entry_text_def sample_entry_int_def sample_entry_double_def sample_entry_id_def sample_entry_id_value_def sample_entry_id_int_def sample_entry_invalid_def sample_entry_no_id_def)
  have k7: "fst (get_color_entry_keys sample_entry_no_id) = []"
    using K [where ?e0.0 = sample_entry_no_id, THEN conjunct2, THEN conjunct2, THEN conjunct2, THEN conjunct2, THEN conjunct2, THEN conjunct2, THEN conjunct1, rule_format, OF hk7]
    by (simp add: text_eval)
  have hk8: "Caption sample_entry_int = Inr (Some '' Grass Mix'')"
    by (simp add: sample_entry_text_def sample_entry_int_def sample_entry_double_def sample_entry_id_def sample_entry_id_value_def sample_entry_id_int_def sample_entry_invalid_def sample_entry_no_id_def)
  have k8: "snd (get_color_entry_keys sample_entry_int) = ''Grass Mix''"
    using K [where ?e0.0 = sample_entry_int and c = "'' Grass Mix''", THEN conjunct2, THEN conjunct2, THEN conjunct2, THEN conjunct2, THEN conjunct2, THEN conjunct2, THEN conjunct2, THEN conjunct1, rule_format, OF hk8]
    by (simp add: text_eval)
  have hk9: "Caption sample_entry_id = Inr None \<or> (\<exists>ex. Caption sample_entry_id = Inl ex)"
    by (simp add: sample_entry_text_def sample_entry_int_def sample_entry_double_def sample_entry_id_def sample_entry_id_value_def sample_entry_id_int_def sample_entry_invalid_def sample_entry_no_id_def)
  have k9: "snd (get_color_entry_keys sample_entry_id) = []"
    using K [where ?e0.0 = sample_entry_id, THEN conjunct2, THEN conjunct2, THEN conjunct2, THEN conjunct2, THEN conjunct2, THEN conjunct2, THEN conjunct2, THEN conjunct2, THEN conjunct1, rule_format, OF hk9]
    by (simp add: text_eval)
  have hk10: "Caption sample_entry_id_value = Inr None \<or> (\<exists>ex. Caption sample_entry_id_value = Inl ex)"
    by (simp add: sample_entry_text_def sample_entry_int_def sample_entry_double_def sample_entry_id_def sample_entry_id_value_def sample_entry_id_int_def sample_entry_invalid_def sample_entry_no_id_def)
  have k10: "snd (get_color_entry_keys sample_entry_id_value) = []"
    using K [where ?e0.0 = sample_entry_id_value, THEN conjunct2, THEN conjunct2, THEN conjunct2, THEN conjunct2, THEN conjunct2, THEN conjunct2, THEN conjunct2, THEN conjunct2, THEN conjunct1, rule_format, OF hk10]
    by (simp add: text_eval)
  have p10: "exact_match ''7'' sample_entry_int"
    using L [OF refl, where mix = "named_mix ''7''" and ?e0.0 = sample_entry_int, THEN conjunct2, THEN conjunct2, THEN conjunct2, THEN conjunct2, THEN conjunct2, THEN conjunct2, THEN conjunct2, THEN conjunct2, THEN conjunct2, THEN conjunct1] k1
    by (simp add: named_mix_def text_eval)
  have p11: "loose_match ''GRASS MIX'' sample_entry_int"
    using L [OF refl, where mix = "named_mix ''GRASS MIX''" and ?e0.0 = sample_entry_int, THEN conjunct2, THEN conjunct2, THEN conjunct2, THEN conjunct2, THEN conjunct2, THEN conjunct2, THEN conjunct2, THEN conjunct2, THEN conjunct2, THEN conjunct2, THEN conjunct1] k1 k8
    by (simp add: named_mix_def text_eval lower_eval to_lower_def capitals_def small_letters_def)
  have he1: "color_scheme scheme_ctl \<noteq> None \<and> ''Mix A'' \<noteq> []
      \<and> (\<exists>e \<in> set sample_entries. exact_match ''Mix A'' e)"
    using ctl(2) by (simp add: sample_entries_def sample_exact)
  have e1: "area_color_entry (attach_color_to_mix scheme_ctl (named_mix '' Mix A '')) = Some sample_entry_text
      \<and> area_color_dbcolor (attach_color_to_mix scheme_ctl (named_mix '' Mix A '')) = Some (10, 200, 30)"
    using L [OF sample_names(1) [symmetric], where ?e0.0 = sample_entry_text, THEN conjunct2, THEN conjunct2, THEN conjunct2, THEN conjunct2, THEN conjunct2, THEN conjunct2, THEN conjunct2, THEN conjunct2, THEN conjunct2, THEN conjunct2, THEN conjunct2, THEN conjunct1, rule_format, OF he1]
    by (simp add: sample_entries_def sample_exact sample_colors)
  have x1: "exact_match ''Mix A'' sample_entry_text" by (simp add: sample_exact)
  have he2: "color_scheme scheme_ctl \<noteq> None \<and> ''Mix A'' \<noteq> []
      \<and> (\<exists>e \<in> set sample_entries. exact_match ''Mix A'' e)"
    using ctl(2) by (simp add: sample_entries_def sample_exact)
  have e2: "area_color_entry (attach_color_to_mix scheme_ctl (named_mix name_nbsp)) = Some sample_entry_text
      \<and> area_color_dbcolor (attach_color_to_mix scheme_ctl (named_mix name_nbsp)) = Some (10, 200, 30)"
    using L [OF sample_names(2) [symmetric], where ?e0.0 = sample_entry_text, THEN conjunct2, THEN conjunct2, THEN conjunct2, THEN conjunct2, THEN conjunct2, THEN conjunct2, THEN conjunct2, THEN conjunct2, THEN conjunct2, THEN conjunct2, THEN conjunct2, THEN conjunct1, rule_format, OF he2]
    by (simp add: sample_entries_def sample_exact sample_colors)
  have x2: "exact_match ''Mix A'' sample_entry_text" by (simp add: sample_exact)
  have he4: "color_scheme scheme_ctl \<noteq> None \<and> ''2.5'' \<noteq> []
      \<and> (\<exists>e \<in> set sample_entries. exact_match ''2.5'' e)"
    using ctl(2) by (simp add: sample_entries_def sample_exact)
  have e4: "area_color_entry (attach_color_to_mix scheme_ctl (named_mix ''2.5'')) = Some sample_entry_double
      \<and> area_color_dbcolor (attach_color_to_mix scheme_ctl (named_mix ''2.5'')) = Some (4, 5, 6)"
    using L [OF sample_names(4) [symmetric], where ?e0.0 = sample_entry_text, THEN conjunct2, THEN conjunct2, THEN conjunct2, THEN conjunct2, THEN conjunct2, THEN conjunct2, THEN conjunct2, THEN conjunct2, THEN conjunct2, THEN conjunct2, THEN conjunct2, THEN conjunct1, rule_format, OF he4]
    by (simp add: sample_entries_def sample_exact sample_colors)
  have x4: "exact_match ''2.5'' sample_entry_double" by (simp add: sample_exact)
  have he6: "color_scheme scheme_ctl \<noteq> None \<and> ''42'' \<noteq> []
      \<and> (\<exists>e \<in> set sample_entries. exact_match ''42'' e)"
    using ctl(2) by (simp add: sample_entries_def sample_exact)
  have e6: "area_color_entry (attach_color_to_mix scheme_ctl (named_mix ''42'')) = Some sample_entry_id
      \<and> area_color_dbcolor (attach_color_to_mix scheme_ctl (named_mix ''42'')) = Some (7, 8, 9)"
    using L [OF sample_names(6) [symmetric], where ?e0.0 = sample_entry_text, THEN conjunct2, THEN conjunct2, THEN conjunct2, THEN conjunct2, THEN conjunct2, THEN conjunct2, THEN conjunct2, THEN conjunct2, THEN conjunct2, THEN conjunct2, THEN conjunct2, THEN conjunct1, rule_format, OF he6]
    by (simp add: sample_entries_def sample_exact sample_colors)
  have x6: "exact_match ''42'' sample_entry_id" by (simp add: sample_exact)
  have he7: "color_scheme scheme_ctl \<noteq> None \<and> ''77'' \<noteq> []
      \<and> (\<exists>e \<in> set sample_entries. exact_match ''77'' e)"
    using ctl(2) by (simp add: sample_entries_def sample_exact)
  have e7: "area_color_entry (attach_color_to_mix scheme_ctl (named_mix ''77'')) = Some sample_entry_id_value
      \<and> area_color_dbcolor (attach_color_to_mix scheme_ctl (named_mix ''77'')) = None"
    using L [OF sample_names(7) [symmetric], where ?e0.0 = sample_entry_text, THEN conjunct2, THEN conjunct2, THEN conjunct2, THEN conjunct2, THEN conjunct2, THEN conjunct2, THEN conjunct2, THEN conjunct2, THEN conjunct2, THEN conjunct2, THEN conjunct2, THEN conjunct1, rule_format, OF he7]
    by (simp add: sample_entries_def sample_exact sample_colors)
  have x7: "exact_match ''77'' sample_entry_id_value" by (simp add: sample_exact)
  have nx3: "\<not> exact_match ''grass mix'' sample_entry_text" "\<not> exact_match ''grass mix'' sample_entry_int"
    "\<not> exact_match ''grass mix'' sample_entry_double" "\<not> exact_match ''grass mix'' sample_entry_id"
    "\<not> exact_match ''grass mix'' sample_entry_id_value"
    by (simp_all add: sample_exact name_small_def)
  have lo3: "loose_match ''grass mix'' sample_entry_text = False" "loose_match ''grass mix'' sample_entry_int = True"
    "loose_match ''grass mix'' sample_entry_double = False" "loose_match ''grass mix'' sample_entry_id = False"
    "loose_match ''grass mix'' sample_entry_id_value = False"
    by (simp_all add: sample_loose sample_lower) (simp_all add: name_small_def)
  have hl3: "color_scheme scheme_ctl \<noteq> None \<and> ''grass mix'' \<noteq> []
      \<and> (\<forall>e \<in> set sample_entries. \<not> exact_match ''grass mix'' e)
      \<and> (\<exists>e \<in> set sample_entries. loose_match ''grass mix'' e)"
    using ctl(2) nx3 lo3 by (simp add: sample_entries_def) (simp add: name_small_def)?
  have l3: "area_color_entry (attach_color_to_mix scheme_ctl (named_mix ''grass mix'')) = Some sample_entry_int
      \<and> area_color_dbcolor (attach_color_to_mix scheme_ctl (named_mix ''grass mix'')) = Some (1, 2, 3)"
    using L [OF sample_names(3) [symmetric], where ?e0.0 = sample_entry_text, THEN conjunct2, THEN conjunct2, THEN conjunct2, THEN conjunct2, THEN conjunct2, THEN conjunct2, THEN conjunct2, THEN conjunct2, THEN conjunct2, THEN conjunct2, THEN conjunct2, THEN conjunct2, THEN conjunct1, rule_format, OF hl3]
    by (simp add: sample_entries_def lo3 sample_colors)
  have y3: "loose_match ''grass mix'' sample_entry_int" by (simp add: lo3)
  have nx5: "\<not> exact_match name_small sample_entry_text" "\<not> exact_match name_small sample_entry_int"
    "\<not> exact_match name_small sample_entry_double" "\<not> exact_match name_small sample_entry_id"
    "\<not> exact_match name_small sample_entry_id_value"
    by (simp_all add: sample_exact name_small_def)
  have lo5: "loose_match name_small sample_entry_text = False" "loose_match name_small sample_entry_int = False"
    "loose_match name_small sample_entry_double = True" "loose_match name_small sample_entry_id = False"
    "loose_match name_small sample_entry_id_value = False"
    by (simp_all add: sample_loose sample_lower) (simp_all add: name_small_def)
  have hl5: "color_scheme scheme_ctl \<noteq> None \<and> name_small \<noteq> []
      \<and> (\<forall>e \<in> set sample_entries. \<not> exact_match name_small e)
      \<and> (\<exists>e \<in> set sample_entries. loose_match name_small e)"
    using ctl(2) nx5 lo5 by (simp add: sample_entries_def) (simp add: name_small_def)?
  have l5: "area_color_entry (attach_color_to_mix scheme_ctl (named_mix name_small)) = Some sample_entry_double
      \<and> area_color_dbcolor (attach_color_to_mix scheme_ctl (named_mix name_small)) = Some (4, 5, 6)"
    using L [OF sample_names(5) [symmetric], where ?e0.0 = sample_entry_text, THEN conjunct2, THEN conjunct2, THEN conjunct2, THEN conjunct2, THEN conjunct2, THEN conjunct2, THEN conjunct2, THEN conjunct2, THEN conjunct2, THEN conjunct2, THEN conjunct2, THEN conjunct2, THEN conjunct1, rule_format, OF hl5]
    by (simp add: sample_entries_def lo5 sample_colors)
  have y5: "loose_match name_small sample_entry_double" by (simp add: lo5)
  have fr8: "area_color_entry (named_mix ''Lawn'') = None" "area_color_dbcolor (named_mix ''Lawn'') = None"
    by (simp_all add: named_mix_def)
  have hn8: "(''Lawn'' = [] \<or> (\<forall>e \<in> set sample_entries. \<not> exact_match ''Lawn'' e \<and> \<not> loose_match ''Lawn'' e))
      \<and> area_color_entry (named_mix ''Lawn'') = None \<and> area_color_dbcolor (named_mix ''Lawn'') = None"
    using fr8 by (simp add: sample_entries_def sample_exact sample_loose sample_lower)
                  (simp add: name_small_def)?
  note n8 = L [OF sample_names(8) [symmetric], where ?e0.0 = sample_entry_text, THEN conjunct2, THEN conjunct2, THEN conjunct2, THEN conjunct2, THEN conjunct2, THEN conjunct2, THEN conjunct2, THEN conjunct2, THEN conjunct2, THEN conjunct2, THEN conjunct2, THEN conjunct2, THEN conjunct2, rule_format, OF hn8]
  have fr9: "area_color_entry (named_mix ''  '') = None" "area_color_dbcolor (named_mix ''  '') = None"
    by (simp_all add: named_mix_def)
  have hn9: "([] = [] \<or> (\<forall>e \<in> set sample_entries. \<not> exact_match [] e \<and> \<not> loose_match [] e))
      \<and> area_color_entry (named_mix ''  '') = None \<and> area_color_dbcolor (named_mix ''  '') = None"
    using fr9 by (simp add: sample_entries_def sample_exact sample_loose sample_lower)
                  (simp add: name_small_def)?
  note n9 = L [OF sample_names(9) [symmetric], where ?e0.0 = sample_entry_text, THEN conjunct2, THEN conjunct2, THEN conjunct2, THEN conjunct2, THEN conjunct2, THEN conjunct2, THEN conjunct2, THEN conjunct2, THEN conjunct2, THEN conjunct2, THEN conjunct2, THEN conjunct2, THEN conjunct2, rule_format, OF hn9]
  have last: "\<not> exact_match ''Lawn'' sample_entry_text" "\<not> loose_match ''Lawn'' sample_entry_text"
    by (simp_all add: sample_exact sample_loose sample_lower)
  from ctl sample_names k0 hk0 k1 hk1 k2 hk2 k3 hk3 k4 hk4 k5 hk5 k6 hk6 k7 hk7 k8 hk8 k9 hk9 k10 hk10 p10 p11 e1 x1 e2 x2 e4 x4 e6 x6 e7 x7 l3 y3 nx3 l5 y5 nx5 n8 fr8 n9 fr9 last
  show ?thesis by simp
qed

subsection \<open>The inward offset of a loop\<close>

lemma sample_curve_all:
  "\<forall>i \<in> set js. Evaluate h crv (real i / real n) = Inr (g i) \<Longrightarrow>
     sample_curve h crv n js = map g js"
  by (induction js) simp_all

lemma sample_curve_break:
  assumes "\<forall>i \<in> set js. Evaluate h crv (real i / real n) = Inr (g i)"
    and "Evaluate h crv (real k / real n) = Inl ex"
  shows "sample_curve h crv n (js @ k # ks) = map g js @ [GetEndPoint h crv 0, GetEndPoint h crv 1]"
  using assms by (induction js) simp_all

lemma sample_points_all:
  assumes "\<forall>crv \<in> set c. \<forall>i < n. Evaluate h crv (real i / real n) = Inr (f crv i)"
  shows "sample_points_on_curveloop h c n = concat (map (\<lambda>crv. map (f crv) [0..<n]) c)"
proof -
  have "sample_curve h crv n [0..<n] = map (f crv) [0..<n]" if "crv \<in> set c" for crv
    using assms that by (intro sample_curve_all) simp
  then have "map (\<lambda>crv. sample_curve h crv n [0..<n]) c = map (\<lambda>crv. map (f crv) [0..<n]) c"
    by simp
  then show ?thesis by (simp only: sample_points_on_curveloop_def)
qed

lemma sample_points_break:
  assumes "k < n" "\<forall>i < k. Evaluate h crv (real i / real n) = Inr (g i)"
    and "Evaluate h crv (real k / real n) = Inl ex"
  shows "sample_points_on_curveloop h [crv] n
           = map g [0..<k] @ [GetEndPoint h crv 0, GetEndPoint h crv 1]"
proof -
  from assms(1) have "[0..<n] = [0..<k] @ k # [Suc k..<n]"
    by (metis le_add1 less_imp_add_positive upt_add_eq_append upt_conv_Cons add_0 less_or_eq_imp_le)
  moreover have "sample_curve h crv n ([0..<k] @ k # [Suc k..<n])
      = map g [0..<k] @ [GetEndPoint h crv 0, GetEndPoint h crv 1]"
    using assms(2,3) by (intro sample_curve_break) simp_all
  ultimately show ?thesis by (simp add: sample_points_on_curveloop_def)
qed

text \<open>
  Claim C3. \<open>offset_loop_inwards\<close> asks the host for the offsets by \<open>+d\<close> and \<open>-d\<close>. When
  both exist it returns the one with the smaller average distance of its sampled points
  from the centroid of the original loop (the \<open>+d\<close> one when the averages are equal); when
  one exists it returns that one; when none exists it returns the original loop. It always
  returns a loop. The sampled points of a loop are the points of each of its curves at the
  parameters \<open>i / n\<close> for \<open>i < n\<close>, where a curve whose evaluation fails gives its two end
  points instead of the remaining ones; the centroid is the mean of the sampled points of
  the original loop, coordinate by coordinate, and the origin when there are none; the
  average distance is the mean of the Euclidean distances of the sampled points.
\<close>

theorem offset_loop_inwards_choice:
  fixes h :: "'c curve_api"
  shows "((\<forall>crv \<in> set c. \<forall>i < n. Evaluate h crv (real i / real n) = Inr (f crv i)) \<longrightarrow>
            sample_points_on_curveloop h c n = concat (map (\<lambda>crv. map (f crv) [0..<n]) c))
   \<and> (k < n \<and> (\<forall>i < k. Evaluate h crv (real i / real n) = Inr (g i))
        \<and> (\<exists>ex. Evaluate h crv (real k / real n) = Inl ex) \<longrightarrow>
        sample_points_on_curveloop h [crv] n
          = map g [0..<k] @ [GetEndPoint h crv 0, GetEndPoint h crv 1])
   \<and> (sample_points_on_curveloop h l n = pts \<and> pts \<noteq> [] \<longrightarrow>
        loop_centroid h l n =
          (sum_list (map fst pts) / real (length pts),
           sum_list (map (\<lambda>p. fst (snd p)) pts) / real (length pts),
           sum_list (map (\<lambda>p. snd (snd p)) pts) / real (length pts)))
   \<and> (sample_points_on_curveloop h l n = [] \<longrightarrow> loop_centroid h l n = (0, 0, 0))
   \<and> (sample_points_on_curveloop h c n = cpts \<and> cpts \<noteq> [] \<longrightarrow>
        average_radius h c (cx, cy, cz) n =
          sum_list (map (\<lambda>(x, y, z). sqrt ((x - cx)\<^sup>2 + (y - cy)\<^sup>2 + (z - cz)\<^sup>2)) cpts)
            / real (length cpts))
   \<and> (sample_points_on_curveloop h c n = [] \<longrightarrow> average_radius h c (cx, cy, cz) n = 0)
   \<and> (CreateViaOffset h l d nrm = Inr p \<and> CreateViaOffset h l (- d) nrm = Inr q \<longrightarrow>
      offset_loop_inwards h l d nrm n =
        Some (if average_radius h q (loop_centroid h l n) n
                 < average_radius h p (loop_centroid h l n) n then q else p))
   \<and> (CreateViaOffset h l d nrm = Inr p \<and> (\<exists>ex. CreateViaOffset h l (- d) nrm = Inl ex) \<longrightarrow>
      offset_loop_inwards h l d nrm n = Some p)
   \<and> ((\<exists>ex. CreateViaOffset h l d nrm = Inl ex) \<and> CreateViaOffset h l (- d) nrm = Inr q \<longrightarrow>
      offset_loop_inwards h l d nrm n = Some q)
   \<and> ((\<exists>ex. CreateViaOffset h l d nrm = Inl ex) \<and> (\<exists>ex. CreateViaOffset h l (- d) nrm = Inl ex) \<longrightarrow>
      offset_loop_inwards h l d nrm n = Some l)
   \<and> (\<exists>r. offset_loop_inwards h l d nrm n = Some r)"
proof (intro conjI impI)
  assume "\<forall>crv \<in> set c. \<forall>i < n. Evaluate h crv (real i / real n) = Inr (f crv i)"
  then show "sample_points_on_curveloop h c n = concat (map (\<lambda>crv. map (f crv) [0..<n]) c)"
    by (rule sample_points_all)
next
  assume "k < n \<and> (\<forall>i < k. Evaluate h crv (real i / real n) = Inr (g i))
        \<and> (\<exists>ex. Evaluate h crv (real k / real n) = Inl ex)"
  then obtain ex where "k < n" "\<forall>i < k. Evaluate h crv (real i / real n) = Inr (g i)"
    "Evaluate h crv (real k / real n) = Inl ex"
    by blast
  then show "sample_points_on_curveloop h [crv] n
          = map g [0..<k] @ [GetEndPoint h crv 0, GetEndPoint h crv 1]"
    by (rule sample_points_break)
next
  assume "sample_points_on_curveloop h l n = pts \<and> pts \<noteq> []"
  then show "loop_centroid h l n =
          (sum_list (map fst pts) / real (length pts),
           sum_list (map (\<lambda>p. fst (snd p)) pts) / real (length pts),
           sum_list (map (\<lambda>p. snd (snd p)) pts) / real (length pts))"
    by (simp add: loop_centroid_def compute_centroid_def X_def [abs_def] Y_def [abs_def]
          Z_def [abs_def])
next
  assume "sample_points_on_curveloop h l n = []"
  then show "loop_centroid h l n = (0, 0, 0)"
    by (simp add: loop_centroid_def compute_centroid_def)
next
  assume "sample_points_on_curveloop h c n = cpts \<and> cpts \<noteq> []"
  moreover have "(\<lambda>p. distance p (cx, cy, cz))
      = (\<lambda>(x, y, z). sqrt ((x - cx)\<^sup>2 + (y - cy)\<^sup>2 + (z - cz)\<^sup>2))"
    by (auto simp: distance_def X_def Y_def Z_def fun_eq_iff)
  ultimately show "average_radius h c (cx, cy, cz) n =
          sum_list (map (\<lambda>(x, y, z). sqrt ((x - cx)\<^sup>2 + (y - cy)\<^sup>2 + (z - cz)\<^sup>2)) cpts)
            / real (length cpts)"
    by (simp add: average_radius_def Let_def)
next
  assume "sample_points_on_curveloop h c n = []"
  then show "average_radius h c (cx, cy, cz) n = 0"
    by (simp add: average_radius_def)
next
  assume "CreateViaOffset h l d nrm = Inr p \<and> CreateViaOffset h l (- d) nrm = Inr q"
  then show "offset_loop_inwards h l d nrm n =
        Some (if average_radius h q (loop_centroid h l n) n
                 < average_radius h p (loop_centroid h l n) n then q else p)"
    by (simp add: offset_loop_inwards_def best_step_def loop_centroid_def Let_def)
next
  assume "CreateViaOffset h l d nrm = Inr p \<and> (\<exists>ex. CreateViaOffset h l (- d) nrm = Inl ex)"
  then show "offset_loop_inwards h l d nrm n = Some p"
    by (auto simp: offset_loop_inwards_def Let_def)
next
  assume "(\<exists>ex. CreateViaOffset h l d nrm = Inl ex) \<and> CreateViaOffset h l (- d) nrm = Inr q"
  then show "offset_loop_inwards h l d nrm n = Some q"
    by (auto simp: offset_loop_inwards_def Let_def)
next
  assume "(\<exists>ex. CreateViaOffset h l d nrm = Inl ex)
            \<and> (\<exists>ex. CreateViaOffset h l (- d) nrm = Inl ex)"
  then show "offset_loop_inwards h l d nrm n = Some l"
    by (auto simp: offset_loop_inwards_def Let_def)
next
  show "\<exists>r. offset_loop_inwards h l d nrm n = Some r"
    by (cases "CreateViaOffset h l d nrm"; cases "CreateViaOffset h l (- d) nrm")
       (simp_all add: offset_loop_inwards_def best_step_def Let_def)
qed

lemma diamond_neq: "diamond 2 \<noteq> diamond 1" "diamond 2 \<noteq> diamond 3" "diamond 1 \<noteq> diamond 3"
  "diamond 1 \<noteq> diamond 2" "diamond 3 \<noteq> diamond 2" "diamond 3 \<noteq> diamond 1"
  by (simp_all add: diamond_def)

lemma sample_offsets:
  "CreateViaOffset segment_api (diamond 2) (1 / 60) nrm = Inr (diamond 3)"
  "CreateViaOffset segment_api (diamond 2) (- (1 / 60)) nrm = Inr (diamond 1)"
  "CreateViaOffset segment_api (diamond 1) (1 / 60) nrm = Inr (diamond 2)"
  "CreateViaOffset segment_api (diamond 1) (- (1 / 60)) nrm = Inl HostError"
  "CreateViaOffset segment_api (diamond 3) (1 / 60) nrm = Inl HostError"
  "CreateViaOffset segment_api (diamond 3) (- (1 / 60)) nrm = Inr (diamond 2)"
  "CreateViaOffset segment_api (diamond 3) 5 nrm = Inl HostError"
  "CreateViaOffset segment_api (diamond 3) (- 5) nrm = Inl HostError"
  by (simp_all add: segment_api_def diamond_neq)

lemma sqrt_nine: "sqrt 9 = 3"
  using real_sqrt_abs [of 3] by simp

theorem offset_loop_inwards_choice_witness:
  "sample_points_on_curveloop segment_api (diamond 2) 1
     = [(12, 4, 0), (10, 6, 0), (8, 4, 0), (10, 2, 0)]
   \<and> sample_points_on_curveloop segment_api (diamond 1) 1
     = [(11, 4, 0), (10, 5, 0), (9, 4, 0), (10, 3, 0)]
   \<and> sample_points_on_curveloop segment_api (diamond 3) 1
     = [(13, 4, 0), (10, 7, 0), (7, 4, 0), (10, 1, 0)]
   \<and> Evaluate segment_api ((0, 0, 0), (4, 0, 0)) (real 0 / real 2) = Inr (0, 0, 0)
   \<and> Evaluate segment_api ((0, 0, 0), (4, 0, 0)) (real 1 / real 2) = Inl HostError
   \<and> sample_points_on_curveloop segment_api [((0, 0, 0), (4, 0, 0))] 2
     = [(0, 0, 0), (0, 0, 0), (4, 0, 0)]
   \<and> loop_centroid segment_api (diamond 2) 1 = (10, 4, 0)
   \<and> sample_points_on_curveloop segment_api [] 1 = []
   \<and> loop_centroid segment_api [] 1 = (0, 0, 0)
   \<and> average_radius segment_api [] (10, 4, 0) 1 = 0
   \<and> average_radius segment_api (diamond 1) (10, 4, 0) 1 = 1
   \<and> average_radius segment_api (diamond 3) (10, 4, 0) 1 = 3
   \<and> CreateViaOffset segment_api (diamond 2) (1 / 60) (0, 0, 1) = Inr (diamond 3)
   \<and> CreateViaOffset segment_api (diamond 2) (- (1 / 60)) (0, 0, 1) = Inr (diamond 1)
   \<and> offset_loop_inwards segment_api (diamond 2) (1 / 60) (0, 0, 1) 1 = Some (diamond 1)
   \<and> CreateViaOffset segment_api (diamond 1) (1 / 60) (0, 0, 1) = Inr (diamond 2)
   \<and> CreateViaOffset segment_api (diamond 1) (- (1 / 60)) (0, 0, 1) = Inl HostError
   \<and> offset_loop_inwards segment_api (diamond 1) (1 / 60) (0, 0, 1) 1 = Some (diamond 2)
   \<and> CreateViaOffset segment_api (diamond 3) (1 / 60) (0, 0, 1) = Inl HostError
   \<and> CreateViaOffset segment_api (diamond 3) (- (1 / 60)) (0, 0, 1) = Inr (diamond 2)
   \<and> offset_loop_inwards segment_api (diamond 3) (1 / 60) (0, 0, 1) 1 = Some (diamond 2)
   \<and> CreateViaOffset segment_api (diamond 3) 5 (0, 0, 1) = Inl HostError
   \<and> CreateViaOffset segment_api (diamond 3) (- 5) (0, 0, 1) = Inl HostError
   \<and> offset_loop_inwards segment_api (diamond 3) 5 (0, 0, 1) 1 = Some (diamond 3)"
proof -
  note o = sample_offsets [of "(0, 0, 1)"]
  note T = offset_loop_inwards_choice [where h = segment_api]
  have hs: "\<forall>crv \<in> set (diamond a). \<forall>i < 1.
      Evaluate segment_api crv (real i / real 1) = Inr (fst crv)" for a
    by (simp add: segment_api_def)
  have s: "sample_points_on_curveloop segment_api (diamond a) 1
      = [(10 + a, 4, 0), (10, 4 + a, 0), (10 - a, 4, 0), (10, 4 - a, 0)]" for a
    using T [where c = "diamond a" and n = 1 and f = "\<lambda>crv i. fst crv", THEN conjunct1, THEN mp,
            OF hs]
    by (simp add: diamond_def)
  have s2: "sample_points_on_curveloop segment_api (diamond 2) 1
      = [(12, 4, 0), (10, 6, 0), (8, 4, 0), (10, 2, 0)]"
    and s1: "sample_points_on_curveloop segment_api (diamond 1) 1
      = [(11, 4, 0), (10, 5, 0), (9, 4, 0), (10, 3, 0)]"
    and s3: "sample_points_on_curveloop segment_api (diamond 3) 1
      = [(13, 4, 0), (10, 7, 0), (7, 4, 0), (10, 1, 0)]"
    using s [of 2] s [of 1] s [of 3] by simp_all
  have ev: "Evaluate segment_api ((0, 0, 0), (4, 0, 0)) (real 0 / real 2) = Inr (0, 0, 0)"
    "Evaluate segment_api ((0, 0, 0), (4, 0, 0)) (real 1 / real 2) = Inl HostError"
    by (simp_all add: segment_api_def)
  have hb: "(1::nat) < 2
      \<and> (\<forall>i < 1. Evaluate segment_api ((0, 0, 0), (4, 0, 0)) (real i / real 2) = Inr (0, 0, 0))
      \<and> (\<exists>ex. Evaluate segment_api ((0, 0, 0), (4, 0, 0)) (real 1 / real 2) = Inl ex)"
    by (simp add: segment_api_def)
  have sb: "sample_points_on_curveloop segment_api [((0, 0, 0), (4, 0, 0))] 2
      = [(0, 0, 0), (0, 0, 0), (4, 0, 0)]"
    using T [where crv = "((0, 0, 0), (4, 0, 0))" and n = 2 and k = 1
              and g = "\<lambda>i. (0, 0, 0)", THEN conjunct2, THEN conjunct1, rule_format, OF hb]
    by (simp add: segment_api_def)
  have hc: "sample_points_on_curveloop segment_api (diamond 2) 1
      = [(12, 4, 0), (10, 6, 0), (8, 4, 0), (10, 2, 0)]
      \<and> [(12, 4, 0), (10, 6, 0), (8, 4, 0), (10, 2, 0)] \<noteq> ([] :: XYZ list)"
    using s2 by simp
  have c: "loop_centroid segment_api (diamond 2) 1 = (10, 4, 0)"
    using T [where l = "diamond 2" and n = 1, THEN conjunct2, THEN conjunct2, THEN conjunct1, rule_format, OF hc]
    by simp
  have se: "sample_points_on_curveloop segment_api [] 1 = []"
    by (simp add: sample_points_on_curveloop_def)
  have ce: "loop_centroid segment_api [] 1 = (0, 0, 0)"
    using T [where l = "[]" and n = 1, THEN conjunct2, THEN conjunct2, THEN conjunct2, THEN conjunct1, rule_format, OF se] .
  have re: "average_radius segment_api [] (10, 4, 0) 1 = 0"
    using T [where c = "[]" and n = 1 and cx = 10 and cy = 4 and cz = 0, THEN conjunct2, THEN conjunct2, THEN conjunct2, THEN conjunct2, THEN conjunct2, THEN conjunct1, rule_format, OF se] .
  have h1: "sample_points_on_curveloop segment_api (diamond 1) 1
      = [(11, 4, 0), (10, 5, 0), (9, 4, 0), (10, 3, 0)]
      \<and> [(11, 4, 0), (10, 5, 0), (9, 4, 0), (10, 3, 0)] \<noteq> ([] :: XYZ list)"
    and h3: "sample_points_on_curveloop segment_api (diamond 3) 1
      = [(13, 4, 0), (10, 7, 0), (7, 4, 0), (10, 1, 0)]
      \<and> [(13, 4, 0), (10, 7, 0), (7, 4, 0), (10, 1, 0)] \<noteq> ([] :: XYZ list)"
    using s1 s3 by simp_all
  have r1: "average_radius segment_api (diamond 1) (10, 4, 0) 1 = 1"
    using T [where c = "diamond 1" and n = 1 and cx = 10 and cy = 4 and cz = 0, THEN conjunct2, THEN conjunct2, THEN conjunct2, THEN conjunct2, THEN conjunct1, rule_format, OF h1]
    by simp
  have r3: "average_radius segment_api (diamond 3) (10, 4, 0) 1 = 3"
    using T [where c = "diamond 3" and n = 1 and cx = 10 and cy = 4 and cz = 0, THEN conjunct2, THEN conjunct2, THEN conjunct2, THEN conjunct2, THEN conjunct1, rule_format, OF h3]
    by (simp add: sqrt_nine)
  from T [where l = "diamond 2" and d = "1 / 60" and nrm = "(0, 0, 1)" and p = "diamond 3"
            and q = "diamond 1" and n = 1, THEN conjunct2, THEN conjunct2, THEN conjunct2, THEN conjunct2, THEN conjunct2, THEN conjunct2, THEN conjunct1, rule_format, OF conjI [OF o(1) o(2)]]
  have a: "offset_loop_inwards segment_api (diamond 2) (1 / 60) (0, 0, 1) 1 = Some (diamond 1)"
    using r1 r3 c by simp
  have hb: "CreateViaOffset segment_api (diamond 1) (1 / 60) (0, 0, 1) = Inr (diamond 2)
      \<and> (\<exists>ex. CreateViaOffset segment_api (diamond 1) (- (1 / 60)) (0, 0, 1) = Inl ex)"
    and hc: "(\<exists>ex. CreateViaOffset segment_api (diamond 3) (1 / 60) (0, 0, 1) = Inl ex)
      \<and> CreateViaOffset segment_api (diamond 3) (- (1 / 60)) (0, 0, 1) = Inr (diamond 2)"
    and hd: "(\<exists>ex. CreateViaOffset segment_api (diamond 3) 5 (0, 0, 1) = Inl ex)
      \<and> (\<exists>ex. CreateViaOffset segment_api (diamond 3) (- 5) (0, 0, 1) = Inl ex)"
    using o by blast+
  from T [where l = "diamond 1" and d = "1 / 60" and nrm = "(0, 0, 1)" and p = "diamond 2"
            and n = 1, THEN conjunct2, THEN conjunct2, THEN conjunct2, THEN conjunct2, THEN conjunct2, THEN conjunct2, THEN conjunct2, THEN conjunct1, rule_format, OF hb]
  have b: "offset_loop_inwards segment_api (diamond 1) (1 / 60) (0, 0, 1) 1 = Some (diamond 2)" .
  from T [where l = "diamond 3" and d = "1 / 60" and nrm = "(0, 0, 1)" and q = "diamond 2"
            and n = 1, THEN conjunct2, THEN conjunct2, THEN conjunct2, THEN conjunct2, THEN conjunct2, THEN conjunct2, THEN conjunct2, THEN conjunct2, THEN conjunct1, rule_format, OF hc]
  have c': "offset_loop_inwards segment_api (diamond 3) (1 / 60) (0, 0, 1) 1 = Some (diamond 2)" .
  from T [where l = "diamond 3" and d = 5 and nrm = "(0, 0, 1)" and n = 1, THEN conjunct2, THEN conjunct2, THEN conjunct2, THEN conjunct2, THEN conjunct2, THEN conjunct2, THEN conjunct2, THEN conjunct2, THEN conjunct2, THEN conjunct1,
            rule_format, OF hd]
  have d: "offset_loop_inwards segment_api (diamond 3) 5 (0, 0, 1) 1 = Some (diamond 3)" .
  from o s1 s2 s3 ev sb c se ce re r1 r3 a b c' d show ?thesis by simp
qed

subsection \<open>Transactions\<close>

lemmas tx_defs = Transaction_def tx_Start_def tx_Commit_def tx_RollBack_def show_dialog_def
  do_work_def

lemma on_apply_failed:
  "has_mixes \<and> modifiable r \<and> update (document r) = (d1, shown, Some e) \<Longrightarrow>
     on_apply has_mixes update r
       = Inr (r\<lparr>document := document r, status := TxRolledBack, at_start := document r,
                dialogs := dialogs r @ shown @ [UpdateFailed e]\<rparr>)"
  by (simp add: on_apply_def tx_defs)

lemma on_apply_done:
  "has_mixes \<and> modifiable r \<and> update (document r) = (d1, shown, None) \<Longrightarrow>
     on_apply has_mixes update r
       = Inr (r\<lparr>document := d1, status := TxCommitted, at_start := document r,
                dialogs := dialogs r @ shown\<rparr>)"
  by (simp add: on_apply_def tx_defs)

lemma on_apply_refused:
  "has_mixes \<and> \<not> modifiable r \<Longrightarrow>
     on_apply has_mixes update r
       = Inr (r\<lparr>status := TxNew, at_start := document r,
                dialogs := dialogs r @ [UpdateFailed HostError]\<rparr>)"
  by (simp add: on_apply_def tx_defs)

lemma on_apply_skip: "\<not> has_mixes \<Longrightarrow> on_apply has_mixes update r = Inr r"
  by (simp add: on_apply_def)

lemma on_apply_cases:
  obtains (skip) "\<not> has_mixes"
  | (refused) "has_mixes \<and> \<not> modifiable r"
  | (failed) d1 shown e where "has_mixes \<and> modifiable r \<and> update (document r) = (d1, shown, Some e)"
  | (committed) d1 shown where "has_mixes \<and> modifiable r \<and> update (document r) = (d1, shown, None)"
proof -
  obtain d1 shown e where "update (document r) = (d1, shown, e)"
    by (cases "update (document r)") auto
  then show ?thesis
    using that by (cases e; cases has_mixes; cases "modifiable r") auto
qed

text \<open>
  Claim C4. Each of the two handlers does its work on the document inside one
  transaction that it starts before the work. When an exception escapes the work, the
  handler rolls the transaction back, so that the document is as it was before, shows its
  failure dialog with the exception, and returns without raising. When the work returns,
  the handler commits what the work has done. A document that differs after the handler
  from the document before it comes from a committed transaction. The handlers do nothing
  to the document when they return early (no area plan, a cancelled pick, no floor; no
  mixes). When the host refuses to start the transaction, the document is unchanged: the
  editor shows its failure alert, and the boundary script lets the exception of \<open>Start\<close>
  pass, which stands before its \<open>try\<close>.
\<close>

theorem transaction_rollback:
  fixes r :: "'d run" and create_boundaries :: "'e \<Rightarrow> 'd work"
  shows
   "(is_area_plan \<and> pick = Inr p \<and> floor_below_point p = Some fl \<and> modifiable r
       \<and> create_boundaries fl (document r) = (d1, shown, Some e) \<longrightarrow>
       boundary_main is_area_plan pick floor_below_point create_boundaries place_area r
         = Inr (r\<lparr>document := document r, status := TxRolledBack, at_start := document r,
                  dialogs := dialogs r @ shown @ [BoundariesFailed e]\<rparr>))
    \<and> (is_area_plan \<and> pick = Inr p \<and> floor_below_point p = Some fl \<and> modifiable r
       \<and> create_boundaries fl (document r) = (d1, shown, None)
       \<and> place_area p d1 = (d2, shown2, e2) \<longrightarrow>
       boundary_main is_area_plan pick floor_below_point create_boundaries place_area r
         = Inr (r\<lparr>document := d2, status := TxCommitted, at_start := document r,
                  dialogs := dialogs r @ shown @ shown2\<rparr>))
    \<and> (is_area_plan \<and> pick = Inr p \<and> floor_below_point p = Some fl \<and> \<not> modifiable r \<longrightarrow>
       boundary_main is_area_plan pick floor_below_point create_boundaries place_area r
         = Inl HostError)
    \<and> (\<not> is_area_plan \<longrightarrow>
       boundary_main is_area_plan pick floor_below_point create_boundaries place_area r
         = Inr (r\<lparr>dialogs := dialogs r @ [NotAnAreaPlan]\<rparr>))
    \<and> (is_area_plan \<and> (\<exists>ex. pick = Inl ex) \<longrightarrow>
       boundary_main is_area_plan pick floor_below_point create_boundaries place_area r = Inr r)
    \<and> (is_area_plan \<and> pick = Inr p \<and> floor_below_point p = None \<longrightarrow>
       boundary_main is_area_plan pick floor_below_point create_boundaries place_area r
         = Inr (r\<lparr>dialogs := dialogs r @ [NoFloorFound]\<rparr>))
    \<and> (boundary_main is_area_plan pick floor_below_point create_boundaries place_area r = Inr r'
       \<and> document r' \<noteq> document r \<longrightarrow> status r' = TxCommitted)
    \<and> (has_mixes \<and> modifiable r \<and> update (document r) = (d1, shown, Some e) \<longrightarrow>
       on_apply has_mixes update r
         = Inr (r\<lparr>document := document r, status := TxRolledBack, at_start := document r,
                  dialogs := dialogs r @ shown @ [UpdateFailed e]\<rparr>))
    \<and> (has_mixes \<and> modifiable r \<and> update (document r) = (d1, shown, None) \<longrightarrow>
       on_apply has_mixes update r
         = Inr (r\<lparr>document := d1, status := TxCommitted, at_start := document r,
                  dialogs := dialogs r @ shown\<rparr>))
    \<and> (has_mixes \<and> \<not> modifiable r \<longrightarrow>
       on_apply has_mixes update r
         = Inr (r\<lparr>status := TxNew, at_start := document r,
                  dialogs := dialogs r @ [UpdateFailed HostError]\<rparr>))
    \<and> (\<not> has_mixes \<longrightarrow> on_apply has_mixes update r = Inr r)
    \<and> (\<exists>r'. on_apply has_mixes update r = Inr r')
    \<and> (on_apply has_mixes update r = Inr r' \<and> document r' \<noteq> document r \<longrightarrow>
       status r' = TxCommitted)"
proof (intro conjI impI)
  assume "is_area_plan \<and> pick = Inr p \<and> floor_below_point p = Some fl \<and> modifiable r
       \<and> create_boundaries fl (document r) = (d1, shown, Some e)"
  then show "boundary_main is_area_plan pick floor_below_point create_boundaries place_area r
         = Inr (r\<lparr>document := document r, status := TxRolledBack, at_start := document r,
                  dialogs := dialogs r @ shown @ [BoundariesFailed e]\<rparr>)"
    by (simp add: boundary_main_def tx_defs)
next
  assume "is_area_plan \<and> pick = Inr p \<and> floor_below_point p = Some fl \<and> modifiable r
       \<and> create_boundaries fl (document r) = (d1, shown, None)
       \<and> place_area p d1 = (d2, shown2, e2)"
  then show "boundary_main is_area_plan pick floor_below_point create_boundaries place_area r
         = Inr (r\<lparr>document := d2, status := TxCommitted, at_start := document r,
                  dialogs := dialogs r @ shown @ shown2\<rparr>)"
    by (simp add: boundary_main_def tx_defs)
next
  assume "is_area_plan \<and> pick = Inr p \<and> floor_below_point p = Some fl \<and> \<not> modifiable r"
  then show "boundary_main is_area_plan pick floor_below_point create_boundaries place_area r
         = Inl HostError"
    by (simp add: boundary_main_def tx_defs)
next
  assume "\<not> is_area_plan"
  then show "boundary_main is_area_plan pick floor_below_point create_boundaries place_area r
         = Inr (r\<lparr>dialogs := dialogs r @ [NotAnAreaPlan]\<rparr>)"
    by (simp add: boundary_main_def tx_defs)
next
  assume "is_area_plan \<and> (\<exists>ex. pick = Inl ex)"
  then show "boundary_main is_area_plan pick floor_below_point create_boundaries place_area r
      = Inr r"
    by (auto simp: boundary_main_def)
next
  assume "is_area_plan \<and> pick = Inr p \<and> floor_below_point p = None"
  then show "boundary_main is_area_plan pick floor_below_point create_boundaries place_area r
         = Inr (r\<lparr>dialogs := dialogs r @ [NoFloorFound]\<rparr>)"
    by (simp add: boundary_main_def tx_defs)
next
  assume h: "boundary_main is_area_plan pick floor_below_point create_boundaries place_area r
      = Inr r' \<and> document r' \<noteq> document r"
  show "status r' = TxCommitted"
  proof (cases "is_area_plan \<and> (\<exists>p fl. pick = Inr p \<and> floor_below_point p = Some fl)
                  \<and> modifiable r")
    case False
    with h show ?thesis
      by (auto simp: boundary_main_def tx_defs split: sum.splits option.splits if_splits)
  next
    case True
    then obtain p fl where p: "is_area_plan" "pick = Inr p" "floor_below_point p = Some fl"
      "modifiable r"
      by blast
    obtain d1 shown e where w: "create_boundaries fl (document r) = (d1, shown, e)"
      by (cases "create_boundaries fl (document r)") auto
    obtain d2 shown2 e2 where w2: "place_area p d1 = (d2, shown2, e2)"
      by (cases "place_area p d1") auto
    from h p w w2 show ?thesis
      by (cases e) (auto simp: boundary_main_def tx_defs)
  qed
next
  assume "has_mixes \<and> modifiable r \<and> update (document r) = (d1, shown, Some e)"
  then show "on_apply has_mixes update r
         = Inr (r\<lparr>document := document r, status := TxRolledBack, at_start := document r,
                  dialogs := dialogs r @ shown @ [UpdateFailed e]\<rparr>)"
    by (rule on_apply_failed)
next
  assume "has_mixes \<and> modifiable r \<and> update (document r) = (d1, shown, None)"
  then show "on_apply has_mixes update r
         = Inr (r\<lparr>document := d1, status := TxCommitted, at_start := document r,
                  dialogs := dialogs r @ shown\<rparr>)"
    by (rule on_apply_done)
next
  assume "has_mixes \<and> \<not> modifiable r"
  then show "on_apply has_mixes update r
         = Inr (r\<lparr>status := TxNew, at_start := document r,
                  dialogs := dialogs r @ [UpdateFailed HostError]\<rparr>)"
    by (rule on_apply_refused)
next
  assume "\<not> has_mixes"
  then show "on_apply has_mixes update r = Inr r"
    by (rule on_apply_skip)
next
  show "\<exists>r'. on_apply has_mixes update r = Inr r'"
  proof (rule on_apply_cases [where has_mixes = has_mixes and r = r and update = update], goal_cases)
    case 1
    then show ?case by (simp add: on_apply_skip)
  next
    case 2
    then show ?case by (simp add: on_apply_refused)
  next
    case (3 d1 shown e)
    then show ?case by (simp add: on_apply_failed)
  next
    case (4 d1 shown)
    then show ?case by (simp add: on_apply_done)
  qed
next
  assume h: "on_apply has_mixes update r = Inr r' \<and> document r' \<noteq> document r"
  show "status r' = TxCommitted"
  proof (rule on_apply_cases [where has_mixes = has_mixes and r = r and update = update], goal_cases)
    case 1
    with h show ?case by (auto simp: on_apply_skip)
  next
    case 2
    with h show ?case by (auto simp: on_apply_refused)
  next
    case (3 d1 shown e)
    with h show ?case by (auto simp: on_apply_failed)
  next
    case (4 d1 shown)
    with h show ?case by (auto simp: on_apply_done)
  qed
qed

theorem transaction_rollback_witness:
  "modifiable sample_run \<and> document sample_run = [''floor'']
   \<and> break_off [''floor'']
       = ([''floor'', ''line 1''], [Other ''Could not get perimeter loops''], Some ValueError)
   \<and> add_lines [''floor''] = ([''floor'', ''line 1'', ''line 2''], [], None)
   \<and> add_area [''floor'', ''line 1'', ''line 2'']
       = ([''floor'', ''line 1'', ''line 2'', ''area''], [], None)
   \<and> boundary_main True (Inr (0, 0, 0)) (\<lambda>p. Some ()) (\<lambda>fl. break_off) (\<lambda>p. add_area) sample_run
       = Inr \<lparr>document = [''floor''], modifiable = True, status = TxRolledBack,
              at_start = [''floor''],
              dialogs = [Other ''Could not get perimeter loops'', BoundariesFailed ValueError]\<rparr>
   \<and> boundary_main True (Inr (0, 0, 0)) (\<lambda>p. Some ()) (\<lambda>fl. add_lines) (\<lambda>p. add_area) sample_run
       = Inr \<lparr>document = [''floor'', ''line 1'', ''line 2'', ''area''], modifiable = True,
              status = TxCommitted, at_start = [''floor''], dialogs = []\<rparr>
   \<and> boundary_main True (Inr (0, 0, 0)) (\<lambda>p. Some ()) (\<lambda>fl. add_lines) (\<lambda>p. add_area)
         (sample_run\<lparr>modifiable := False\<rparr>)
       = Inl HostError
   \<and> boundary_main False (Inr (0, 0, 0)) (\<lambda>p. Some ()) (\<lambda>fl. add_lines) (\<lambda>p. add_area) sample_run
       = Inr (sample_run\<lparr>dialogs := [NotAnAreaPlan]\<rparr>)
   \<and> boundary_main True (Inl HostError) (\<lambda>p. Some ()) (\<lambda>fl. add_lines) (\<lambda>p. add_area) sample_run
       = Inr sample_run
   \<and> boundary_main True (Inr (0, 0, 0)) (\<lambda>p. None :: unit option) (\<lambda>fl. add_lines)
         (\<lambda>p. add_area) sample_run
       = Inr (sample_run\<lparr>dialogs := [NoFloorFound]\<rparr>)
   \<and> on_apply True break_off sample_run
       = Inr \<lparr>document = [''floor''], modifiable = True, status = TxRolledBack,
              at_start = [''floor''],
              dialogs = [Other ''Could not get perimeter loops'', UpdateFailed ValueError]\<rparr>
   \<and> on_apply True add_lines sample_run
       = Inr \<lparr>document = [''floor'', ''line 1'', ''line 2''], modifiable = True,
              status = TxCommitted, at_start = [''floor''], dialogs = []\<rparr>
   \<and> on_apply True add_lines (sample_run\<lparr>modifiable := False\<rparr>)
       = Inr \<lparr>document = [''floor''], modifiable = False, status = TxNew,
              at_start = [''floor''], dialogs = [UpdateFailed HostError]\<rparr>
   \<and> on_apply False add_lines sample_run = Inr sample_run"
proof -
  note T = transaction_rollback [where r = sample_run and p = "(0, 0, 0)" and fl = "()"
             and place_area = "\<lambda>p. add_area"]
  note U = transaction_rollback [where r = "sample_run\<lparr>modifiable := False\<rparr>"
             and p = "(0, 0, 0)" and fl = "()" and place_area = "\<lambda>p. add_area"
             and create_boundaries = "\<lambda>fl. add_lines" and update = add_lines]
  have s: "modifiable sample_run" "document sample_run = [''floor'']"
    "\<not> modifiable (sample_run\<lparr>modifiable := False\<rparr>)"
    by (simp_all add: sample_run_def)
  have w: "break_off [''floor'']
       = ([''floor'', ''line 1''], [Other ''Could not get perimeter loops''], Some ValueError)"
    "add_lines [''floor''] = ([''floor'', ''line 1'', ''line 2''], [], None)"
    "add_area [''floor'', ''line 1'', ''line 2'']
       = ([''floor'', ''line 1'', ''line 2'', ''area''], [], None)"
    by (simp_all add: break_off_def add_lines_def add_area_def)
  have h1: "True \<and> (Inr (0, 0, 0) :: py_error + XYZ) = Inr (0, 0, 0)
      \<and> (\<lambda>p :: XYZ. Some ()) (0, 0, 0) = Some () \<and> modifiable sample_run
      \<and> (\<lambda>fl :: unit. break_off) () (document sample_run)
          = ([''floor'', ''line 1''], [Other ''Could not get perimeter loops''], Some ValueError)"
    using s w by simp
  have b1: "boundary_main True (Inr (0, 0, 0)) (\<lambda>p. Some ()) (\<lambda>fl. break_off) (\<lambda>p. add_area)
        sample_run
       = Inr \<lparr>document = [''floor''], modifiable = True, status = TxRolledBack,
              at_start = [''floor''],
              dialogs = [Other ''Could not get perimeter loops'', BoundariesFailed ValueError]\<rparr>"
    using T [where is_area_plan = True and pick = "Inr (0, 0, 0)"
              and floor_below_point = "\<lambda>p. Some ()" and create_boundaries = "\<lambda>fl. break_off",
              THEN conjunct1, rule_format, OF h1]
    by (simp add: sample_run_def)
  have h2: "True \<and> (Inr (0, 0, 0) :: py_error + XYZ) = Inr (0, 0, 0)
      \<and> (\<lambda>p :: XYZ. Some ()) (0, 0, 0) = Some () \<and> modifiable sample_run
      \<and> (\<lambda>fl :: unit. add_lines) () (document sample_run)
          = ([''floor'', ''line 1'', ''line 2''], [], None)
      \<and> (\<lambda>p :: XYZ. add_area) (0, 0, 0) [''floor'', ''line 1'', ''line 2'']
          = ([''floor'', ''line 1'', ''line 2'', ''area''], [], None)"
    using s w by simp
  have b2: "boundary_main True (Inr (0, 0, 0)) (\<lambda>p. Some ()) (\<lambda>fl. add_lines) (\<lambda>p. add_area)
        sample_run
       = Inr \<lparr>document = [''floor'', ''line 1'', ''line 2'', ''area''], modifiable = True,
              status = TxCommitted, at_start = [''floor''], dialogs = []\<rparr>"
    using T [where is_area_plan = True and pick = "Inr (0, 0, 0)"
              and floor_below_point = "\<lambda>p. Some ()" and create_boundaries = "\<lambda>fl. add_lines",
              THEN conjunct2, THEN conjunct1, rule_format, OF h2]
    by (simp add: sample_run_def)
  have h3: "True \<and> (Inr (0, 0, 0) :: py_error + XYZ) = Inr (0, 0, 0)
      \<and> (\<lambda>p :: XYZ. Some ()) (0, 0, 0) = Some ()
      \<and> \<not> modifiable (sample_run\<lparr>modifiable := False\<rparr>)"
    using s by simp
  note b3 = U [where is_area_plan = True and pick = "Inr (0, 0, 0)"
              and floor_below_point = "\<lambda>p. Some ()", THEN conjunct2, THEN conjunct2, THEN conjunct1, rule_format, OF h3]
  have b4: "boundary_main False (Inr (0, 0, 0)) (\<lambda>p. Some ()) (\<lambda>fl. add_lines) (\<lambda>p. add_area)
        sample_run
       = Inr (sample_run\<lparr>dialogs := [NotAnAreaPlan]\<rparr>)"
    using T [where is_area_plan = False and pick = "Inr (0, 0, 0)"
              and floor_below_point = "\<lambda>p. Some ()" and create_boundaries = "\<lambda>fl. add_lines",
              THEN conjunct2, THEN conjunct2, THEN conjunct2, THEN conjunct1, rule_format]
    by (simp add: sample_run_def)
  have h5: "True \<and> (\<exists>ex. (Inl HostError :: py_error + XYZ) = Inl ex)" by simp
  note b5 = T [where is_area_plan = True and pick = "Inl HostError"
              and floor_below_point = "\<lambda>p. Some ()" and create_boundaries = "\<lambda>fl. add_lines",
              THEN conjunct2, THEN conjunct2, THEN conjunct2, THEN conjunct2, THEN conjunct1, rule_format, OF h5]
  have h6: "True \<and> (Inr (0, 0, 0) :: py_error + XYZ) = Inr (0, 0, 0)
      \<and> (\<lambda>p :: XYZ. None :: unit option) (0, 0, 0) = None"
    by simp
  have b6: "boundary_main True (Inr (0, 0, 0)) (\<lambda>p. None :: unit option) (\<lambda>fl. add_lines)
         (\<lambda>p. add_area) sample_run
       = Inr (sample_run\<lparr>dialogs := [NoFloorFound]\<rparr>)"
    using T [where is_area_plan = True and pick = "Inr (0, 0, 0)"
              and floor_below_point = "\<lambda>p. None" and create_boundaries = "\<lambda>fl. add_lines",
              THEN conjunct2, THEN conjunct2, THEN conjunct2, THEN conjunct2, THEN conjunct2, THEN conjunct1, rule_format, OF h6]
    by (simp add: sample_run_def)
  have h7: "boundary_main True (Inr (0, 0, 0)) (\<lambda>p. Some ()) (\<lambda>fl. add_lines) (\<lambda>p. add_area)
        sample_run
       = Inr \<lparr>document = [''floor'', ''line 1'', ''line 2'', ''area''], modifiable = True,
              status = TxCommitted, at_start = [''floor''], dialogs = []\<rparr>
      \<and> document \<lparr>document = [''floor'', ''line 1'', ''line 2'', ''area''], modifiable = True,
              status = TxCommitted, at_start = [''floor''], dialogs = []\<rparr>
          \<noteq> document sample_run"
    using b2 s by simp
  note b7 = T [where is_area_plan = True and pick = "Inr (0, 0, 0)"
              and floor_below_point = "\<lambda>p. Some ()" and create_boundaries = "\<lambda>fl. add_lines",
              THEN conjunct2, THEN conjunct2, THEN conjunct2, THEN conjunct2, THEN conjunct2, THEN conjunct2, THEN conjunct1, rule_format, OF h7]
  have h8: "True \<and> modifiable sample_run
      \<and> break_off (document sample_run)
          = ([''floor'', ''line 1''], [Other ''Could not get perimeter loops''], Some ValueError)"
    and h9: "True \<and> modifiable sample_run
      \<and> add_lines (document sample_run) = ([''floor'', ''line 1'', ''line 2''], [], None)"
    and h10: "True \<and> \<not> modifiable (sample_run\<lparr>modifiable := False\<rparr>)"
    using s w by simp_all
  have a8: "on_apply True break_off sample_run
       = Inr \<lparr>document = [''floor''], modifiable = True, status = TxRolledBack,
              at_start = [''floor''],
              dialogs = [Other ''Could not get perimeter loops'', UpdateFailed ValueError]\<rparr>"
    using T [where has_mixes = True and update = break_off, THEN conjunct2, THEN conjunct2, THEN conjunct2, THEN conjunct2, THEN conjunct2, THEN conjunct2, THEN conjunct2, THEN conjunct1, rule_format, OF h8]
    by (simp add: sample_run_def)
  have a9: "on_apply True add_lines sample_run
       = Inr \<lparr>document = [''floor'', ''line 1'', ''line 2''], modifiable = True,
              status = TxCommitted, at_start = [''floor''], dialogs = []\<rparr>"
    using T [where has_mixes = True and update = add_lines, THEN conjunct2, THEN conjunct2, THEN conjunct2, THEN conjunct2, THEN conjunct2, THEN conjunct2, THEN conjunct2, THEN conjunct2, THEN conjunct1, rule_format, OF h9]
    by (simp add: sample_run_def)
  have a10: "on_apply True add_lines (sample_run\<lparr>modifiable := False\<rparr>)
       = Inr \<lparr>document = [''floor''], modifiable = False, status = TxNew,
              at_start = [''floor''], dialogs = [UpdateFailed HostError]\<rparr>"
    using U [where has_mixes = True, THEN conjunct2, THEN conjunct2, THEN conjunct2, THEN conjunct2, THEN conjunct2, THEN conjunct2, THEN conjunct2, THEN conjunct2, THEN conjunct2, THEN conjunct1, rule_format, OF h10]
    by (simp add: sample_run_def)
  have a11: "on_apply False add_lines sample_run = Inr sample_run"
    using T [where has_mixes = False and update = add_lines, THEN conjunct2, THEN conjunct2, THEN conjunct2, THEN conjunct2, THEN conjunct2, THEN conjunct2, THEN conjunct2, THEN conjunct2, THEN conjunct2, THEN conjunct2, THEN conjunct1, rule_format]
    by simp
  have h13: "on_apply True add_lines sample_run
       = Inr \<lparr>document = [''floor'', ''line 1'', ''line 2''], modifiable = True,
              status = TxCommitted, at_start = [''floor''], dialogs = []\<rparr>
      \<and> document \<lparr>document = [''floor'', ''line 1'', ''line 2''], modifiable = True,
              status = TxCommitted, at_start = [''floor''], dialogs = []\<rparr>
          \<noteq> document sample_run"
    using a9 s by simp
  note a13 = T [where has_mixes = True and update = add_lines, THEN conjunct2, THEN conjunct2, THEN conjunct2, THEN conjunct2, THEN conjunct2, THEN conjunct2, THEN conjunct2, THEN conjunct2, THEN conjunct2, THEN conjunct2, THEN conjunct2, THEN conjunct2, rule_format, OF h13]
  from s w b1 b2 b3 b4 b5 b6 b7 a8 a9 a10 a11 a13 show ?thesis by simp
qed

end
